(* ===== verification/Prelude.thy ===== *)
theory Prelude
  imports Complex_Main "HOL-Library.Word" "HOL-Library.Sublist"
begin

text \<open>
  Shared vocabulary of the development: the types that stand for Python's
  \<open>bytes\<close> and \<open>str\<close>, the Python exceptions the servers can raise, and the
  Python built-ins whose semantics differ from HOL's (slicing with a negative
  start, \<open>int()\<close> of a true division, \<open>str.strip()\<close>, the substring test
  \<open>a in b\<close>). Every component theory imports this one.
\<close>

section \<open>Types\<close>

type_synonym byte = "8 word"

text \<open>Python \<open>bytes\<close>: a list of octets.\<close>
type_synonym bytes = "byte list"

text \<open>
  Python \<open>str\<close> holding recognised text: a list of Unicode code points, so that
  \<open>len\<close> and slicing count what Python counts (a HOL \<open>char\<close> is one octet).
  Identifiers that are ASCII in the protocol (\<open>mode\<close>, \<open>wav_name\<close>, hot words)
  are plain HOL \<open>string\<close>s.
\<close>
type_synonym ustr = "nat list"

text \<open>Exceptions that leave a handler of the servers.\<close>
datatype py_error =
    KeyError
  | IndexError
  | ZeroDivisionError
  | AttributeError
  | ValueError
  | ModelError \<comment> \<open>an exception raised inside a recognition model\<close>

named_theorems py_simps "evaluation rules of the modelled Python built-ins"

text \<open>Sequencing of statements that may raise: the first exception propagates.\<close>
definition sbind :: "'e + 'a \<Rightarrow> ('a \<Rightarrow> 'e + 'b) \<Rightarrow> 'e + 'b" where
  "sbind x f = (case x of Inl e \<Rightarrow> Inl e | Inr a \<Rightarrow> f a)"

lemma sbind_simps [simp, py_simps]:
  "sbind (Inl e) f = Inl e" "sbind (Inr a) f = f a"
  by (simp_all add: sbind_def)

lemma sbind_Inr_iff: "sbind x f = Inr b \<longleftrightarrow> (\<exists>a. x = Inr a \<and> f a = Inr b)"
  by (cases x) simp_all

section \<open>Python built-ins\<close>

text \<open>\<open>xs[i:]\<close>: a negative start counts from the end and is clamped at 0.\<close>
definition py_slice_from :: "int \<Rightarrow> 'a list \<Rightarrow> 'a list" where
  "py_slice_from i xs =
     (if i < 0 then drop (nat (int (length xs) + i)) xs else drop (nat i) xs)"

text \<open>\<open>a // b\<close> on ints: floor division, raising on a zero divisor.\<close>
definition py_floordiv :: "int \<Rightarrow> int \<Rightarrow> py_error + int" where
  "py_floordiv a b = (if b = 0 then Inl ZeroDivisionError else Inr (a div b))"

text \<open>\<open>int(a / b)\<close> on ints: true division, then truncation towards zero.\<close>
definition py_int_truediv :: "int \<Rightarrow> int \<Rightarrow> py_error + int" where
  "py_int_truediv a b =
     (if b = 0 then Inl ZeroDivisionError else Inr (sgn a * sgn b * (\<bar>a\<bar> div \<bar>b\<bar>)))"

text \<open>The code points \<open>str.isspace\<close> accepts, the set \<open>str.strip()\<close> removes.\<close>
definition py_isspace :: "nat \<Rightarrow> bool" where
  "py_isspace c \<longleftrightarrow>
     (9 \<le> c \<and> c \<le> 13) \<or> (28 \<le> c \<and> c \<le> 32) \<or> c = 133 \<or> c = 160 \<or> c = 5760 \<or>
     (8192 \<le> c \<and> c \<le> 8202) \<or> c = 8232 \<or> c = 8233 \<or> c = 8239 \<or> c = 8287 \<or> c = 12288"

definition py_strip :: "ustr \<Rightarrow> ustr" where
  "py_strip s = rev (dropWhile py_isspace (rev (dropWhile py_isspace s)))"

text \<open>\<open>p in t\<close> on strings: \<open>p\<close> occurs contiguously in \<open>t\<close>.\<close>
fun py_contains :: "'a list \<Rightarrow> 'a list \<Rightarrow> bool" where
  "py_contains p [] = (p = [])"
| "py_contains p (c # t) = (prefix p (c # t) \<or> py_contains p t)"

text \<open>\<open>d.get(key, default)\<close>: the value stored under the key, or the default.\<close>
definition py_get :: "'a \<Rightarrow> 'a option \<Rightarrow> 'a" where
  "py_get dflt v = (case v of None \<Rightarrow> dflt | Some x \<Rightarrow> x)"

text \<open>\<open>sep.join(ts)\<close>.\<close>
fun py_join :: "'a list \<Rightarrow> 'a list list \<Rightarrow> 'a list" where
  "py_join sep [] = []"
| "py_join sep [t] = t"
| "py_join sep (t # ts) = t @ sep @ py_join sep ts"

text \<open>\<open>str.split(",")\<close>.\<close>
fun split_on :: "char \<Rightarrow> string \<Rightarrow> string list" where
  "split_on sep [] = [[]]"
| "split_on sep (c # cs) =
     (if c = sep then [] # split_on sep cs
      else (case split_on sep cs of w # ws \<Rightarrow> (c # w) # ws | [] \<Rightarrow> [[c]]))"

definition digit_val :: "nat \<Rightarrow> int option" where
  "digit_val n = (if 48 \<le> n \<and> n \<le> 57 then Some (int n - 48) else None)"

fun digits_val :: "int \<Rightarrow> nat list \<Rightarrow> int option" where
  "digits_val acc [] = Some acc"
| "digits_val acc (c # cs) =
     (case digit_val c of None \<Rightarrow> None | Some d \<Rightarrow> digits_val (10 * acc + d) cs)"

text \<open>
  \<open>int(x)\<close> of a string, on its code points: surrounding white space, an
  optional sign (45 is \<open>-\<close>, 43 is \<open>+\<close>), decimal digits (the underscores
  Python also accepts between digits are not modelled).
\<close>

definition py_int_of_str :: "string \<Rightarrow> int option" where
  "py_int_of_str s =
     (let t = py_strip (map of_char s)
      in case t of
           [] \<Rightarrow> None
         | c # cs \<Rightarrow>
             (if c = 45 then (if cs = [] then None else map_option uminus (digits_val 0 cs))
              else if c = 43 then (if cs = [] then None else digits_val 0 cs)
              else digits_val 0 t))"

text \<open>The decimal digits of a natural number, as code points (48 is \<open>0\<close>).\<close>

fun string_of_nat :: "nat \<Rightarrow> ustr" where
  "string_of_nat n = (if n < 10 then [48 + n] else string_of_nat (n div 10) @ [48 + n mod 10])"

declare string_of_nat.simps [simp del]

text \<open>\<open>str(i)\<close> for a Python \<open>int\<close> (45 is \<open>-\<close>).\<close>

definition show_int :: "int \<Rightarrow> ustr" where
  "show_int i = (if i < 0 then 45 # string_of_nat (nat (- i)) else string_of_nat (nat i))"

section \<open>Lemmas on the built-ins\<close>

lemma py_get_simps [simp, py_simps]:
  "py_get d None = d" "py_get d (Some x) = x"
  by (simp_all add: py_get_def)


lemma py_slice_from_zero [simp, py_simps]: "py_slice_from 0 xs = xs"
  by (simp add: py_slice_from_def)

lemma py_slice_from_neg [py_simps]:
  "0 < b \<Longrightarrow> py_slice_from (- b) xs = drop (length xs - nat b) xs"
  by (simp add: py_slice_from_def nat_diff_distrib')

lemma py_slice_from_neg_length:
  "0 < b \<Longrightarrow> length (py_slice_from (- b) xs) = min (nat b) (length xs)"
  by (simp add: py_slice_from_neg)

lemma py_slice_from_suffix: "suffix (py_slice_from i xs) xs"
  by (simp add: py_slice_from_def suffix_drop)

lemma py_floordiv_ok [simp, py_simps]: "b \<noteq> 0 \<Longrightarrow> py_floordiv a b = Inr (a div b)"
  by (simp add: py_floordiv_def)

lemma py_floordiv_zero [simp, py_simps]: "py_floordiv a 0 = Inl ZeroDivisionError"
  by (simp add: py_floordiv_def)

lemma py_int_truediv_nonneg [py_simps]:
  "0 \<le> a \<Longrightarrow> 0 < b \<Longrightarrow> py_int_truediv a b = Inr (a div b)"
  by (cases "a = 0") (simp_all add: py_int_truediv_def)

lemma py_contains_sublist: "py_contains p t \<longleftrightarrow> sublist p t"
  by (induction t) (auto simp: sublist_Cons_right)

text \<open>The two equations of \<open>string_of_nat\<close>, used to print concrete numbers.\<close>

lemma string_of_nat_small: "n < 10 \<Longrightarrow> string_of_nat n = [48 + n]"
  by (subst string_of_nat.simps) simp

lemma string_of_nat_big: "\<not> n < 10 \<Longrightarrow> string_of_nat n = string_of_nat (n div 10) @ [48 + n mod 10]"
  by (subst string_of_nat.simps) simp

end
