(* ===== verification/AudioBuffer.thy ===== *)
theory AudioBuffer
  imports Prelude
begin

text \<open>
  The two \<open>AudioBuffer\<close> classes of the repository: the one of the streaming
  server \<open>src/websocket/funasr_wss_server.py\<close> (lines 180--229), which compacts
  by discarding the processed prefix, and the one of the unified server
  \<open>src/websocket/funasr_unified_server.py\<close> (lines 247--277), which evicts the
  oldest bytes. Each class is a record and each method a definition; the
  well-formedness invariant is \<open>processed_size \<le> len(buffer)\<close>. The spec's
  eviction policy (spec section 3, AudioFrameBuffer) is stated beside the
  unified class to compare the two.
\<close>

section \<open>The streaming server's buffer\<close>

record audio_buffer =
  buffer :: bytes
  max_buffer_size :: nat
  processed_size :: nat

definition AudioBuffer :: "nat \<Rightarrow> audio_buffer" where
  "AudioBuffer max_buffer_size_mb =
     \<lparr>buffer = [], max_buffer_size = max_buffer_size_mb * 1024 * 1024, processed_size = 0\<rparr>"

definition add_chunk :: "audio_buffer \<Rightarrow> bytes \<Rightarrow> audio_buffer" where
  "add_chunk b chunk =
     (let b' = b\<lparr>buffer := buffer b @ chunk\<rparr>
      in if max_buffer_size b' < length (buffer b')
         then b'\<lparr>buffer := drop (processed_size b') (buffer b'), processed_size := 0\<rparr>
         else b')"

definition get_unprocessed_data :: "audio_buffer \<Rightarrow> bytes" where
  "get_unprocessed_data b = (if buffer b = [] then [] else drop (processed_size b) (buffer b))"

definition mark_processed :: "audio_buffer \<Rightarrow> nat \<Rightarrow> audio_buffer" where
  "mark_processed b sz = b\<lparr>processed_size := processed_size b + sz\<rparr>"

definition clear :: "audio_buffer \<Rightarrow> audio_buffer" where
  "clear b = b\<lparr>buffer := [], processed_size := 0\<rparr>"

definition get_buffer_size :: "audio_buffer \<Rightarrow> nat" where
  "get_buffer_size b = length (buffer b)"

definition buffer_wf :: "audio_buffer \<Rightarrow> bool" where
  "buffer_wf b \<longleftrightarrow> processed_size b \<le> length (buffer b)"

lemmas buffer_ops_defs = add_chunk_def get_unprocessed_data_def mark_processed_def
  clear_def get_buffer_size_def buffer_wf_def AudioBuffer_def

lemma get_unprocessed_data_drop [simp]:
  "get_unprocessed_data b = drop (processed_size b) (buffer b)"
  by (simp add: get_unprocessed_data_def)

lemma add_chunk_fields [simp]:
  "max_buffer_size (add_chunk b c) = max_buffer_size b"
  "buffer (add_chunk b c) =
     (if max_buffer_size b < length (buffer b) + length c
      then drop (processed_size b) (buffer b @ c) else buffer b @ c)"
  "processed_size (add_chunk b c) =
     (if max_buffer_size b < length (buffer b) + length c then 0 else processed_size b)"
  by (simp_all add: add_chunk_def Let_def)

lemma clear_fields [simp]:
  "buffer (clear b) = []" "processed_size (clear b) = 0"
  "max_buffer_size (clear b) = max_buffer_size b"
  by (simp_all add: clear_def)

lemma mark_processed_fields [simp]:
  "buffer (mark_processed b n) = buffer b"
  "processed_size (mark_processed b n) = processed_size b + n"
  "max_buffer_size (mark_processed b n) = max_buffer_size b"
  by (simp_all add: mark_processed_def)

subsection \<open>Invariant\<close>

lemma AudioBuffer_wf: "buffer_wf (AudioBuffer mb)"
  by (simp add: buffer_wf_def AudioBuffer_def)

lemma add_chunk_wf: "buffer_wf b \<Longrightarrow> buffer_wf (add_chunk b c)"
  by (simp add: buffer_wf_def)

lemma clear_wf: "buffer_wf (clear b)"
  by (simp add: buffer_wf_def)

lemma mark_processed_wf:
  "buffer_wf b \<Longrightarrow> n \<le> length (get_unprocessed_data b) \<Longrightarrow> buffer_wf (mark_processed b n)"
  by (simp add: buffer_wf_def)

lemma mark_processed_unprocessed [simp]:
  "get_unprocessed_data (mark_processed b n) = drop n (get_unprocessed_data b)"
  by (simp add: add.commute)

text \<open>
  The file-upload pattern of \<open>ws_serve\<close> (lines 386 and 413): a chunk
  appended and then marked processed leaves the amount of unprocessed data
  unchanged.
\<close>

lemma mark_processed_add_chunk_unprocessed:
  "buffer_wf b \<Longrightarrow>
     length (get_unprocessed_data (mark_processed (add_chunk b c) (length c))) =
     length (get_unprocessed_data b)"
  by (simp add: buffer_wf_def)

subsection \<open>Functional behaviour\<close>

text \<open>
  Appending never loses unprocessed audio: compaction only discards the
  processed prefix, so the unprocessed suffix grows by exactly the chunk.
\<close>

text \<open>
  C1: after \<open>add_chunk\<close> on a well-formed buffer, the unprocessed data is the
  unprocessed data before followed by the whole chunk; compaction never drops
  audio that has not been processed.
\<close>

lemma add_chunk_unprocessed:
  assumes "buffer_wf b"
  shows "get_unprocessed_data (add_chunk b c) = get_unprocessed_data b @ c"
  using assms by (simp add: buffer_wf_def)

lemma add_chunk_unprocessed_witness:
  "buffer_wf \<lparr>buffer = [1, 2, 3], max_buffer_size = 4, processed_size = 2\<rparr> \<and>
   get_unprocessed_data (add_chunk \<lparr>buffer = [1, 2, 3], max_buffer_size = 4, processed_size = 2\<rparr> [4, 5])
     = [3, 4, 5]"
  using add_chunk_unprocessed [of "\<lparr>buffer = [1, 2, 3], max_buffer_size = 4, processed_size = 2\<rparr>" "[4, 5]"]
  by (simp add: buffer_wf_def)

lemma add_chunk_length:
  assumes "buffer_wf b"
  shows "get_buffer_size (add_chunk b c) =
           length (buffer b) + length c -
             (if max_buffer_size b < length (buffer b) + length c then processed_size b else 0)"
  using assms by (simp add: get_buffer_size_def buffer_wf_def)

text \<open>
  The length is not bounded by \<open>max_buffer_size\<close>: with nothing processed,
  compaction drops nothing.
\<close>

text \<open>
  C4: the streaming server's buffer is not bounded by its capacity: when nothing
  has been marked processed, an append that passes \<open>max_buffer_size\<close> keeps
  every byte and the buffer ends longer than the capacity.
\<close>

lemma add_chunk_exceeds_max:
  assumes "processed_size b = 0" and "max_buffer_size b < length (buffer b) + length c"
  shows "max_buffer_size b < get_buffer_size (add_chunk b c)"
  using assms by (simp add: get_buffer_size_def)

lemma add_chunk_exceeds_max_witness:
  "processed_size \<lparr>buffer = [1, 2, 3], max_buffer_size = 4, processed_size = 0\<rparr> = 0 \<and>
   max_buffer_size \<lparr>buffer = [1, 2, 3], max_buffer_size = 4, processed_size = 0\<rparr> <
     length (buffer \<lparr>buffer = [1, 2, 3 :: byte], max_buffer_size = 4, processed_size = 0\<rparr>) + length [4, 5 :: byte] \<and>
   4 < get_buffer_size (add_chunk \<lparr>buffer = [1, 2, 3], max_buffer_size = 4, processed_size = 0\<rparr> [4, 5])"
  using add_chunk_exceeds_max [of "\<lparr>buffer = [1, 2, 3], max_buffer_size = 4, processed_size = 0\<rparr>" "[4, 5]"]
  by simp

section \<open>The unified server's buffer\<close>

record u_audio_buffer =
  ubuffer :: bytes
  umax_buffer_size :: nat
  uprocessed_size :: nat

definition UAudioBuffer :: "nat \<Rightarrow> u_audio_buffer" where
  "UAudioBuffer max_buffer_size_mb =
     \<lparr>ubuffer = [], umax_buffer_size = max_buffer_size_mb * 1024 * 1024, uprocessed_size = 0\<rparr>"

definition u_add_chunk :: "u_audio_buffer \<Rightarrow> bytes \<Rightarrow> u_audio_buffer" where
  "u_add_chunk b chunk =
     (let b' = (if umax_buffer_size b < length (ubuffer b) + length chunk
                then (let overflow_size = length (ubuffer b) + length chunk - umax_buffer_size b
                      in b\<lparr>ubuffer := drop overflow_size (ubuffer b),
                           uprocessed_size := uprocessed_size b + overflow_size\<rparr>)
                else b)
      in b'\<lparr>ubuffer := ubuffer b' @ chunk\<rparr>)"

definition u_get_unprocessed_data :: "u_audio_buffer \<Rightarrow> bytes" where
  "u_get_unprocessed_data b = drop (uprocessed_size b) (ubuffer b)"

definition u_mark_processed :: "u_audio_buffer \<Rightarrow> nat \<Rightarrow> u_audio_buffer" where
  "u_mark_processed b sz =
     b\<lparr>uprocessed_size := min (uprocessed_size b + sz) (length (ubuffer b))\<rparr>"

definition u_clear :: "u_audio_buffer \<Rightarrow> u_audio_buffer" where
  "u_clear b = b\<lparr>ubuffer := [], uprocessed_size := 0\<rparr>"

definition u_get_buffer_size :: "u_audio_buffer \<Rightarrow> nat" where
  "u_get_buffer_size b = length (ubuffer b)"

lemma u_add_chunk_fields [simp]:
  "umax_buffer_size (u_add_chunk b c) = umax_buffer_size b"
  "ubuffer (u_add_chunk b c) =
     drop (length (ubuffer b) + length c - umax_buffer_size b) (ubuffer b) @ c"
  "uprocessed_size (u_add_chunk b c) =
     uprocessed_size b + (length (ubuffer b) + length c - umax_buffer_size b)"
  by (simp_all add: u_add_chunk_def Let_def)

lemma u_mark_processed_fields [simp]:
  "ubuffer (u_mark_processed b n) = ubuffer b"
  "uprocessed_size (u_mark_processed b n) = min (uprocessed_size b + n) (length (ubuffer b))"
  by (simp_all add: u_mark_processed_def)

text \<open>
  The eviction the spec describes (section 3, AudioFrameBuffer): drop the oldest
  \<open>newLength - capacity\<close> bytes and decrement the watermark by as much, never
  below zero.
\<close>

definition spec_evict_append :: "u_audio_buffer \<Rightarrow> bytes \<Rightarrow> u_audio_buffer" where
  "spec_evict_append b chunk =
     (let n = length (ubuffer b) + length chunk - umax_buffer_size b
      in b\<lparr>ubuffer := drop n (ubuffer b @ chunk), uprocessed_size := uprocessed_size b - n\<rparr>)"

definition u_buffer_wf :: "u_audio_buffer \<Rightarrow> bool" where
  "u_buffer_wf b \<longleftrightarrow>
     uprocessed_size b \<le> length (ubuffer b) \<and> length (ubuffer b) \<le> umax_buffer_size b"

subsection \<open>Bounds\<close>

lemma u_add_chunk_length:
  "u_get_buffer_size (u_add_chunk b c) =
     length (ubuffer b) - (length (ubuffer b) + length c - umax_buffer_size b) + length c"
  by (simp add: u_get_buffer_size_def)

text \<open>
  C3: the unified server's buffer stays within its capacity: from a buffer no
  longer than \<open>max_buffer_size\<close>, appending a chunk no longer than
  \<open>max_buffer_size\<close> leaves a buffer no longer than \<open>max_buffer_size\<close>.
\<close>

lemma u_add_chunk_bounded:
  assumes "length (ubuffer b) \<le> umax_buffer_size b" and "length c \<le> umax_buffer_size b"
  shows "u_get_buffer_size (u_add_chunk b c) \<le> umax_buffer_size b"
  using assms by (simp add: u_add_chunk_length)

lemma u_add_chunk_bounded_witness:
  "length (ubuffer \<lparr>ubuffer = [1, 2, 3 :: byte], umax_buffer_size = 4, uprocessed_size = 0\<rparr>) \<le> 4 \<and>
   length [4, 5 :: byte] \<le> 4 \<and>
   u_get_buffer_size (u_add_chunk \<lparr>ubuffer = [1, 2, 3], umax_buffer_size = 4, uprocessed_size = 0\<rparr> [4, 5]) \<le> 4"
  using u_add_chunk_bounded [of "\<lparr>ubuffer = [1, 2, 3], umax_buffer_size = 4, uprocessed_size = 0\<rparr>" "[4, 5]"]
  by simp

lemma u_add_chunk_oversized:
  assumes "umax_buffer_size b < length c"
  shows "u_get_buffer_size (u_add_chunk b c) = length c"
  using assms by (simp add: u_add_chunk_length)

lemma spec_evict_append_wf:
  assumes "u_buffer_wf b" and "length c \<le> umax_buffer_size b"
  shows "u_buffer_wf (spec_evict_append b c)"
  using assms by (auto simp: u_buffer_wf_def spec_evict_append_def Let_def)

text \<open>The two eviction policies keep the same bytes; only the watermark differs.\<close>

lemma u_add_chunk_bytes_as_spec:
  "length c \<le> umax_buffer_size b \<Longrightarrow> ubuffer (u_add_chunk b c) = ubuffer (spec_evict_append b c)"
  by (simp add: spec_evict_append_def Let_def)

subsection \<open>The watermark after an eviction\<close>

text \<open>
  The code adds the evicted length to \<open>processed_size\<close> instead of subtracting
  it. From a full buffer whose content is all processed, the chunk that causes
  the eviction is reported as already processed: it never reaches the
  recogniser.
\<close>

text \<open>
  C2: in the unified server's buffer, an append to a full buffer whose content is
  all processed leaves no unprocessed data, so the appended chunk is lost to the
  recogniser (the watermark is increased by the evicted length where the spec
  decrements it).
\<close>

lemma u_add_chunk_full_loses_chunk:
  assumes "uprocessed_size b = length (ubuffer b)"
    and "length (ubuffer b) = umax_buffer_size b"
    and "length c \<le> umax_buffer_size b"
  shows "u_get_unprocessed_data (u_add_chunk b c) = []"
  using assms by (simp add: u_get_unprocessed_data_def)

lemma u_add_chunk_full_loses_chunk_witness:
  "uprocessed_size \<lparr>ubuffer = [0, 0, 0, 0 :: byte], umax_buffer_size = 4, uprocessed_size = 4\<rparr> = 4 \<and>
   u_get_unprocessed_data (u_add_chunk \<lparr>ubuffer = [0, 0, 0, 0], umax_buffer_size = 4, uprocessed_size = 4\<rparr> [7]) = []"
  using u_add_chunk_full_loses_chunk [of "\<lparr>ubuffer = [0, 0, 0, 0], umax_buffer_size = 4, uprocessed_size = 4\<rparr>" "[7]"]
  by simp

lemma spec_evict_append_keeps_chunk:
  assumes "uprocessed_size b = length (ubuffer b)"
    and "length (ubuffer b) = umax_buffer_size b"
    and "length c \<le> umax_buffer_size b"
  shows "drop (uprocessed_size (spec_evict_append b c)) (ubuffer (spec_evict_append b c)) = c"
  using assms by (simp add: spec_evict_append_def Let_def)

end
