(* ===== verification/ActivityCheck.thy ===== *)
theory ActivityCheck
  imports AudioBuffer
begin

text \<open>
  \<open>AudioBuffer.is_likely_active\<close> of the streaming server
  (\<open>src/websocket/funasr_wss_server.py\<close>, lines 217--229): an energy test on
  the whole buffer read as 16-bit PCM. \<open>np.frombuffer(buffer, dtype=np.int16)\<close>
  reads little-endian samples and raises \<open>ValueError\<close> when the byte count
  is odd; \<open>np.abs\<close> on \<open>int16\<close> wraps, so \<open>abs(-32768)\<close> is \<open>-32768\<close>;
  \<open>np.mean\<close> is the float mean, exact here because the sums of 16-bit
  samples stay far below \<open>2^53\<close>. The method is not called anywhere in the
  repository.
\<close>

section \<open>Samples and the energy test\<close>

text \<open>One little-endian sample: the low byte plus 256 times the high byte, modulo \<open>2^16\<close>.\<close>

definition le16 :: "byte \<Rightarrow> byte \<Rightarrow> 16 word" where
  "le16 lo hi = ucast lo + 256 * ucast hi"

fun int16_samples :: "bytes \<Rightarrow> 16 word list" where
  "int16_samples (lo # hi # rest) = le16 lo hi # int16_samples rest"
| "int16_samples _ = []"

definition np_frombuffer_int16 :: "bytes \<Rightarrow> py_error + 16 word list" where
  "np_frombuffer_int16 b = (if odd (length b) then Inl ValueError else Inr (int16_samples b))"

text \<open>\<open>np.abs\<close> on \<open>int16\<close>: the negation wraps at \<open>-32768\<close>.\<close>

definition np_abs16 :: "16 word \<Rightarrow> 16 word" where
  "np_abs16 w = (if sint w < 0 then - w else w)"

definition np_mean :: "16 word list \<Rightarrow> real" where
  "np_mean xs = of_int (sum_list (map sint xs)) / of_nat (length xs)"

definition is_likely_active :: "audio_buffer \<Rightarrow> py_error + bool" where
  "is_likely_active b =
     (if length (buffer b) < 320 then Inr False
      else sbind (np_frombuffer_int16 (buffer b)) (\<lambda>audio_array.
             if list_all (\<lambda>x. x = 0) audio_array then Inr False
             else Inr (100 < np_mean (map np_abs16 audio_array))))"

section \<open>Properties\<close>

lemma int16_samples_length: "length (int16_samples b) = length b div 2"
  by (induction b rule: int16_samples.induct) auto

lemma sint_np_abs16:
  "sint (np_abs16 w) = \<bar>sint w\<bar> - (if sint w = -32768 then 65536 else 0)"
proof (cases "sint w < 0")
  case True
  have lo: "-32768 \<le> sint w"
    using sint_ge [of w] by simp
  have "sint (- w) = signed_take_bit 15 (- sint w)"
    by (simp add: sint_word_ariths)
  show ?thesis
  proof (cases "sint w = -32768")
    case True
    with \<open>sint (- w) = _\<close> show ?thesis
      by (simp add: np_abs16_def)
  next
    case False
    with lo have "-32768 < sint w" by simp
    then have "signed_take_bit 15 (- sint w) = - sint w"
      using \<open>sint w < 0\<close> by (intro signed_take_bit_int_eq_self) simp_all
    with \<open>sint (- w) = _\<close> \<open>sint w < 0\<close> False show ?thesis
      by (simp add: np_abs16_def)
  qed
next
  case False
  then show ?thesis by (simp add: np_abs16_def)
qed

lemma int16_samples_pairs:
  "int16_samples (concat (replicate n [lo, hi])) = replicate n (le16 lo hi)"
  by (induction n) simp_all

lemma length_pairs: "length (concat (replicate n [lo, hi :: byte])) = 2 * n"
  by (induction n) simp_all

lemma np_mean_abs16:
  assumes "xs \<noteq> []"
  shows "np_mean (map np_abs16 xs) =
           of_int ((\<Sum>x\<leftarrow>xs. \<bar>sint x\<bar>) - 65536 * int (length (filter (\<lambda>x. sint x = -32768) xs))) /
           of_nat (length xs)"
proof -
  have "(\<Sum>x\<leftarrow>xs. sint (np_abs16 x)) =
          (\<Sum>x\<leftarrow>xs. \<bar>sint x\<bar>) - 65536 * int (length (filter (\<lambda>x. sint x = -32768) xs))"
    by (induction xs) (simp_all add: sint_np_abs16 algebra_simps)
  then show ?thesis
    by (simp add: np_mean_def o_def)
qed

text \<open>
  C34: the energy test on an even buffer of at least 320 bytes whose samples
  are not all zero: the buffer counts as active exactly when the sum of the
  sample magnitudes exceeds 100 per sample, where every sample \<open>-32768\<close>
  contributes \<open>-32768\<close> instead of \<open>32768\<close>, because \<open>np.abs\<close> wraps on
  \<open>int16\<close>. A full-scale negative signal therefore counts as silence. The
  length test is on bytes: the comment of line 219 asks for 20 ms, 320
  samples, but 320 bytes are 160 samples (10 ms at 16 kHz), so buffers of 320
  to 639 bytes go through the energy test and can count as active.
\<close>

theorem is_likely_active_energy:
  assumes "320 \<le> length (buffer b)" and "even (length (buffer b))"
    and "\<not> list_all (\<lambda>x. x = 0) (int16_samples (buffer b))"
  shows "is_likely_active b =
           Inr (100 * int (length (buffer b) div 2) <
                (\<Sum>x\<leftarrow>int16_samples (buffer b). \<bar>sint x\<bar>) -
                65536 * int (length (filter (\<lambda>x. sint x = -32768) (int16_samples (buffer b)))))"
proof -
  let ?xs = "int16_samples (buffer b)"
  have n: "length ?xs = length (buffer b) div 2" "0 < length ?xs"
    using assms(1) by (simp_all add: int16_samples_length)
  then have ne: "?xs \<noteq> []" by auto
  have "100 < np_mean (map np_abs16 ?xs) \<longleftrightarrow>
        100 * int (length ?xs) < (\<Sum>x\<leftarrow>?xs. \<bar>sint x\<bar>) -
          65536 * int (length (filter (\<lambda>x. sint x = -32768) ?xs))"
    using n(2) of_int_less_iff [where 'a = real, of "100 * int (length ?xs)"
        "(\<Sum>x\<leftarrow>?xs. \<bar>sint x\<bar>) - 65536 * int (length (filter (\<lambda>x. sint x = -32768) ?xs))"]
    by (simp add: np_mean_abs16 [OF ne] pos_less_divide_eq)
  with assms n show ?thesis
    by (simp add: is_likely_active_def np_frombuffer_int16_def)
qed

theorem is_likely_active_energy_witness:
  "320 \<le> length (concat (replicate 160 [200, 0 :: byte])) \<and> even (length (concat (replicate 160 [200, 0 :: byte]))) \<and>
   \<not> list_all (\<lambda>x. x = 0) (int16_samples (concat (replicate 160 [200, 0 :: byte]))) \<and>
   is_likely_active \<lparr>buffer = concat (replicate 160 [200, 0 :: byte]), max_buffer_size = 0, processed_size = 0\<rparr> = Inr True \<and>
   320 \<le> length (concat (replicate 160 [0, 128 :: byte])) \<and> even (length (concat (replicate 160 [0, 128 :: byte]))) \<and>
   \<not> list_all (\<lambda>x. x = 0) (int16_samples (concat (replicate 160 [0, 128 :: byte]))) \<and>
   is_likely_active \<lparr>buffer = concat (replicate 160 [0, 128 :: byte]), max_buffer_size = 0, processed_size = 0\<rparr> = Inr False"
  using is_likely_active_energy [of "\<lparr>buffer = concat (replicate 160 [200, 0 :: byte]), max_buffer_size = 0, processed_size = 0\<rparr>"] is_likely_active_energy [of "\<lparr>buffer = concat (replicate 160 [0, 128 :: byte]), max_buffer_size = 0, processed_size = 0\<rparr>"]
  by (simp add: length_pairs int16_samples_pairs sum_list_replicate list_all_iff le16_def)

text \<open>
  A buffer of at least 320 bytes with an odd byte count makes
  \<open>np.frombuffer(..., dtype=np.int16)\<close> raise \<open>ValueError\<close>, which
  \<open>is_likely_active\<close> does not catch.
\<close>

theorem is_likely_active_odd:
  assumes "320 \<le> length (buffer b)" and "odd (length (buffer b))"
  shows "is_likely_active b = Inl ValueError"
  using assms by (simp add: is_likely_active_def np_frombuffer_int16_def)

theorem is_likely_active_odd_witness:
  "320 \<le> length (replicate 321 (0 :: byte)) \<and> odd (length (replicate 321 (0 :: byte))) \<and>
   is_likely_active \<lparr>buffer = replicate 321 0, max_buffer_size = 0, processed_size = 0\<rparr> = Inl ValueError"
  using is_likely_active_odd [of "\<lparr>buffer = replicate 321 0, max_buffer_size = 0, processed_size = 0\<rparr>"] by simp

end
