(* ===== verification/TextEmitter.thy ===== *)
theory TextEmitter
  imports Prelude
begin

text \<open>
  The incremental text emitter of the streaming server: the part of
  \<open>async_asr_online\<close> (\<open>src/websocket/funasr_wss_server.py\<close>, lines 662--685)
  that sends only the suffix of the online transcript not yet sent, keyed by
  the per-connection cursor \<open>sent_text_length\<close>. The emitter is a function
  from the cursor and the recogniser's text to the text sent (if any) and the
  new cursor; \<open>emit_all\<close> runs it over successive texts. The cursor's reset
  to 0 when the client starts speaking belongs to the session handler.
\<close>

section \<open>The emitter\<close>

text \<open>
  Lines 662--673: when the text is non-empty and longer than the cursor, the
  suffix from the cursor is sent and the cursor moves to the text's length;
  otherwise nothing is sent and the cursor is kept.
\<close>

definition emit_new_text :: "nat \<Rightarrow> ustr \<Rightarrow> ustr option \<times> nat" where
  "emit_new_text sent_text_length full_text =
     (if full_text \<noteq> [] \<and> sent_text_length < length full_text
      then (Some (drop sent_text_length full_text), length full_text)
      else (None, sent_text_length))"

text \<open>Successive calls on one connection, collecting what is sent.\<close>

fun emit_all :: "nat \<Rightarrow> ustr list \<Rightarrow> ustr list \<times> nat" where
  "emit_all n [] = ([], n)"
| "emit_all n (t # ts) =
     (case emit_new_text n t of
        (None, n') \<Rightarrow> emit_all n' ts
      | (Some d, n') \<Rightarrow> (let (ds, n'') = emit_all n' ts in (d # ds, n'')))"

section \<open>Lemmas\<close>

lemma emit_new_text_grow [simp]:
  "n < length t \<Longrightarrow> emit_new_text n t = (Some (drop n t), length t)"
  by (auto simp: emit_new_text_def)

lemma emit_new_text_keep [simp]:
  "length t \<le> n \<Longrightarrow> emit_new_text n t = (None, n)"
  by (auto simp: emit_new_text_def)

lemma emit_all_Cons_grow [simp]:
  "n < length t \<Longrightarrow> emit_all n (t # ts) = (drop n t # fst (emit_all (length t) ts), snd (emit_all (length t) ts))"
  by (simp add: case_prod_beta)

lemma emit_all_Cons_keep [simp]:
  "length t \<le> n \<Longrightarrow> emit_all n (t # ts) = emit_all n ts"
  by simp

declare emit_all.simps(2) [simp del]

text \<open>The cursor never decreases.\<close>

lemma emit_all_cursor_mono: "n \<le> snd (emit_all n ts)"
proof (induction ts arbitrary: n)
  case Nil
  then show ?case by simp
next
  case (Cons t ts)
  show ?case
  proof (cases "n < length t")
    case True
    with Cons.IH [of "length t"] show ?thesis by simp
  next
    case False
    with Cons.IH [of n] show ?thesis by simp
  qed
qed

text \<open>
  The generalised form of monotonicity: when each text extends the previous
  one and the cursor stands at the end of the text already sent, the deltas
  sent make up exactly the rest of the last text.
\<close>

lemma emit_all_prefix_chain:
  assumes "sorted_wrt prefix (p # ts)" and "n = length p"
  shows "concat (fst (emit_all n ts)) = drop n (last (p # ts))"
  using assms
proof (induction ts arbitrary: p n)
  case Nil
  then show ?case by simp
next
  case (Cons t ts)
  from Cons.prems(1) have pt: "prefix p t" and chain: "sorted_wrt prefix (t # ts)"
    by auto
  have last_ext: "prefix t (last (t # ts))"
    using chain by (cases ts) (auto simp: last_in_set)
  show ?case
  proof (cases "n < length t")
    case True
    have IH: "concat (fst (emit_all (length t) ts)) = drop (length t) (last (t # ts))"
      using Cons.IH [OF chain refl] .
    obtain r where r: "last (t # ts) = t @ r"
      using last_ext by (auto simp: prefix_def)
    from True IH r show ?thesis by simp
  next
    case False
    with pt Cons.prems(2) have "p = t"
      by (metis prefix_length_le prefix_length_prefix prefix_order.eq_iff le_antisym not_less)
    with False Cons.IH [OF chain] Cons.prems(2) show ?thesis by simp
  qed
qed

text \<open>
  C5: emitter monotonicity. Starting from cursor 0, when each online text is a
  prefix-extension of the one before, the deltas sent concatenate to the last
  text.
\<close>

theorem emit_all_monotone:
  assumes "sorted_wrt prefix ts"
  shows "concat (fst (emit_all 0 ts)) = (if ts = [] then [] else last ts)"
proof (cases ts)
  case Nil
  then show ?thesis by simp
next
  case (Cons t ts')
  have "sorted_wrt prefix ([] # ts)"
    using assms by simp
  from emit_all_prefix_chain [OF this refl] Cons show ?thesis by simp
qed

theorem emit_all_monotone_witness:
  "sorted_wrt prefix [[1, 2], [1, 2, 3 :: nat]] \<and>
   concat (fst (emit_all 0 [[1, 2], [1, 2, 3 :: nat]])) = [1, 2, 3]"
  using emit_all_monotone [of "[[1, 2], [1, 2, 3 :: nat]]"] by simp

text \<open>
  The emitter never sends an empty delta: every text it sends is non-empty,
  whatever the sequence of recogniser texts.
\<close>

theorem emit_all_nonempty: "[] \<notin> set (fst (emit_all n ts))"
proof (induction ts arbitrary: n)
  case Nil
  then show ?case by simp
next
  case (Cons t ts)
  then show ?case by (cases "n < length t") simp_all
qed

text \<open>
  Scenario B of the spec. The cumulative texts U+4F60, U+4F60 U+597D and
  U+4F60 U+597D U+5440 (the code points of the three Chinese characters) are
  sent as the three one-character deltas, and the cursor ends at 3.
\<close>

theorem emit_all_scenario_B:
  "emit_all 0 [[20320], [20320, 22909], [20320, 22909, 21568]] = ([[20320], [22909], [21568]], 3)"
  by simp

text \<open>
  C6: behaviour after a shorter text. If the recogniser returns a text shorter
  than the cursor (after a cache reset), nothing is sent and the cursor is
  kept; when a later text passes the old cursor, only its part beyond the old
  cursor is sent, so its first \<open>sent_text_length\<close> code points are never sent.
\<close>

theorem emit_all_after_regression:
  assumes "length t < n" and "n < length t'"
  shows "emit_all n [t, t'] = ([drop n t'], length t')"
  using assms by simp

theorem emit_all_after_regression_witness:
  "emit_all 5 [[9], [9, 8, 7, 6, 5, 4 :: nat]] = ([[4]], 6)"
  using emit_all_after_regression [of "[9 :: nat]" 5 "[9, 8, 7, 6, 5, 4]"] by simp

end
