(* ===== verification/ResultMerger.thy ===== *)
theory ResultMerger
  imports Prelude
begin

text \<open>
  The sentence merger \<open>process_recognition_result\<close> of the HTTP upload path
  (\<open>src/websocket/funasr_api_server.py\<close>, lines 53--107; the unified server
  has a verbatim copy at lines 530--584). The file recogniser returns a list of
  sentences, each a dictionary with optional \<open>start\<close>, \<open>end\<close> (milliseconds),
  \<open>spk\<close> and \<open>text\<close>; the merger folds them left to right, joining a sentence
  to the current turn when it has the same speaker and starts at most one second
  after the turn's end, and emits the turns. A sentence is a record of option
  fields (\<open>dict.get\<close> with its default is \<open>py_get\<close>), a turn a record;
  times are reals (Python floats, without rounding). The \<open>speaker\<close> label
  \<open>f'\<dots>{spk}'\<close> is represented by the speaker id, and the display string
  \<open>time_range\<close> is not modelled.

  Beside the code's fold, \<open>merge_spec\<close> states the spec's algorithm (spec
  section 4.5) as a recursive grouping of turns; the refinement lemma shows the
  fold computes it, and the properties (text preservation, order,
  idempotence) are proved on the grouping.
\<close>

section \<open>Data\<close>

record sentence =
  s_start :: "real option"
  s_end :: "real option"
  s_spk :: "int option"
  s_text :: "ustr option"

record turn =
  turn_speaker :: int
  turn_start :: real
  turn_end :: real
  turn_text :: ustr

text \<open>The loop variables of lines 62--67.\<close>

record merge_acc =
  last_spk :: "int option"
  last_end_time :: real
  merged_text :: ustr
  merged_start_time :: real
  results :: "turn list"

text \<open>The part of the recogniser's result dictionary the merger reads.\<close>

record rec_result =
  sentence_info :: "sentence list option"

section \<open>The code\<close>

definition merge_init :: merge_acc where
  "merge_init =
     \<lparr>last_spk = None, last_end_time = 0, merged_text = [], merged_start_time = 0, results = []\<rparr>"

text \<open>\<open>if last_spk is not None: results.append(...)\<close> (lines 82--89 and 98--105).\<close>

definition flush_turn :: "merge_acc \<Rightarrow> turn list" where
  "flush_turn a =
     (case last_spk a of
        None \<Rightarrow> results a
      | Some spk \<Rightarrow> results a @ [\<lparr>turn_speaker = spk, turn_start = merged_start_time a,
                                   turn_end = last_end_time a, turn_text = merged_text a\<rparr>])"

text \<open>One iteration of the loop of lines 70--95.\<close>

definition merge_sentence :: "merge_acc \<Rightarrow> sentence \<Rightarrow> merge_acc" where
  "merge_sentence a s =
     (let start_sec = py_get 0 (s_start s) / 1000;
          end_sec = py_get 0 (s_end s) / 1000;
          spk = py_get 0 (s_spk s);
          txt = py_get [] (s_text s)
      in if last_spk a = Some spk \<and> start_sec \<le> last_end_time a + 1
         then a\<lparr>merged_text := merged_text a @ txt, last_end_time := end_sec\<rparr>
         else a\<lparr>results := flush_turn a, merged_text := txt, merged_start_time := start_sec,
                last_spk := Some spk, last_end_time := end_sec\<rparr>)"

definition process_sentences :: "sentence list \<Rightarrow> turn list" where
  "process_sentences ss = flush_turn (fold (\<lambda>s a. merge_sentence a s) ss merge_init)"

text \<open>Lines 55--60: no result, or no \<open>sentence_info\<close>, gives no turns.\<close>

definition process_recognition_result :: "rec_result list option \<Rightarrow> turn list" where
  "process_recognition_result res =
     (case res of
        None \<Rightarrow> []
      | Some [] \<Rightarrow> []
      | Some (r # _) \<Rightarrow>
          (case sentence_info r of None \<Rightarrow> [] | Some ss \<Rightarrow> process_sentences ss))"

section \<open>The spec's merge as a grouping of turns\<close>

text \<open>The turn a sentence makes on its own.\<close>

definition sent_turn :: "sentence \<Rightarrow> turn" where
  "sent_turn s =
     \<lparr>turn_speaker = py_get 0 (s_spk s), turn_start = py_get 0 (s_start s) / 1000,
      turn_end = py_get 0 (s_end s) / 1000, turn_text = py_get [] (s_text s)\<rparr>"

text \<open>Whether turn \<open>n\<close> continues turn \<open>p\<close>: same speaker, gap at most 1 s.\<close>

definition cont :: "turn \<Rightarrow> turn \<Rightarrow> bool" where
  "cont p n \<longleftrightarrow> turn_speaker n = turn_speaker p \<and> turn_start n \<le> turn_end p + 1"

definition join :: "turn \<Rightarrow> turn \<Rightarrow> turn" where
  "join p n = p\<lparr>turn_text := turn_text p @ turn_text n, turn_end := turn_end n\<rparr>"

fun group_turns :: "turn \<Rightarrow> turn list \<Rightarrow> turn list" where
  "group_turns cur [] = [cur]"
| "group_turns cur (n # ns) = (if cont cur n then group_turns (join cur n) ns else cur # group_turns n ns)"

definition merge_spec :: "turn list \<Rightarrow> turn list" where
  "merge_spec ts = (case ts of [] \<Rightarrow> [] | t # ts' \<Rightarrow> group_turns t ts')"

text \<open>A turn read back as a sentence, to run the merger on its own output.\<close>

definition turn_to_sentence :: "turn \<Rightarrow> sentence" where
  "turn_to_sentence t =
     \<lparr>s_start = Some (turn_start t * 1000), s_end = Some (turn_end t * 1000),
      s_spk = Some (turn_speaker t), s_text = Some (turn_text t)\<rparr>"

section \<open>Refinement: the fold computes the grouping\<close>

definition cur_turn :: "int \<Rightarrow> merge_acc \<Rightarrow> turn" where
  "cur_turn k a =
     \<lparr>turn_speaker = k, turn_start = merged_start_time a, turn_end = last_end_time a,
      turn_text = merged_text a\<rparr>"

lemma merge_sentence_cont:
  assumes "last_spk a = Some k" and "cont (cur_turn k a) (sent_turn s)"
  shows "last_spk (merge_sentence a s) = Some k"
    and "results (merge_sentence a s) = results a"
    and "cur_turn k (merge_sentence a s) = join (cur_turn k a) (sent_turn s)"
  using assms
  by (auto simp: merge_sentence_def Let_def cont_def cur_turn_def sent_turn_def join_def)

lemma merge_sentence_new:
  assumes "last_spk a = Some k" and "\<not> cont (cur_turn k a) (sent_turn s)"
  shows "last_spk (merge_sentence a s) = Some (turn_speaker (sent_turn s))"
    and "results (merge_sentence a s) = results a @ [cur_turn k a]"
    and "cur_turn (turn_speaker (sent_turn s)) (merge_sentence a s) = sent_turn s"
  using assms
  by (auto simp: merge_sentence_def Let_def cont_def cur_turn_def sent_turn_def flush_turn_def)

lemma fold_merge_sentence:
  assumes "last_spk a = Some k"
  shows "flush_turn (fold (\<lambda>s a. merge_sentence a s) ss a) =
           results a @ group_turns (cur_turn k a) (map sent_turn ss)"
  using assms
proof (induction ss arbitrary: a k)
  case Nil
  then show ?case by (simp add: flush_turn_def cur_turn_def)
next
  case (Cons s ss)
  show ?case
  proof (cases "cont (cur_turn k a) (sent_turn s)")
    case True
    note step = merge_sentence_cont [OF Cons.prems True]
    from Cons.IH [OF step(1)] True show ?thesis by (simp add: step(2,3))
  next
    case False
    note step = merge_sentence_new [OF Cons.prems False]
    from Cons.IH [OF step(1)] False show ?thesis by (simp add: step(2,3))
  qed
qed

lemma process_sentences_Cons:
  "process_sentences (s # ss) = group_turns (sent_turn s) (map sent_turn ss)"
proof -
  let ?a = "merge_sentence merge_init s"
  have a: "last_spk ?a = Some (turn_speaker (sent_turn s))" "results ?a = []"
          "cur_turn (turn_speaker (sent_turn s)) ?a = sent_turn s"
    by (simp_all add: merge_sentence_def merge_init_def Let_def flush_turn_def
                      cur_turn_def sent_turn_def)
  show ?thesis
    using fold_merge_sentence [OF a(1), of ss] a(2,3) by (simp add: process_sentences_def)
qed

section \<open>Lemmas on the grouping\<close>

lemma group_text: "concat (map turn_text (group_turns cur ns)) = turn_text cur @ concat (map turn_text ns)"
  by (induction cur ns rule: group_turns.induct) (simp_all add: join_def)

lemma group_hd:
  "\<exists>r rs. group_turns cur ns = r # rs \<and> turn_speaker r = turn_speaker cur \<and>
          turn_start r = turn_start cur"
  by (induction cur ns rule: group_turns.induct) (auto simp: join_def)

lemma group_length: "length (group_turns cur ns) \<le> Suc (length ns)"
  by (induction cur ns rule: group_turns.induct) auto

lemma group_starts:
  "set (map turn_start (group_turns cur ns)) \<subseteq> insert (turn_start cur) (set (map turn_start ns))"
  by (induction cur ns rule: group_turns.induct) (auto simp: join_def)

lemma group_sorted:
  "sorted (map turn_start (cur # ns)) \<Longrightarrow> sorted (map turn_start (group_turns cur ns))"
proof (induction cur ns rule: group_turns.induct)
  case (1 cur)
  then show ?case by simp
next
  case (2 cur n ns)
  show ?case
  proof (cases "cont cur n")
    case True
    with "2.prems" have "sorted (map turn_start (join cur n # ns))"
      by (auto simp: join_def)
    with "2.IH"(1) True show ?thesis by simp
  next
    case False
    with "2.prems" "2.IH"(2) have s: "sorted (map turn_start (group_turns n ns))"
      by simp
    have "\<forall>x \<in> set (map turn_start (group_turns n ns)). turn_start cur \<le> x"
      using group_starts [of n ns] "2.prems" by auto
    with s False show ?thesis by simp
  qed
qed

definition separated :: "turn list \<Rightarrow> bool" where
  "separated ts \<longleftrightarrow> successively (\<lambda>p n. \<not> cont p n) ts"

lemma separated_Nil [simp]: "separated []"
  by (simp add: separated_def)

lemma group_separated: "separated (group_turns cur ns)"
proof (induction cur ns rule: group_turns.induct)
  case (1 cur)
  then show ?case by (simp add: separated_def)
next
  case (2 cur n ns)
  show ?case
  proof (cases "cont cur n")
    case True
    with "2.IH"(1) show ?thesis by simp
  next
    case False
    obtain r rs where r: "group_turns n ns = r # rs"
      and rs: "turn_speaker r = turn_speaker n" "turn_start r = turn_start n"
      using group_hd by blast
    have "\<not> cont cur r"
      using False rs by (simp add: cont_def)
    moreover have "separated (r # rs)"
      using "2.IH"(2) [OF False] r by simp
    ultimately show ?thesis
      using False r by (simp add: separated_def)
  qed
qed

lemma group_of_separated: "separated (cur # ns) \<Longrightarrow> group_turns cur ns = cur # ns"
  by (induction cur ns rule: group_turns.induct) (auto simp: separated_def)

lemma sent_turn_to_sentence [simp]: "sent_turn (turn_to_sentence t) = t"
  by (simp add: sent_turn_def turn_to_sentence_def)

lemma process_sentences_Nil [simp]: "process_sentences [] = []"
  by (simp add: process_sentences_def merge_init_def flush_turn_def)

section \<open>Properties of the merger\<close>

text \<open>
  C7: refinement. The code's fold computes the spec's merge: the turns are
  the maximal runs of consecutive sentences in which each continues the one
  before (same speaker, start at most one second after the run's end), each
  run joined into one turn.
\<close>

theorem process_sentences_refines: "process_sentences ss = merge_spec (map sent_turn ss)"
  by (cases ss) (simp_all add: merge_spec_def process_sentences_Cons)

text \<open>
  C8: no text is lost or reordered: the turns' texts concatenate to the
  sentences' texts, in input order.
\<close>

theorem process_sentences_text:
  "concat (map turn_text (process_sentences ss)) = concat (map (\<lambda>s. py_get [] (s_text s)) ss)"
proof (cases ss)
  case Nil
  then show ?thesis by simp
next
  case (Cons s ss')
  then show ?thesis
    by (simp add: process_sentences_Cons group_text sent_turn_def o_def)
qed

text \<open>
  C9: merge idempotence. Running the merger on its own output, each turn read
  back as one sentence, gives the same turns.
\<close>

theorem process_sentences_idempotent:
  "process_sentences (map turn_to_sentence (process_sentences ss)) = process_sentences ss"
proof (cases "process_sentences ss")
  case Nil
  then show ?thesis by simp
next
  case (Cons t ts)
  have "separated (process_sentences ss)"
    by (cases ss) (simp_all add: process_sentences_Cons group_separated)
  with Cons have "group_turns t ts = t # ts"
    by (simp add: group_of_separated)
  with Cons show ?thesis
    by (simp add: process_sentences_Cons o_def)
qed

text \<open>
  Merge ordering. When the sentences come in non-decreasing order of start
  time, the turns are in non-decreasing order of start time.
\<close>

theorem process_sentences_sorted:
  assumes "sorted (map (\<lambda>s. py_get 0 (s_start s)) ss)"
  shows "sorted (map turn_start (process_sentences ss))"
proof (cases ss)
  case Nil
  then show ?thesis by simp
next
  case (Cons s ss')
  have "sorted (map turn_start (map sent_turn ss))"
    using assms by (simp add: sent_turn_def o_def sorted_iff_nth_mono divide_right_mono)
  with Cons show ?thesis
    by (simp add: process_sentences_Cons group_sorted)
qed

theorem process_sentences_sorted_witness:
  "sorted (map (\<lambda>s. py_get 0 (s_start s))
     [\<lparr>s_start = Some 0, s_end = Some 500, s_spk = Some 0, s_text = Some [97]\<rparr>,
      \<lparr>s_start = Some 4000, s_end = Some 4500, s_spk = Some 0, s_text = Some [98]\<rparr>]) \<and>
   map turn_start (process_sentences
     [\<lparr>s_start = Some 0, s_end = Some 500, s_spk = Some 0, s_text = Some [97]\<rparr>,
      \<lparr>s_start = Some 4000, s_end = Some 4500, s_spk = Some 0, s_text = Some [98]\<rparr>]) = [0, 4]"
  using process_sentences_sorted [of
     "[\<lparr>s_start = Some 0, s_end = Some 500, s_spk = Some 0, s_text = Some [97]\<rparr>,
       \<lparr>s_start = Some 4000, s_end = Some 4500, s_spk = Some 0, s_text = Some [98]\<rparr>]"]
  by (simp add: process_sentences_Cons sent_turn_def cont_def)

text \<open>
  Scenario A of the spec. Sentences (0--1000 ms, A, "hi"),
  (1000--1800 ms, A, "there"), (3000--4000 ms, B, "hey"), with A = 0 and B = 1,
  merge into the turns (A, 0.0--1.8 s, "hithere") and (B, 3.0--4.0 s, "hey").
\<close>

theorem process_sentences_scenario_A:
  "process_sentences
     [\<lparr>s_start = Some 0, s_end = Some 1000, s_spk = Some 0, s_text = Some [104, 105]\<rparr>,
      \<lparr>s_start = Some 1000, s_end = Some 1800, s_spk = Some 0,
       s_text = Some [116, 104, 101, 114, 101]\<rparr>,
      \<lparr>s_start = Some 3000, s_end = Some 4000, s_spk = Some 1, s_text = Some [104, 101, 121]\<rparr>] =
   [\<lparr>turn_speaker = 0, turn_start = 0, turn_end = 1.8,
     turn_text = [104, 105, 116, 104, 101, 114, 101]\<rparr>,
    \<lparr>turn_speaker = 1, turn_start = 3, turn_end = 4, turn_text = [104, 101, 121]\<rparr>]"
  by (simp add: process_sentences_Cons sent_turn_def cont_def join_def)

text \<open>
  Adjacent turns can share a speaker. Two sentences of speaker 0 more than
  one second apart give two consecutive turns of speaker 0; the spec's
  "no two adjacent output turns share a speaker" does not hold of the code.
\<close>

theorem process_sentences_same_speaker_adjacent:
  "map turn_speaker (process_sentences
     [\<lparr>s_start = Some 0, s_end = Some 1000, s_spk = Some 0, s_text = Some [97]\<rparr>,
      \<lparr>s_start = Some 3000, s_end = Some 4000, s_spk = Some 0, s_text = Some [98]\<rparr>]) = [0, 0]"
  by (simp add: process_sentences_Cons sent_turn_def cont_def)

end
