(* ===== verification/TurnFormat.thy ===== *)
theory TurnFormat
  imports ResultMerger
begin

text \<open>
  The dictionaries the merger returns to the HTTP client
  (\<open>src/websocket/funasr_api_server.py\<close>, lines 82--89 and 98--105, and the
  copy in \<open>src/websocket/funasr_unified_server.py\<close>, lines 530--584): the
  speaker label \<open>f'\<dots>{spk}'\<close>, the two times, the text, and the display
  string \<open>time_range\<close>, built with \<open>int(t // 60)\<close> and the format
  \<open>{t % 60:04.1f}\<close>. Python's \<open>str(int)\<close> is \<open>show_int\<close> of the prelude.

  Times are reals. Python rounds the nearest double of \<open>t % 60\<close> to one
  decimal; the model rounds the exact value half to even. The two agree except
  on ties (a time whose milliseconds end in 50), where the double may lie on
  either side: those inputs are left out of the claims.
\<close>

section \<open>Formatting times\<close>

text \<open>Python's \<open>%\<close> on floats with a positive divisor: the result has the divisor's sign.\<close>

definition py_fmod :: "real \<Rightarrow> real \<Rightarrow> real" where
  "py_fmod x y = x - y * of_int \<lfloor>x / y\<rfloor>"

text \<open>Rounding to the nearest integer, ties to even.\<close>

definition round_half_even :: "real \<Rightarrow> int" where
  "round_half_even x =
     (let f = \<lfloor>x\<rfloor>; d = x - of_int f
      in if d < 1 / 2 then f else if 1 / 2 < d then f + 1 else if even f then f else f + 1)"

text \<open>\<open>format(x, "04.1f")\<close> for \<open>x \<ge> 0\<close>: one decimal, zero-padded to width 4.\<close>

definition fmt_041 :: "real \<Rightarrow> ustr" where
  "fmt_041 x =
     (let t = nat (round_half_even (x * 10));
          body = string_of_nat (t div 10) @ [46, 48 + t mod 10]
      in replicate (4 - length body) 48 @ body)"

text \<open>\<open>f"{int(t // 60)}:{t % 60:04.1f}"\<close> (58 is \<open>:\<close>).\<close>

definition fmt_time :: "real \<Rightarrow> ustr" where
  "fmt_time t = show_int \<lfloor>t / 60\<rfloor> @ [58] @ fmt_041 (py_fmod t 60)"

definition time_range :: "real \<Rightarrow> real \<Rightarrow> ustr" where
  "time_range a b = fmt_time a @ [45] @ fmt_time b"

text \<open>\<open>f'\<dots>{last_spk}'\<close>: the label is the three characters U+8BF4 U+8BDD U+4EBA and the id.\<close>

definition speaker_label :: "int \<Rightarrow> ustr" where
  "speaker_label spk = [35828, 35805, 20154] @ show_int spk"

section \<open>The result dictionaries\<close>

record turn_dict =
  td_speaker :: ustr
  td_start_time :: real
  td_end_time :: real
  td_text :: ustr
  td_time_range :: ustr

definition format_turn :: "turn \<Rightarrow> turn_dict" where
  "format_turn t =
     \<lparr>td_speaker = speaker_label (turn_speaker t), td_start_time = turn_start t,
      td_end_time = turn_end t, td_text = turn_text t,
      td_time_range = time_range (turn_start t) (turn_end t)\<rparr>"

text \<open>The unified server's copy of \<open>process_recognition_result\<close>, with its dictionaries.\<close>

definition u_process_recognition_result :: "rec_result list option \<Rightarrow> turn_dict list" where
  "u_process_recognition_result res = map format_turn (process_recognition_result res)"

section \<open>Properties of the display string\<close>

lemma py_fmod_bounds: "0 < y \<Longrightarrow> 0 \<le> py_fmod x y \<and> py_fmod x y < y"
proof -
  assume y: "0 < y"
  have "y * of_int \<lfloor>x / y\<rfloor> \<le> y * (x / y)"
    using y by (intro mult_left_mono) simp_all
  moreover have "y * (x / y) < y * (of_int \<lfloor>x / y\<rfloor> + 1)"
    using y by (intro mult_strict_left_mono) simp_all
  ultimately show ?thesis
    using y by (simp add: py_fmod_def algebra_simps)
qed

lemma round_half_even_up:
  "of_int k + 1 / 2 < x \<Longrightarrow> x < of_int k + 1 \<Longrightarrow> round_half_even x = k + 1"
proof -
  assume a: "of_int k + 1 / 2 < x" "x < of_int k + 1"
  then have "\<lfloor>x\<rfloor> = k"
    by (simp add: floor_eq_iff)
  with a show ?thesis
    by (simp add: round_half_even_def Let_def)
qed

text \<open>
  C33: the seconds field of \<open>time_range\<close> can read \<open>60.0\<close>: when
  \<open>t % 60\<close> lies above 59.95 it is rounded up to 60.0 while the minute
  field \<open>int(t // 60)\<close> stays, so 119.96 s is shown as \<open>1:60.0\<close>
  instead of \<open>2:00.0\<close>.
\<close>

theorem fmt_time_sixty:
  assumes "59.95 < py_fmod t 60"
  shows "fmt_time t = show_int \<lfloor>t / 60\<rfloor> @ [58, 54, 48, 46, 48]"
proof -
  have "py_fmod t 60 < 60"
    using py_fmod_bounds [of 60 t] by simp
  with assms have "round_half_even (py_fmod t 60 * 10) = 599 + 1"
    by (intro round_half_even_up) simp_all
  then have "fmt_041 (py_fmod t 60) = [54, 48, 46, 48]"
    by (simp add: fmt_041_def string_of_nat_small string_of_nat_big)
  then show ?thesis
    by (simp add: fmt_time_def)
qed

theorem fmt_time_sixty_witness:
  "59.95 < py_fmod 119.96 60 \<and> fmt_time 119.96 = [49, 58, 54, 48, 46, 48]"
proof -
  have f: "\<lfloor>(119.96 :: real) / 60\<rfloor> = 1"
    by (simp add: floor_eq_iff)
  have m: "59.95 < py_fmod 119.96 60"
    by (simp add: py_fmod_def f)
  show ?thesis
    using fmt_time_sixty [OF m] m f by (simp add: show_int_def string_of_nat_small)
qed

end
