(* ===== verification/ResourceGuard.thy ===== *)
theory ResourceGuard
  imports Prelude
begin

text \<open>
  The GPU memory guard that runs before every offline recognition:
  \<open>get_gpu_memory_info\<close>, \<open>clear_gpu_memory\<close> and
  \<open>check_memory_before_processing\<close>, in the streaming server
  (\<open>src/websocket/funasr_wss_server.py\<close>, lines 130--177) and in the unified
  server (\<open>src/websocket/funasr_unified_server.py\<close>, lines 200--245). The device
  is an explicit state (\<open>None\<close> when CUDA is not available) holding the byte
  counts that \<open>torch.cuda\<close> reports; the guard returns its verdict and the
  device after any cache clearing. \<open>torch.cuda.empty_cache()\<close> is a library
  call: it is modelled as releasing every reserved byte that is not allocated.
  Sizes in GiB are reals (Python floats, without rounding).
\<close>

section \<open>Device state\<close>

record gpu_device =
  total_memory :: nat
  memory_allocated :: nat
  memory_reserved :: nat

record memory_info =
  mi_total :: real
  mi_allocated :: real
  mi_cached :: real
  mi_free :: real

definition gib :: real where
  "gib = 1024 ^ 3"

definition get_gpu_memory_info :: "gpu_device option \<Rightarrow> memory_info option" where
  "get_gpu_memory_info g =
     (case g of
        None \<Rightarrow> None
      | Some d \<Rightarrow>
          Some \<lparr>mi_total = real (total_memory d) / gib,
                mi_allocated = real (memory_allocated d) / gib,
                mi_cached = real (memory_reserved d) / gib,
                mi_free = real (total_memory d) / gib - real (memory_reserved d) / gib\<rparr>)"

definition torch_empty_cache :: "gpu_device \<Rightarrow> gpu_device" where
  "torch_empty_cache d = d\<lparr>memory_reserved := min (memory_reserved d) (memory_allocated d)\<rparr>"

definition clear_gpu_memory :: "gpu_device option \<Rightarrow> gpu_device option" where
  "clear_gpu_memory g = map_option torch_empty_cache g"

text \<open>
  The unified server's copies of the two helpers (lines 200--217 and 219--226 of
  \<open>src/websocket/funasr_unified_server.py\<close>) are the same code.
\<close>

definition u_get_gpu_memory_info :: "gpu_device option \<Rightarrow> memory_info option" where
  "u_get_gpu_memory_info g = get_gpu_memory_info g"

definition u_clear_gpu_memory :: "gpu_device option \<Rightarrow> gpu_device option" where
  "u_clear_gpu_memory g = clear_gpu_memory g"

section \<open>The two guards\<close>

text \<open>
  Unified server, lines 228--245: clear the cache when less than twice the
  audio size is free, then refuse when less than 1.5 times is free.
\<close>

definition u_check_memory_before_processing ::
  "nat \<Rightarrow> gpu_device option \<Rightarrow> bool \<times> gpu_device option" where
  "u_check_memory_before_processing audio_size_bytes g =
     (let audio_size_gb = real audio_size_bytes / gib
      in case u_get_gpu_memory_info g of
           None \<Rightarrow> (True, g)
         | Some memory_info \<Rightarrow>
             if mi_free memory_info < audio_size_gb * 2
             then (let g' = u_clear_gpu_memory g
                   in case u_get_gpu_memory_info g' of
                        None \<Rightarrow> (True, g')
                      | Some memory_info_after \<Rightarrow>
                          (if mi_free memory_info_after < audio_size_gb * 1.5
                           then (False, g') else (True, g')))
             else (True, g))"

text \<open>
  Streaming server, lines 158--177: the estimate is four times the audio size;
  when less is free, clear the cache and admit only if the estimate is free now.
\<close>

definition check_memory_before_processing ::
  "nat \<Rightarrow> gpu_device option \<Rightarrow> bool \<times> gpu_device option" where
  "check_memory_before_processing audio_size_bytes g =
     (case get_gpu_memory_info g of
        None \<Rightarrow> (True, g)
      | Some memory_info \<Rightarrow>
          (let estimated_memory_gb = real (audio_size_bytes * 4) / gib
           in if mi_free memory_info < estimated_memory_gb
              then (let g' = clear_gpu_memory g
                    in case get_gpu_memory_info g' of
                         None \<Rightarrow> (True, g')
                       | Some memory_info' \<Rightarrow> (estimated_memory_gb \<le> mi_free memory_info', g'))
              else (True, g)))"

section \<open>Lemmas\<close>

definition free_gb :: "gpu_device \<Rightarrow> real" where
  "free_gb d = real (total_memory d) / gib - real (memory_reserved d) / gib"

definition size_gb :: "nat \<Rightarrow> real" where
  "size_gb s = real s / gib"

lemma size_gb_mono: "s' \<le> s \<Longrightarrow> size_gb s' \<le> size_gb s"
  by (simp add: size_gb_def gib_def divide_right_mono)

lemma size_gb_nonneg: "0 \<le> size_gb s"
  by (simp add: size_gb_def gib_def)

lemma get_gpu_memory_info_free [simp]:
  "get_gpu_memory_info (Some d) = Some mi \<longleftrightarrow>
     mi = \<lparr>mi_total = real (total_memory d) / gib, mi_allocated = real (memory_allocated d) / gib,
           mi_cached = real (memory_reserved d) / gib, mi_free = free_gb d\<rparr>"
  by (auto simp: get_gpu_memory_info_def free_gb_def)

lemma get_gpu_memory_info_None [simp]: "get_gpu_memory_info None = None"
  by (simp add: get_gpu_memory_info_def)

lemma mi_free_get [simp]:
  "map_option mi_free (get_gpu_memory_info (Some d)) = Some (free_gb d)"
  by (simp add: get_gpu_memory_info_def free_gb_def)

lemma empty_cache_frees_more: "free_gb d \<le> free_gb (torch_empty_cache d)"
  by (simp add: free_gb_def torch_empty_cache_def gib_def divide_right_mono)

lemma u_check_Some:
  "u_check_memory_before_processing s (Some d) =
     (if free_gb d < size_gb s * 2
      then (\<not> free_gb (torch_empty_cache d) < size_gb s * 1.5, Some (torch_empty_cache d))
      else (True, Some d))"
  by (simp add: u_check_memory_before_processing_def u_get_gpu_memory_info_def u_clear_gpu_memory_def
                get_gpu_memory_info_def free_gb_def clear_gpu_memory_def Let_def size_gb_def)

lemma check_Some:
  "check_memory_before_processing s (Some d) =
     (if free_gb d < real (s * 4) / gib
      then (real (s * 4) / gib \<le> free_gb (torch_empty_cache d), Some (torch_empty_cache d))
      else (True, Some d))"
  by (simp add: check_memory_before_processing_def get_gpu_memory_info_def free_gb_def
                clear_gpu_memory_def Let_def)

lemma u_check_None [simp]: "u_check_memory_before_processing s None = (True, None)"
  by (simp add: u_check_memory_before_processing_def u_get_gpu_memory_info_def)

lemma check_None [simp]: "check_memory_before_processing s None = (True, None)"
  by (simp add: check_memory_before_processing_def)

section \<open>Properties of the guard\<close>

text \<open>
  Scenario C of the spec, on the unified server's guard. With 1 GiB free
  (2 GiB total, 1 GiB reserved, all of it allocated) and an audio chunk of
  about 0.6 GiB, the first check fails (1 < 1.2), the cache is cleared, and the
  recheck at factor 1.5 passes (1 < 0.9 is false): the chunk is admitted.
\<close>

theorem u_check_scenario_C:
  "u_check_memory_before_processing 644245094
     (Some \<lparr>total_memory = 2147483648, memory_allocated = 1073741824,
            memory_reserved = 1073741824\<rparr>) =
   (True, Some (torch_empty_cache \<lparr>total_memory = 2147483648, memory_allocated = 1073741824,
            memory_reserved = 1073741824\<rparr>))"
  by (simp add: u_check_Some free_gb_def gib_def torch_empty_cache_def size_gb_def)

text \<open>
  The unified guard refuses only on a CUDA device, only after clearing the
  cache, and only when less than 1.5 times the audio size is free after the
  clearing.
\<close>

theorem u_check_refuses_after_clear:
  assumes "\<not> fst (u_check_memory_before_processing s g)"
  shows "\<exists>d. g = Some d \<and> snd (u_check_memory_before_processing s g) = Some (torch_empty_cache d) \<and>
             free_gb (torch_empty_cache d) < size_gb s * 1.5"
proof (cases g)
  case None
  with assms show ?thesis by simp
next
  case (Some d)
  with assms show ?thesis
    by (simp add: u_check_Some split: if_splits)
qed

theorem u_check_refuses_after_clear_witness:
  "\<not> fst (u_check_memory_before_processing 100
          (Some \<lparr>total_memory = 100, memory_allocated = 80, memory_reserved = 90\<rparr>)) \<and>
   free_gb (torch_empty_cache \<lparr>total_memory = 100, memory_allocated = 80, memory_reserved = 90\<rparr>)
     < size_gb 100 * 1.5"
  using u_check_refuses_after_clear [of 100 "Some \<lparr>total_memory = 100, memory_allocated = 80, memory_reserved = 90\<rparr>"]
  by (simp add: u_check_Some free_gb_def gib_def torch_empty_cache_def size_gb_def)

text \<open>
  The unified guard is monotone in the audio size: on the same device
  state, a chunk no larger than an admitted chunk is admitted.
\<close>

theorem u_check_monotone:
  assumes "fst (u_check_memory_before_processing s g)" and "s' \<le> s"
  shows "fst (u_check_memory_before_processing s' g)"
proof (cases g)
  case None
  then show ?thesis by simp
next
  case (Some d)
  have le: "size_gb s' \<le> size_gb s" and nn: "0 \<le> size_gb s'"
    using assms(2) by (simp_all add: size_gb_mono size_gb_nonneg)
  have fr: "free_gb d \<le> free_gb (torch_empty_cache d)"
    by (rule empty_cache_frees_more)
  have "\<not> free_gb d < size_gb s * 2 \<or> \<not> free_gb (torch_empty_cache d) < size_gb s * 1.5"
    using assms(1) Some by (auto simp: u_check_Some split: if_splits)
  then have "\<not> free_gb d < size_gb s' * 2 \<or> \<not> free_gb (torch_empty_cache d) < size_gb s' * 1.5"
    using le nn fr by linarith
  with Some show ?thesis
    by (auto simp: u_check_Some)
qed

theorem u_check_monotone_witness:
  "fst (u_check_memory_before_processing 10
          (Some \<lparr>total_memory = 100, memory_allocated = 80, memory_reserved = 90\<rparr>)) \<and>
   fst (u_check_memory_before_processing 5
          (Some \<lparr>total_memory = 100, memory_allocated = 80, memory_reserved = 90\<rparr>))"
proof -
  have h: "fst (u_check_memory_before_processing 10
          (Some \<lparr>total_memory = 100, memory_allocated = 80, memory_reserved = 90\<rparr>))"
    by (simp add: u_check_Some free_gb_def gib_def torch_empty_cache_def size_gb_def)
  show ?thesis
    using h u_check_monotone [OF h, of 5] by simp
qed

text \<open>
  C10: the streaming server's guard admits a chunk exactly when, after any cache
  clearing, four times the audio size (in GiB) is free; there is no reduced
  second threshold.
\<close>

theorem check_admits_iff:
  "fst (check_memory_before_processing s (Some d)) \<longleftrightarrow>
     real (s * 4) / gib \<le> free_gb (torch_empty_cache d)"
  using empty_cache_frees_more [of d] by (auto simp: check_Some)

text \<open>
  On spec scenario C the streaming server's guard refuses the chunk that
  the spec (and the unified server) admits: 1 GiB free is less than four times
  0.6 GiB before and after clearing.
\<close>

theorem check_scenario_C_refuses:
  "check_memory_before_processing 644245094
     (Some \<lparr>total_memory = 2147483648, memory_allocated = 1073741824,
            memory_reserved = 1073741824\<rparr>) =
   (False, Some \<lparr>total_memory = 2147483648, memory_allocated = 1073741824,
            memory_reserved = 1073741824\<rparr>)"
  by (simp add: check_Some free_gb_def gib_def torch_empty_cache_def)

end
