(* ===== verification/Coordinator.thy ===== *)
theory Coordinator
  imports ResourceGuard TextEmitter
begin

text \<open>
  The two recognition passes of the streaming server
  (\<open>src/websocket/funasr_wss_server.py\<close>): the offline pass \<open>async_asr\<close>
  (lines 532--650) with \<open>split_audio_chunks\<close> (lines 508--530), and the online
  pass \<open>async_asr_online\<close> (lines 652--687). The recognition models are
  collaborators: functions from their per-connection status (the dictionaries
  \<open>status_dict_*\<close>, whose \<open>cache\<close> entry is an opaque token threaded through
  every call) and the input to their result, \<open>None\<close> when the call raises.
  A pass returns the messages it sends, in order, with the updated device and
  caches; an exception that leaves a pass is a \<open>py_error\<close>.
\<close>

section \<open>Collaborators and messages\<close>

text \<open>The opaque recognition cache of a collaborator (\<open>{}\<close> is \<open>[]\<close>).\<close>
type_synonym cache = "nat list"

text \<open>\<open>status_dict_asr_online\<close>: keyword arguments of the online model.\<close>
record online_status =
  on_cache :: cache
  on_is_final :: bool
  on_chunk_size :: "int list option"
  on_encoder_chunk_look_back :: "int option"
  on_decoder_chunk_look_back :: "int option"

text \<open>\<open>status_dict_vad\<close>: keyword arguments of the VAD model.\<close>
record vad_status =
  vad_cache :: cache
  vad_is_final :: bool
  vad_chunk_size :: "int option"

record collaborators =
  asr_generate :: "string option \<Rightarrow> bytes \<Rightarrow> ustr option"
  online_generate :: "online_status \<Rightarrow> bytes \<Rightarrow> (ustr \<times> cache) option"
  vad_generate :: "vad_status \<Rightarrow> bytes \<Rightarrow> (int list list \<times> cache) option"
  punc_model :: "(cache \<Rightarrow> ustr \<Rightarrow> (ustr \<times> cache) option) option"

datatype asr_error = InsufficientGpuMemory | RecognitionFailed

datatype payload = Text ustr | AsrError asr_error

text \<open>An outbound JSON message \<open>{mode, text, wav_name, is_final}\<close>.\<close>
record out_msg =
  msg_mode :: string
  msg_payload :: payload
  msg_wav_name :: string
  msg_is_final :: bool

section \<open>Splitting large audio\<close>

text \<open>The loop \<open>for i in range(0, len(audio_data), step)\<close> of lines 525--528.\<close>

function chunks_of :: "nat \<Rightarrow> bytes \<Rightarrow> bytes list" where
  "chunks_of step xs =
     (if step = 0 \<or> xs = [] then [] else take step xs # chunks_of step (drop step xs))"
  by pat_completeness auto
termination
  by (relation "measure (\<lambda>(step, xs). length xs)") auto

declare chunks_of.simps [simp del]

definition split_audio_chunks :: "nat \<Rightarrow> bytes \<Rightarrow> py_error + bytes list" where
  "split_audio_chunks chunk_size_mb audio_data =
     (let chunk_size_bytes = chunk_size_mb * 1024 * 1024
      in if length audio_data \<le> chunk_size_bytes then Inr [audio_data]
         else (let bytes_per_sample = 2;
                   samples_per_chunk = chunk_size_bytes div bytes_per_sample;
                   samples_per_chunk = (samples_per_chunk div 2) * 2;
                   step = samples_per_chunk * bytes_per_sample
               in if step = 0 then Inl ValueError else Inr (chunks_of step audio_data)))"

text \<open>
  Lines 558--585: each chunk's non-empty text followed by a space, chunks whose
  call raises skipped, and the whole stripped.
\<close>

fun combine_chunk_texts :: "(bytes \<Rightarrow> ustr option) \<Rightarrow> bytes list \<Rightarrow> ustr" where
  "combine_chunk_texts asr [] = []"
| "combine_chunk_texts asr (c # cs) =
     (case asr c of
        None \<Rightarrow> combine_chunk_texts asr cs
      | Some t \<Rightarrow> (if t \<noteq> [] then t @ [32] else []) @ combine_chunk_texts asr cs)"

section \<open>Lemmas on splitting\<close>

lemma chunks_of_concat: "concat (chunks_of step xs) = (if step = 0 then [] else xs)"
proof (induction step xs rule: chunks_of.induct)
  case (1 step xs)
  then show ?case by (subst chunks_of.simps) auto
qed

lemma chunks_of_bounded: "c \<in> set (chunks_of step xs) \<Longrightarrow> c \<noteq> [] \<and> length c \<le> step"
proof (induction step xs rule: chunks_of.induct)
  case (1 step xs)
  show ?case
  proof (cases "step = 0 \<or> xs = []")
    case True
    with "1.prems" show ?thesis by (simp add: chunks_of.simps)
  next
    case False
    with "1.prems" have "c = take step xs \<or> c \<in> set (chunks_of step (drop step xs))"
      by (simp add: chunks_of.simps)
    then show ?thesis
    proof
      assume "c = take step xs"
      with False show ?thesis by auto
    next
      assume "c \<in> set (chunks_of step (drop step xs))"
      with "1.IH" False show ?thesis by blast
    qed
  qed
qed

lemma chunks_of_length:
  "0 < step \<Longrightarrow> length (chunks_of step xs) = (length xs + step - 1) div step"
proof (induction step xs rule: chunks_of.induct)
  case (1 step xs)
  show ?case
  proof (cases "xs = []")
    case True
    with "1.prems" show ?thesis by (simp add: chunks_of.simps)
  next
    case False
    with "1.prems" "1.IH" have "length (chunks_of step xs) =
        Suc ((length xs - step + step - 1) div step)"
      by (subst chunks_of.simps) simp
    also have "\<dots> = (length xs + step - 1) div step"
    proof (cases "length xs \<le> step")
      case True
      have "(length xs + step - Suc 0) div step = Suc 0"
      proof (rule div_nat_eqI)
        show "step * Suc 0 \<le> length xs + step - Suc 0"
          using False by (cases xs) auto
        show "length xs + step - Suc 0 < step * Suc (Suc 0)"
          using True "1.prems" by simp
      qed
      with True "1.prems" show ?thesis by simp
    next
      case le: False
      then have e1: "length xs - step + step - 1 = length xs - 1"
        by simp
      have e2: "length xs + step - 1 = (length xs - 1) + step"
        using False by (cases xs) auto
      from "1.prems" show ?thesis
        by (simp only: e1 e2 div_add_self2 [of step "length xs - 1"])
    qed
    finally show ?thesis .
  qed
qed

lemma split_audio_chunks_Inr:
  assumes "0 < mb"
  shows "split_audio_chunks mb a =
           Inr (if length a \<le> 1048576 * mb then [a] else chunks_of (1048576 * mb) a)"
  using assms by (simp add: split_audio_chunks_def Let_def)

lemma combine_chunk_texts_append:
  "combine_chunk_texts asr cs = concat (map (\<lambda>t. t @ [32]) (filter (\<lambda>t. t \<noteq> []) (List.map_filter asr cs)))"
  by (induction cs) (auto simp: List.map_filter_def split: option.splits)

lemma combine_chunk_texts_none: "(\<forall>c. asr c = None) \<Longrightarrow> combine_chunk_texts asr cs = []"
  by (induction cs) simp_all

lemma concat_map_snoc_space:
  "ts \<noteq> [] \<Longrightarrow> concat (map (\<lambda>t. t @ [sp]) ts) = py_join [sp] ts @ [sp]"
proof (induction ts)
  case Nil
  then show ?case by simp
next
  case (Cons t ts)
  then show ?case by (cases ts) simp_all
qed

lemma py_join_hd_last:
  assumes "ts \<noteq> []" and "\<forall>t \<in> set ts. t \<noteq> []"
  shows "py_join [sp] ts \<noteq> [] \<and> hd (py_join [sp] ts) = hd (hd ts) \<and>
         last (py_join [sp] ts) = last (last ts)"
  using assms
proof (induction ts)
  case Nil
  then show ?case by simp
next
  case (Cons t ts)
  then show ?case by (cases ts) (simp_all add: hd_append last_append)
qed

lemma py_strip_join:
  assumes "ts \<noteq> []"
    and "\<forall>t \<in> set ts. t \<noteq> [] \<and> \<not> py_isspace (hd t) \<and> \<not> py_isspace (last t)"
  shows "py_strip (concat (map (\<lambda>t. t @ [32]) ts)) = py_join [32] ts"
proof -
  let ?x = "py_join [32] ts"
  have x: "?x \<noteq> []" "hd ?x = hd (hd ts)" "last ?x = last (last ts)"
    using py_join_hd_last [OF assms(1)] assms(2) by auto
  have hd_ok: "\<not> py_isspace (hd ?x)" and last_ok: "\<not> py_isspace (last ?x)"
    using x assms by (simp_all add: last_in_set)
  have sp: "py_isspace 32"
    by (simp add: py_isspace_def)
  have "dropWhile py_isspace (?x @ [32]) = ?x @ [32]"
    using x(1) hd_ok by (cases ?x) simp_all
  moreover have "dropWhile py_isspace (rev (?x @ [32])) = rev ?x"
    using x(1) last_ok sp by (cases "rev ?x") (simp_all add: hd_rev [symmetric])
  ultimately show ?thesis
    using concat_map_snoc_space [OF assms(1)] by (simp add: py_strip_def)
qed

section \<open>The offline pass\<close>

text \<open>Line 611: the mode of an offline result message.\<close>

definition offline_mode :: "string \<Rightarrow> string" where
  "offline_mode mode = (if py_contains ''2pass'' mode then ''2pass-offline'' else mode)"

definition text_msg :: "string \<Rightarrow> string \<Rightarrow> ustr \<Rightarrow> out_msg" where
  "text_msg mode wav_name t =
     \<lparr>msg_mode = mode, msg_payload = Text t, msg_wav_name = wav_name, msg_is_final = False\<rparr>"

definition error_msg :: "string \<Rightarrow> asr_error \<Rightarrow> out_msg" where
  "error_msg wav_name e =
     \<lparr>msg_mode = ''error'', msg_payload = AsrError e, msg_wav_name = wav_name, msg_is_final = True\<rparr>"

text \<open>Lines 601--607: the punctuation model, when there is one and the text is non-empty.\<close>

definition punctuate :: "collaborators \<Rightarrow> cache \<Rightarrow> ustr \<Rightarrow> (ustr \<times> cache) option" where
  "punctuate co punc_cache t =
     (case punc_model co of
        None \<Rightarrow> Some (t, punc_cache)
      | Some p \<Rightarrow> if t \<noteq> [] then p punc_cache t else Some (t, punc_cache))"

text \<open>
  Lines 551--597: the recognition itself, returning the text and the device after
  the per-chunk cache clearing, or \<open>None\<close> when an exception reaches line 636.
\<close>

definition recognise :: "collaborators \<Rightarrow> string option \<Rightarrow> bytes \<Rightarrow> gpu_device option \<Rightarrow>
                         (ustr \<times> gpu_device option) option" where
  "recognise co hotword audio_in g =
     (if 8 * 1024 * 1024 < length audio_in
      then (case split_audio_chunks 8 audio_in of
              Inl _ \<Rightarrow> None
            | Inr chunks \<Rightarrow>
                Some (py_strip (combine_chunk_texts (asr_generate co hotword) chunks),
                      fold (\<lambda>_ g. clear_gpu_memory g) chunks g))
      else map_option (\<lambda>t. (t, g)) (asr_generate co hotword audio_in))"

text \<open>
  \<open>async_asr\<close> (lines 532--650): the offline pass over one segment. The state it
  changes is the GPU device and the punctuation cache; its output is the list
  of messages sent.
\<close>

definition async_asr :: "collaborators \<Rightarrow> string \<Rightarrow> string \<Rightarrow> string option \<Rightarrow> bytes \<Rightarrow>
                         gpu_device option \<times> cache \<Rightarrow> out_msg list \<times> gpu_device option \<times> cache" where
  "async_asr co mode wav_name hotword audio_in st =
     (case st of (g, punc_cache) \<Rightarrow>
       if 0 < length audio_in then
         (case check_memory_before_processing (length audio_in) g of
            (False, g1) \<Rightarrow> ([error_msg wav_name InsufficientGpuMemory], g1, punc_cache)
          | (True, g1) \<Rightarrow>
              (case recognise co hotword audio_in g1 of
                 None \<Rightarrow> ([error_msg wav_name RecognitionFailed], g1, punc_cache)
               | Some (t, g2) \<Rightarrow>
                   (let g3 = clear_gpu_memory g2
                    in case punctuate co punc_cache t of
                         None \<Rightarrow> ([error_msg wav_name RecognitionFailed], g3, punc_cache)
                       | Some (t', punc_cache') \<Rightarrow>
                           (if t' \<noteq> [] then [text_msg (offline_mode mode) wav_name t'] else [],
                            g3, punc_cache'))))
       else ([text_msg (offline_mode mode) wav_name []], g, punc_cache))"

section \<open>The online pass\<close>

text \<open>Line 675: the mode of an online result message.\<close>

definition online_mode :: "string \<Rightarrow> string" where
  "online_mode mode = (if py_contains ''2pass'' mode then ''2pass-online'' else mode)"

text \<open>
  \<open>async_asr_online\<close> (lines 652--687): the online model is called with the
  connection's online status (its cache threaded through); in mode
  \<open>2pass\<close> on a final call the result is returned unsent; otherwise the
  emitter sends the new suffix. The result is what the function returns, the
  new online status, the new \<open>sent_text_length\<close> and the messages sent; an
  exception of the model propagates to the caller.
\<close>

definition async_asr_online :: "collaborators \<Rightarrow> string \<Rightarrow> string \<Rightarrow> bytes \<Rightarrow> online_status \<Rightarrow> nat \<Rightarrow>
    py_error + (ustr option \<times> online_status \<times> nat \<times> out_msg list)" where
  "async_asr_online co mode wav_name audio_in st sent_text_length =
     (if 0 < length audio_in then
        (case online_generate co st audio_in of
           None \<Rightarrow> Inl ModelError
         | Some (t, c) \<Rightarrow>
             (let st' = st\<lparr>on_cache := c\<rparr>
              in if mode = ''2pass'' \<and> on_is_final st then Inr (Some t, st', sent_text_length, [])
                 else (case emit_new_text sent_text_length t of
                         (None, n) \<Rightarrow> Inr (Some t, st', n, [])
                       | (Some d, n) \<Rightarrow> Inr (Some t, st', n, [text_msg (online_mode mode) wav_name d]))))
      else Inr (None, st, sent_text_length, []))"

section \<open>Lemmas on the passes\<close>

lemma fold_clear_None: "fold (\<lambda>_ g. clear_gpu_memory g) cs None = None"
  by (induction cs) (simp_all add: clear_gpu_memory_def)

lemma async_asr_Nil [simp]:
  "async_asr co mode wav_name hotword [] (g, pc) = ([text_msg (offline_mode mode) wav_name []], g, pc)"
  by (simp add: async_asr_def)

lemma async_asr_cases:
  assumes "0 < length a"
  obtains (refused) g1 where "check_memory_before_processing (length a) g = (False, g1)"
      and "async_asr co mode wav_name hw a (g, pc) = ([error_msg wav_name InsufficientGpuMemory], g1, pc)"
  | (failed) g1 where "check_memory_before_processing (length a) g = (True, g1)"
      and "recognise co hw a g1 = None"
      and "async_asr co mode wav_name hw a (g, pc) = ([error_msg wav_name RecognitionFailed], g1, pc)"
  | (punc_failed) g1 t g2 where "check_memory_before_processing (length a) g = (True, g1)"
      and "recognise co hw a g1 = Some (t, g2)" and "punctuate co pc t = None"
      and "async_asr co mode wav_name hw a (g, pc) =
             ([error_msg wav_name RecognitionFailed], clear_gpu_memory g2, pc)"
  | (sent) g1 t g2 t' pc' where "check_memory_before_processing (length a) g = (True, g1)"
      and "recognise co hw a g1 = Some (t, g2)" and "punctuate co pc t = Some (t', pc')"
      and "async_asr co mode wav_name hw a (g, pc) =
             (if t' \<noteq> [] then [text_msg (offline_mode mode) wav_name t'] else [],
              clear_gpu_memory g2, pc')"
proof -
  obtain ok g1 where c: "check_memory_before_processing (length a) g = (ok, g1)"
    by (cases "check_memory_before_processing (length a) g") auto
  show thesis
  proof (cases ok)
    case False
    show thesis
      by (rule refused [of g1]) (use c False assms in \<open>simp_all add: async_asr_def\<close>)
  next
    case True
    show thesis
    proof (cases "recognise co hw a g1")
      case None
      show thesis
        by (rule failed [of g1]) (use c True None assms in \<open>simp_all add: async_asr_def\<close>)
    next
      case (Some r)
      then obtain t g2 where r: "recognise co hw a g1 = Some (t, g2)"
        by (cases r) auto
      show thesis
      proof (cases "punctuate co pc t")
        case None
        show thesis
          by (rule punc_failed [of g1 t g2])
             (use c True r None assms in \<open>simp_all add: async_asr_def Let_def\<close>)
      next
        case (Some p)
        then obtain t' pc' where p: "punctuate co pc t = Some (t', pc')"
          by (cases p) auto
        show thesis
          by (rule sent [of g1 t g2 t' pc'])
             (use c True r p assms in \<open>simp_all add: async_asr_def Let_def\<close>)
      qed
    qed
  qed
qed

section \<open>Properties of the passes\<close>

text \<open>
  C11: splitting round trip. For a positive chunk size, \<open>split_audio_chunks\<close>
  succeeds and its chunks concatenate back to the audio.
\<close>

theorem split_audio_chunks_roundtrip:
  assumes "0 < mb"
  shows "\<exists>cs. split_audio_chunks mb a = Inr cs \<and> concat cs = a"
  using assms by (simp add: split_audio_chunks_Inr chunks_of_concat)

theorem split_audio_chunks_roundtrip_witness:
  "split_audio_chunks 1 [1, 2, 3] = Inr [[1, 2, 3]] \<and> concat [[1, 2, 3 :: byte]] = [1, 2, 3]"
  using split_audio_chunks_roundtrip [of 1 "[1, 2, 3]"] by (simp add: split_audio_chunks_Inr)

text \<open>
  C12: splitting bounds. Every chunk is at most the chunk size (\<open>mb\<close> MiB), and
  there are \<open>ceil(len / size)\<close> chunks, at least one.
\<close>

theorem split_audio_chunks_bounds:
  assumes "0 < mb" and "split_audio_chunks mb a = Inr cs"
  shows "(\<forall>c \<in> set cs. length c \<le> 1048576 * mb) \<and>
         length cs = max 1 ((length a + 1048576 * mb - 1) div (1048576 * mb))"
proof (cases "length a \<le> 1048576 * mb")
  case True
  then have "(length a + 1048576 * mb - 1) div (1048576 * mb) < 2"
    using assms(1) by (intro less_mult_imp_div_less) simp
  moreover have "cs = [a]"
    using True assms by (simp add: split_audio_chunks_Inr)
  ultimately show ?thesis
    using True by simp
next
  case False
  then have cs: "cs = chunks_of (1048576 * mb) a"
    using assms by (simp add: split_audio_chunks_Inr)
  have "0 < (length a + 1048576 * mb - 1) div (1048576 * mb)"
    using False assms(1) by (simp add: div_greater_zero_iff)
  with cs assms(1) show ?thesis
    by (auto simp: chunks_of_length dest: chunks_of_bounded)
qed

theorem split_audio_chunks_bounds_witness:
  "split_audio_chunks 1 [1, 2, 3] = Inr [[1, 2, 3]] \<and> length [[1, 2, 3 :: byte]] = 1"
  using split_audio_chunks_bounds [of 1 "[1, 2, 3]" "[[1, 2, 3]]"]
  by (simp add: split_audio_chunks_Inr)

text \<open>
  The texts of the chunks of a large segment are joined by single spaces.
  When the chunks that succeed give non-empty texts without surrounding
  white space, the combined text is \<open>" ".join\<close> of those texts, in chunk order;
  chunks whose call raises contribute nothing.
\<close>

theorem combine_chunk_texts_joined:
  assumes "List.map_filter asr cs = ts" and "ts \<noteq> []"
    and "\<forall>t \<in> set ts. t \<noteq> [] \<and> \<not> py_isspace (hd t) \<and> \<not> py_isspace (last t)"
  shows "py_strip (combine_chunk_texts asr cs) = py_join [32] ts"
proof -
  have "filter (\<lambda>t. t \<noteq> []) ts = ts"
    using assms(3) by (simp add: filter_id_conv)
  with assms show ?thesis
    by (simp add: combine_chunk_texts_append py_strip_join)
qed

theorem combine_chunk_texts_joined_witness:
  "List.map_filter (\<lambda>c. if c = [0] then None else Some [97]) [[1], [0], [2 :: byte]] = [[97], [97]] \<and>
   py_strip (combine_chunk_texts (\<lambda>c. if c = [0] then None else Some [97]) [[1], [0], [2]]) = [97, 32, 97]"
proof -
  have m: "List.map_filter (\<lambda>c. if c = [0] then None else Some [97]) [[1], [0], [2 :: byte]] = [[97], [97]]"
    by (simp add: List.map_filter_def)
  have "\<forall>t \<in> set [[97], [97 :: nat]]. t \<noteq> [] \<and> \<not> py_isspace (hd t) \<and> \<not> py_isspace (last t)"
    by (simp add: py_isspace_def)
  from combine_chunk_texts_joined [OF m _ this] m show ?thesis by simp
qed

text \<open>
  C13: the offline pass sends at most one message, and it sends none exactly
  when the audio is non-empty, the guard admits it, \<open>recognise\<close> returns a
  text and the punctuation model turns that text into the empty text. For a
  segment over 8 MiB \<open>recognise\<close> returns a text even when every chunk's call
  raised (the empty text, see C14), so silence does not mean that recognition
  succeeded; in every other case the client hears something (a result, an
  empty result for empty audio, or an error).
\<close>

theorem async_asr_silent:
  "length (fst (async_asr co mode wav_name hw a (g, pc))) \<le> 1 \<and>
   (fst (async_asr co mode wav_name hw a (g, pc)) = [] \<longleftrightarrow>
      0 < length a \<and>
      (\<exists>g1 t g2 pc'. check_memory_before_processing (length a) g = (True, g1) \<and>
         recognise co hw a g1 = Some (t, g2) \<and> punctuate co pc t = Some ([], pc')))"
proof (cases "0 < length a")
  case False
  then show ?thesis by (simp add: async_asr_def)
next
  case True
  then show ?thesis
    by (cases rule: async_asr_cases [of a g co mode wav_name hw pc]) auto
qed

theorem async_asr_silent_witness:
  "fst (async_asr \<lparr>asr_generate = \<lambda>_ _. Some [], online_generate = \<lambda>_ _. None,
                   vad_generate = \<lambda>_ _. None, punc_model = None\<rparr>
          ''2pass'' ''microphone'' None [1] (None, [])) = [] \<and>
   recognise \<lparr>asr_generate = \<lambda>_ _. Some [], online_generate = \<lambda>_ _. None,
              vad_generate = \<lambda>_ _. None, punc_model = None\<rparr> None [1] None = Some ([], None)"
proof -
  have h: "fst (async_asr \<lparr>asr_generate = \<lambda>_ _. Some [], online_generate = \<lambda>_ _. None,
                   vad_generate = \<lambda>_ _. None, punc_model = None\<rparr>
          ''2pass'' ''microphone'' None [1] (None, [])) = []"
    by (simp add: async_asr_def recognise_def punctuate_def clear_gpu_memory_def)
  from async_asr_silent [where co = "\<lparr>asr_generate = \<lambda>_ _. Some [], online_generate = \<lambda>_ _. None,
                   vad_generate = \<lambda>_ _. None, punc_model = None\<rparr>" and mode = "''2pass''"
      and wav_name = "''microphone''" and hw = None and a = "[1]" and g = None and pc = "[]"] h
  show ?thesis
    by (auto simp: recognise_def)
qed

text \<open>
  When the guard refuses, the offline pass sends exactly one error message
  (mode \<open>error\<close>, final), calls no model, and leaves the punctuation cache
  unchanged.
\<close>

theorem async_asr_refused:
  assumes "0 < length a" and "check_memory_before_processing (length a) g = (False, g1)"
  shows "async_asr co mode wav_name hw a (g, pc) = ([error_msg wav_name InsufficientGpuMemory], g1, pc)"
  using assms by (simp add: async_asr_def)

theorem async_asr_refused_witness:
  "async_asr \<lparr>asr_generate = \<lambda>_ _. None, online_generate = \<lambda>_ _. None, vad_generate = \<lambda>_ _. None, punc_model = None\<rparr>
     ''2pass'' ''mic'' None [1]
     (Some \<lparr>total_memory = 0, memory_allocated = 0, memory_reserved = 0\<rparr>, [5]) =
   ([error_msg ''mic'' InsufficientGpuMemory],
    Some \<lparr>total_memory = 0, memory_allocated = 0, memory_reserved = 0\<rparr>, [5])"
  using async_asr_refused [of "[1]" "Some \<lparr>total_memory = 0, memory_allocated = 0, memory_reserved = 0\<rparr>"
      "Some \<lparr>total_memory = 0, memory_allocated = 0, memory_reserved = 0\<rparr>"
      "\<lparr>asr_generate = \<lambda>_ _. None, online_generate = \<lambda>_ _. None, vad_generate = \<lambda>_ _. None, punc_model = None\<rparr>" "''2pass''" "''mic''" None "[5]"]
  by (simp add: check_Some free_gb_def gib_def torch_empty_cache_def)

text \<open>
  C14: recognition failures of a large segment are not reported. When the
  segment is longer than 8 MiB, the guard admits it and every chunk's call
  raises, the offline pass sends no message at all, not even an error.
\<close>

theorem async_asr_chunks_fail_silent:
  assumes "8388608 < length a" and "\<forall>c. asr_generate co hw c = None"
    and "fst (check_memory_before_processing (length a) g)"
  shows "fst (async_asr co mode wav_name hw a (g, pc)) = []"
proof -
  obtain g1 where g1: "check_memory_before_processing (length a) g = (True, g1)"
    using assms(3) by (cases "check_memory_before_processing (length a) g") auto
  have "recognise co hw a g1 = Some ([], fold (\<lambda>_ g. clear_gpu_memory g) (chunks_of 8388608 a) g1)"
    using assms(1,2)
    by (simp add: recognise_def split_audio_chunks_Inr combine_chunk_texts_none py_strip_def)
  moreover have "0 < length a"
    using assms(1) by (cases a) simp_all
  ultimately show ?thesis
    using g1 by (simp add: async_asr_def punctuate_def split: option.splits)
qed

theorem async_asr_chunks_fail_silent_witness:
  "fst (async_asr \<lparr>asr_generate = \<lambda>_ _. None, online_generate = \<lambda>_ _. None,
                   vad_generate = \<lambda>_ _. None, punc_model = None\<rparr>
          ''2pass'' ''mic'' None (replicate 8388609 0) (None, [])) = []"
  using async_asr_chunks_fail_silent [of "replicate 8388609 0"
      "\<lparr>asr_generate = \<lambda>_ _. None, online_generate = \<lambda>_ _. None,
        vad_generate = \<lambda>_ _. None, punc_model = None\<rparr>" None None "''2pass''" "''mic''" "[]"]
  by simp

text \<open>
  In mode \<open>2pass\<close>, a final online call returns the model's result without
  sending anything and without moving \<open>sent_text_length\<close>; only the online
  cache changes, to the one the model returned.
\<close>

theorem async_asr_online_2pass_final:
  assumes "mode = ''2pass''" and "on_is_final st" and "0 < length a"
    and "online_generate co st a = Some (t, c)"
  shows "async_asr_online co mode wav_name a st n = Inr (Some t, st\<lparr>on_cache := c\<rparr>, n, [])"
  using assms by (simp add: async_asr_online_def)

theorem async_asr_online_2pass_final_witness:
  "async_asr_online \<lparr>asr_generate = \<lambda>_ _. None, online_generate = \<lambda>_ _. Some ([7], [1]),
                      vad_generate = \<lambda>_ _. None, punc_model = None\<rparr>
     ''2pass'' ''mic'' [1]
     \<lparr>on_cache = [], on_is_final = True, on_chunk_size = None,
      on_encoder_chunk_look_back = None, on_decoder_chunk_look_back = None\<rparr> 0 =
   Inr (Some [7], \<lparr>on_cache = [1], on_is_final = True, on_chunk_size = None,
      on_encoder_chunk_look_back = None, on_decoder_chunk_look_back = None\<rparr>, 0, [])"
  using async_asr_online_2pass_final [of "''2pass''"
      "\<lparr>on_cache = [], on_is_final = True, on_chunk_size = None,
        on_encoder_chunk_look_back = None, on_decoder_chunk_look_back = None\<rparr>" "[1]"
      "\<lparr>asr_generate = \<lambda>_ _. None, online_generate = \<lambda>_ _. Some ([7], [1]),
        vad_generate = \<lambda>_ _. None, punc_model = None\<rparr>" "[7]" "[1]" "''mic''" 0]
  by simp

end
