(* ===== verification/SegmentDetector.thy ===== *)
theory SegmentDetector
  imports Coordinator
begin

text \<open>
  The voice-activity wrapper of the streaming server: \<open>async_vad\<close>
  (\<open>src/websocket/funasr_wss_server.py\<close>, lines 486--505), which turns the VAD
  model's segment list into one boundary pair, and the look-back splice of
  \<open>ws_serve\<close> (lines 422--427), which, when a speech start is reported,
  restarts the segment's frames with the already received frames that precede
  the start. The sentinel \<open>-1\<close> means "no boundary observed".
\<close>

section \<open>The VAD call\<close>

text \<open>
  Zero or several segments give no boundary; a segment with fewer than two
  entries raises \<open>IndexError\<close>, which the wrapper turns into no boundary, as it
  does an exception of the model.
\<close>

definition async_vad :: "collaborators \<Rightarrow> vad_status \<Rightarrow> bytes \<Rightarrow> (int \<times> int) \<times> vad_status" where
  "async_vad co st audio_in =
     (case vad_generate co st audio_in of
        None \<Rightarrow> ((-1, -1), st)
      | Some (segments_result, c) \<Rightarrow>
          (let st' = st\<lparr>vad_cache := c\<rparr>
           in if length segments_result = 0 \<or> 1 < length segments_result then ((-1, -1), st')
              else (case hd segments_result of
                      s0 # s1 # _ \<Rightarrow>
                        ((if s0 \<noteq> -1 then s0 else -1, if s1 \<noteq> -1 then s1 else -1), st')
                    | _ \<Rightarrow> ((-1, -1), st'))))"

section \<open>The look-back splice\<close>

text \<open>
  Lines 424--427: \<open>beg_bias = (vad_pre_idx - speech_start_i) // duration_ms\<close>,
  then \<open>frames[-beg_bias:]\<close>.
\<close>

definition lookback_frames :: "int \<Rightarrow> int \<Rightarrow> int \<Rightarrow> bytes list \<Rightarrow> py_error + bytes list" where
  "lookback_frames vad_pre_idx speech_start_i duration_ms frames =
     sbind (py_floordiv (vad_pre_idx - speech_start_i) duration_ms)
       (\<lambda>beg_bias. Inr (py_slice_from (- beg_bias) frames))"

section \<open>Lemmas\<close>

lemma async_vad_one_segment:
  "vad_generate co st a = Some ([[s0, s1]], c) \<Longrightarrow> async_vad co st a = ((s0, s1), st\<lparr>vad_cache := c\<rparr>)"
  by (simp add: async_vad_def)

lemma async_vad_cache:
  "snd (async_vad co st a) =
     (case vad_generate co st a of None \<Rightarrow> st | Some (_, c) \<Rightarrow> st\<lparr>vad_cache := c\<rparr>)"
  by (auto simp: async_vad_def Let_def split: option.splits list.splits)

lemma lookback_frames_zero_div:
  "lookback_frames p s 0 frames = Inl ZeroDivisionError"
  by (simp add: lookback_frames_def)

lemma lookback_frames_pos:
  assumes "0 < d" and "0 < (p - s) div d"
  shows "lookback_frames p s d frames = Inr (drop (length frames - nat ((p - s) div d)) frames)"
  using assms by (simp add: lookback_frames_def py_slice_from_neg)

section \<open>Properties\<close>

text \<open>
  C24: when the reported speech start lies within the newest frame, the
  look-back bias is 0 and \<open>frames[-0:]\<close> is the whole frame history, not
  an empty or one-frame look-back: the segment restarts with every frame kept
  since the last reset.
\<close>

theorem lookback_frames_whole_history:
  assumes "0 < d" and "0 \<le> p - s" and "p - s < d"
  shows "lookback_frames p s d frames = Inr frames"
proof -
  have "(p - s) div d = 0"
    using assms by (simp add: div_pos_pos_trivial)
  with assms(1) show ?thesis
    by (simp add: lookback_frames_def)
qed

theorem lookback_frames_whole_history_witness:
  "0 < (10 :: int) \<and> 0 \<le> (100 - 95 :: int) \<and> (100 - 95 :: int) < 10 \<and>
   lookback_frames 100 95 10 [[1], [2], [3]] = Inr [[1], [2], [3]]"
  using lookback_frames_whole_history [of 10 100 95 "[[1], [2], [3]]"] by simp

text \<open>
  When the VAD model reports more than one segment in one call, the
  wrapper reports no boundary at all (the behaviour the spec asks to keep),
  while the model's new cache is kept.
\<close>

theorem async_vad_ambiguous:
  assumes "vad_generate co st a = Some (segs, c)" and "1 < length segs"
  shows "async_vad co st a = ((-1, -1), st\<lparr>vad_cache := c\<rparr>)"
  using assms by (simp add: async_vad_def)

theorem async_vad_ambiguous_witness:
  "vad_generate \<lparr>asr_generate = \<lambda>_ _. None, online_generate = \<lambda>_ _. None, vad_generate = \<lambda>_ _. Some ([[0, 10], [20, 30]], [7]), punc_model = None\<rparr> \<lparr>vad_cache = [], vad_is_final = False, vad_chunk_size = Some 300\<rparr> [1] = Some ([[0, 10], [20, 30]], [7]) \<and> 1 < length [[0, 10], [20, 30 :: int]] \<and>
   async_vad \<lparr>asr_generate = \<lambda>_ _. None, online_generate = \<lambda>_ _. None, vad_generate = \<lambda>_ _. Some ([[0, 10], [20, 30]], [7]), punc_model = None\<rparr> \<lparr>vad_cache = [], vad_is_final = False, vad_chunk_size = Some 300\<rparr> [1] = ((-1, -1), \<lparr>vad_cache = [], vad_is_final = False, vad_chunk_size = Some 300\<rparr>\<lparr>vad_cache := [7]\<rparr>)"
  using async_vad_ambiguous [of "\<lparr>asr_generate = \<lambda>_ _. None, online_generate = \<lambda>_ _. None, vad_generate = \<lambda>_ _. Some ([[0, 10], [20, 30]], [7]), punc_model = None\<rparr>" "\<lparr>vad_cache = [], vad_is_final = False, vad_chunk_size = Some 300\<rparr>" "[1]" "[[0, 10], [20, 30]]" "[7]"] by simp

end
