(* ===== verification/Session.thy ===== *)
theory Session
  imports SegmentDetector AudioBuffer
begin

text \<open>
  The per-connection handler \<open>ws_serve\<close> of the streaming server
  (\<open>src/websocket/funasr_wss_server.py\<close>, lines 293--483) with
  \<open>merge_stream_results\<close> (232--247), \<open>send_final_result\<close> (250--265) and
  \<open>ws_reset\<close> (274--284). The attributes the handler sets on the websocket
  object and the local variables of its loop form the record \<open>session\<close>; the
  process-wide GPU device and the list of messages sent so far are part of it.
  One iteration of the \<open>async for message in websocket\<close> loop is
  \<open>ws_step\<close>, composed as the code composes it: the control handling (text
  frames), the VAD chunk-size update, the audio handling (binary frames), and
  the segment-boundary block. An exception that leaves an iteration ends the
  loop; it carries the state at the point where it was raised, since the
  effects before it (messages sent, models called) have happened.
  \<open>ws_serve\<close> runs a whole connection: the messages, then, by how the loop
  ended, nothing (a normal close), the connection-closed teardown (an
  abnormal close) or the generic exception handler.
\<close>

section \<open>Inbound frames\<close>

text \<open>\<open>chunk_size\<close> is a JSON list or a string \<open>"a,b,c"\<close>.\<close>
datatype chunk_size_val = CSList "int list" | CSStr string

text \<open>The keys of a control message the handler reads (lines 321--372).\<close>
record control =
  c_is_speaking :: "bool option"
  c_chunk_interval :: "int option"
  c_wav_name :: "string option"
  c_chunk_size :: "chunk_size_val option"
  c_encoder_chunk_look_back :: "int option"
  c_decoder_chunk_look_back :: "int option"
  c_hotwords :: "string option"
  c_mode :: "string option"
  c_is_file_upload :: "bool option"
  c_upload_complete :: bool

text \<open>A text frame that is not JSON makes \<open>json.loads\<close> raise.\<close>
datatype inbound = TextFrame control | BinaryFrame bytes | BadJson

definition control0 :: control where
  "control0 =
     \<lparr>c_is_speaking = None, c_chunk_interval = None, c_wav_name = None, c_chunk_size = None,
      c_encoder_chunk_look_back = None, c_decoder_chunk_look_back = None, c_hotwords = None,
      c_mode = None, c_is_file_upload = None, c_upload_complete = False\<rparr>"

section \<open>Parsing \<open>chunk_size\<close>\<close>

definition parse_chunk_size :: "chunk_size_val \<Rightarrow> py_error + int list" where
  "parse_chunk_size v =
     (case v of
        CSList xs \<Rightarrow> Inr xs
      | CSStr s \<Rightarrow>
          (let parts = map py_int_of_str (split_on CHR '','' s)
           in if None \<in> set parts then Inl ValueError else Inr (map the parts)))"

section \<open>The connection state\<close>

record session =
  frames :: "bytes list"
  frames_asr :: "bytes list"
  frames_asr_online :: "bytes list"
  speech_start :: bool
  speech_end_i :: int
  hotword :: "string option"
  online_st :: online_status
  vad_st :: vad_status
  punc_cache :: cache
  chunk_interval :: int
  vad_pre_idx :: int
  sent_text_length :: nat
  audio_buf :: audio_buffer
  stream_results :: "ustr list"
  wav_name :: string
  mode :: string
  is_file_upload :: bool
  is_speaking :: "bool option"
  registered :: bool
  gpu :: "gpu_device option"
  outbox :: "out_msg list"

text \<open>Lines 294--313: the state of a new connection.\<close>

definition session_init :: "gpu_device option \<Rightarrow> session" where
  "session_init g =
     \<lparr>frames = [], frames_asr = [], frames_asr_online = [], speech_start = False,
      speech_end_i = -1, hotword = None,
      online_st = \<lparr>on_cache = [], on_is_final = False, on_chunk_size = None,
                   on_encoder_chunk_look_back = None, on_decoder_chunk_look_back = None\<rparr>,
      vad_st = \<lparr>vad_cache = [], vad_is_final = False, vad_chunk_size = None\<rparr>,
      punc_cache = [], chunk_interval = 10, vad_pre_idx = 0, sent_text_length = 0,
      audio_buf = AudioBuffer 100, stream_results = [], wav_name = ''microphone'',
      mode = ''2pass'', is_file_upload = False, is_speaking = None, registered = True,
      gpu = g, outbox = []\<rparr>"

text \<open>The result of a statement that may raise: the exception with the state at the raise.\<close>
type_synonym step_result = "(py_error \<times> session) + session"

definition raise_at :: "session \<Rightarrow> py_error + 'a \<Rightarrow> (py_error \<times> session) + 'a" where
  "raise_at s x = (case x of Inl e \<Rightarrow> Inl (e, s) | Inr a \<Rightarrow> Inr a)"

section \<open>Helpers of the handler\<close>

text \<open>\<open>merge_stream_results\<close> (lines 232--247).\<close>

definition merge_stream_results :: "ustr list \<Rightarrow> ustr" where
  "merge_stream_results rs = concat (map py_strip (filter (\<lambda>t. t \<noteq> []) rs))"

text \<open>\<open>send_final_result\<close> (lines 250--265); the timestamp is not modelled.\<close>

definition final_msg :: "string \<Rightarrow> string \<Rightarrow> ustr \<Rightarrow> out_msg" where
  "final_msg m wav t = \<lparr>msg_mode = m, msg_payload = Text t, msg_wav_name = wav, msg_is_final = True\<rparr>"

definition send :: "out_msg list \<Rightarrow> session \<Rightarrow> session" where
  "send ms s = s\<lparr>outbox := outbox s @ ms\<rparr>"

text \<open>\<open>await async_asr(websocket, audio_in)\<close>: the offline pass on the connection.\<close>

definition run_async_asr :: "collaborators \<Rightarrow> bytes \<Rightarrow> session \<Rightarrow> session" where
  "run_async_asr co audio_in s =
     (case async_asr co (mode s) (wav_name s) (hotword s) audio_in (gpu s, punc_cache s) of
        (ms, g, pc) \<Rightarrow> send ms (s\<lparr>gpu := g, punc_cache := pc\<rparr>))"

text \<open>
  Lines 400--408: the online pass on the pending frames; its exception is
  caught and printed, and a result is kept for the final merge in upload mode.
\<close>

definition run_async_asr_online :: "collaborators \<Rightarrow> session \<Rightarrow> session" where
  "run_async_asr_online co s =
     (case async_asr_online co (mode s) (wav_name s) (concat (frames_asr_online s)) (online_st s)
             (sent_text_length s) of
        Inl _ \<Rightarrow> s
      | Inr (res, ost, n, ms) \<Rightarrow>
          send ms (s\<lparr>online_st := ost, sent_text_length := n,
                     stream_results := (case res of
                                          Some t \<Rightarrow> if is_file_upload s then stream_results s @ [t]
                                                    else stream_results s
                                        | None \<Rightarrow> stream_results s)\<rparr>))"

section \<open>One iteration of the loop\<close>

text \<open>Lines 350--372: the end of a file upload.\<close>

definition upload_complete :: "collaborators \<Rightarrow> session \<Rightarrow> session" where
  "upload_complete co s =
     (if is_file_upload s then
        (let remaining_data = get_unprocessed_data (audio_buf s);
             s1 = (if remaining_data \<noteq> [] then run_async_asr co remaining_data s else s);
             final_text = merge_stream_results (stream_results s1);
             s2 = (if stream_results s1 \<noteq> [] \<and> final_text \<noteq> []
                   then send [final_msg ''upload-complete'' (wav_name s1) final_text] s1 else s1)
         in s2\<lparr>audio_buf := clear (audio_buf s2), stream_results := []\<rparr>)
      else s)"

text \<open>Lines 321--330: \<open>is_speaking\<close>, \<open>chunk_interval\<close> and \<open>wav_name\<close>.\<close>

definition control_head :: "control \<Rightarrow> session \<Rightarrow> session" where
  "control_head c s0 =
     (let s1 = (case c_is_speaking c of
                  None \<Rightarrow> s0
                | Some b \<Rightarrow> s0\<lparr>is_speaking := Some b, online_st := (online_st s0)\<lparr>on_is_final := \<not> b\<rparr>,
                               sent_text_length := (if b then 0 else sent_text_length s0)\<rparr>);
          s2 = (case c_chunk_interval c of None \<Rightarrow> s1 | Some ci \<Rightarrow> s1\<lparr>chunk_interval := ci\<rparr>)
      in case c_wav_name c of None \<Rightarrow> s2 | Some w \<Rightarrow> s2\<lparr>wav_name := w\<rparr>)"

text \<open>Lines 331--335: \<open>chunk_size\<close>, whose conversion to integers may raise.\<close>

definition control_chunk_size :: "control \<Rightarrow> session \<Rightarrow> step_result" where
  "control_chunk_size c s =
     (case c_chunk_size c of
        None \<Rightarrow> Inr s
      | Some v \<Rightarrow> raise_at s (map_sum id (\<lambda>l. s\<lparr>online_st := (online_st s)\<lparr>on_chunk_size := Some l\<rparr>\<rparr>)
                                (parse_chunk_size v)))"

text \<open>Lines 336--349: the look-backs, \<open>hotwords\<close>, \<open>mode\<close> and \<open>is_file_upload\<close>.\<close>

definition control_tail :: "control \<Rightarrow> session \<Rightarrow> session" where
  "control_tail c s4 =
     (let s5 = (case c_encoder_chunk_look_back c of None \<Rightarrow> s4
                  | Some x \<Rightarrow> s4\<lparr>online_st := (online_st s4)\<lparr>on_encoder_chunk_look_back := Some x\<rparr>\<rparr>);
          s6 = (case c_decoder_chunk_look_back c of None \<Rightarrow> s5
                  | Some x \<Rightarrow> s5\<lparr>online_st := (online_st s5)\<lparr>on_decoder_chunk_look_back := Some x\<rparr>\<rparr>);
          s7 = (case c_hotwords c of None \<Rightarrow> s6 | Some h \<Rightarrow> s6\<lparr>hotword := Some h\<rparr>);
          s8 = (case c_mode c of None \<Rightarrow> s7 | Some m \<Rightarrow> s7\<lparr>mode := m\<rparr>)
      in case c_is_file_upload c of None \<Rightarrow> s8 | Some u \<Rightarrow> s8\<lparr>is_file_upload := u\<rparr>)"

text \<open>Lines 321--372: the keys of a control message, in the code's order.\<close>

definition handle_control :: "collaborators \<Rightarrow> control \<Rightarrow> session \<Rightarrow> step_result" where
  "handle_control co c s =
     sbind (control_chunk_size c (control_head c s))
       (\<lambda>s4. let s9 = control_tail c s4 in Inr (if c_upload_complete c then upload_complete co s9 else s9))"

text \<open>
  Lines 374--376, run for every frame:
  \<open>status_dict_vad["chunk_size"] = int(chunk_size[1] * 60 / chunk_interval)\<close>.
\<close>

definition set_vad_chunk_size :: "session \<Rightarrow> step_result" where
  "set_vad_chunk_size s =
     (case on_chunk_size (online_st s) of
        None \<Rightarrow> Inl (KeyError, s)
      | Some cs \<Rightarrow>
          (if length cs < 2 then Inl (IndexError, s)
           else raise_at s (map_sum id (\<lambda>v. s\<lparr>vad_st := (vad_st s)\<lparr>vad_chunk_size := Some v\<rparr>\<rparr>)
                                    (py_int_truediv (cs ! 1 * 60) (chunk_interval s)))))"

text \<open>
  Lines 379--394: a binary frame is appended to the frame history and to the
  audio buffer, the look-back index advances by its duration, the GPU cache is
  cleared when the buffer passes 50 MiB, and the frame joins the pending
  online frames, final when the VAD reported an end point on the last frame.
\<close>

definition audio_ingest :: "bytes \<Rightarrow> session \<Rightarrow> session" where
  "audio_ingest message s0 =
     (let duration_ms = int (length message) div 32;
          s1 = s0\<lparr>frames := frames s0 @ [message], vad_pre_idx := vad_pre_idx s0 + duration_ms,
                  audio_buf := add_chunk (audio_buf s0) message\<rparr>;
          s2 = (if 50 * 1024 * 1024 < get_buffer_size (audio_buf s1)
                then s1\<lparr>gpu := clear_gpu_memory (gpu s1)\<rparr> else s1)
      in s2\<lparr>frames_asr_online := frames_asr_online s2 @ [message],
             online_st := (online_st s2)\<lparr>on_is_final := speech_end_i s2 \<noteq> -1\<rparr>\<rparr>)"

text \<open>
  Lines 397--408: every \<open>chunk_interval\<close> frames, or on a final frame, the
  online pass runs (modes \<open>2pass\<close> and \<open>online\<close>) and the pending frames are
  dropped. The test \<open>len(frames_asr_online) % chunk_interval\<close> raises
  \<open>ZeroDivisionError\<close> when the interval is 0, before \<open>is_final\<close> is read.
\<close>

definition online_step :: "collaborators \<Rightarrow> session \<Rightarrow> step_result" where
  "online_step co s =
     (if chunk_interval s = 0 then Inl (ZeroDivisionError, s)
      else if int (length (frames_asr_online s)) mod chunk_interval s = 0 \<or> on_is_final (online_st s)
      then Inr ((if mode s = ''2pass'' \<or> mode s = ''online'' then run_async_asr_online co s else s)
                  \<lparr>frames_asr_online := []\<rparr>)
      else Inr s)"

text \<open>
  Lines 410--416: in upload mode the frame is collected for the offline pass
  and marked processed in the buffer; inside a segment it is collected too.
\<close>

definition collect_segment :: "bytes \<Rightarrow> session \<Rightarrow> session" where
  "collect_segment message s4 =
     (let s5 = (if is_file_upload s4
                then s4\<lparr>frames_asr := frames_asr s4 @ [message],
                        audio_buf := mark_processed (audio_buf s4) (length message)\<rparr>
                else s4)
      in if speech_start s5 then s5\<lparr>frames_asr := frames_asr s5 @ [message]\<rparr> else s5)"

text \<open>
  Lines 417--427: the VAD runs on the frame; on a speech start the segment
  restarts with the look-back frames.
\<close>

definition vad_step :: "collaborators \<Rightarrow> bytes \<Rightarrow> session \<Rightarrow> step_result" where
  "vad_step co message s6 =
     (case async_vad co (vad_st s6) message of
        ((speech_start_i, speech_end), vst) \<Rightarrow>
          (let s7 = s6\<lparr>vad_st := vst, speech_end_i := speech_end\<rparr>
           in if speech_start_i \<noteq> -1
              then sbind (raise_at s7 (lookback_frames (vad_pre_idx s7) speech_start_i
                                         (int (length message) div 32) (frames s7)))
                     (\<lambda>frames_pre. Inr (s7\<lparr>speech_start := True, frames_asr := frames_pre\<rparr>))
              else Inr s7))"

text \<open>Lines 378--427: a binary frame.\<close>

definition handle_audio :: "collaborators \<Rightarrow> bytes \<Rightarrow> session \<Rightarrow> step_result" where
  "handle_audio co message s =
     sbind (online_step co (audio_ingest message s)) (\<lambda>s4. vad_step co message (collect_segment message s4))"

text \<open>Lines 431--439: the offline pass on the segment, then the segment state is reset.\<close>

definition segment_flush :: "collaborators \<Rightarrow> session \<Rightarrow> session" where
  "segment_flush co s =
     (let s1 = (if mode s = ''2pass'' \<or> mode s = ''offline''
                then run_async_asr co (concat (frames_asr s)) s else s)
      in s1\<lparr>frames_asr := [], speech_start := False, frames_asr_online := []\<rparr>)"

text \<open>
  Lines 442--451: when the client has stopped speaking, the VAD and online
  caches and the frame history are reset; otherwise the last 20 frames are kept.
\<close>

definition segment_reset :: "session \<Rightarrow> step_result" where
  "segment_reset s2 =
     (case is_speaking s2 of
        None \<Rightarrow> Inl (AttributeError, s2)
      | Some b \<Rightarrow>
          Inr (if \<not> b
               then s2\<lparr>vad_pre_idx := 0, frames := [], vad_st := (vad_st s2)\<lparr>vad_cache := []\<rparr>,
                       online_st := (online_st s2)\<lparr>on_cache := []\<rparr>\<rparr>
               else s2\<lparr>frames := py_slice_from (-20) (frames s2)\<rparr>))"

text \<open>
  Lines 429--451, run for every frame: at a VAD end point, or whenever the
  client is not speaking, the segment is flushed and reset. Reading
  \<open>websocket.is_speaking\<close> before any \<open>is_speaking\<close> message raises
  \<open>AttributeError\<close>; the test short-circuits at an end point.
\<close>

definition segment_boundary :: "collaborators \<Rightarrow> session \<Rightarrow> step_result" where
  "segment_boundary co s =
     sbind (if speech_end_i s \<noteq> -1 then Inr True
            else (case is_speaking s of None \<Rightarrow> Inl (AttributeError, s) | Some b \<Rightarrow> Inr (\<not> b)))
       (\<lambda>c. if c then segment_reset (segment_flush co s) else Inr s)"

fun ws_step :: "collaborators \<Rightarrow> session \<Rightarrow> inbound \<Rightarrow> step_result" where
  "ws_step co s (TextFrame c) =
     sbind (handle_control co c s) (\<lambda>s1. sbind (set_vad_chunk_size s1) (segment_boundary co))"
| "ws_step co s (BinaryFrame b) =
     sbind (set_vad_chunk_size s) (\<lambda>s1. sbind (handle_audio co b s1) (segment_boundary co))"
| "ws_step co s BadJson = Inl (ValueError, s)"

section \<open>A whole connection\<close>

text \<open>
  \<open>ws_reset\<close> (lines 274--284): the caches are emptied and marked final, and
  the connection is closed.
\<close>

definition ws_reset :: "session \<Rightarrow> session" where
  "ws_reset s =
     s\<lparr>online_st := (online_st s)\<lparr>on_cache := [], on_is_final := True\<rparr>,
       vad_st := (vad_st s)\<lparr>vad_cache := [], vad_is_final := True\<rparr>, punc_cache := []\<rparr>"

text \<open>
  How the client's side of the connection ended. With the \<open>websockets\<close>
  protocol object the code iterates over, a close with code 1000 or 1001
  (\<open>ConnectionClosedOK\<close>) ends \<open>async for\<close> without an exception; any other
  close raises \<open>ConnectionClosedError\<close>, a \<open>websockets.ConnectionClosed\<close>.
\<close>

datatype close_kind = CloseNormal | CloseAbnormal

text \<open>
  Lines 453--470: the \<open>ConnectionClosed\<close> handler. It tries to send the
  merged stream results with \<open>send_final_result\<close>, but the connection is
  closed: \<open>websocket.send\<close> raises and \<open>send_final_result\<close> swallows it
  (lines 263--265), so nothing reaches the client. Then the buffer is
  cleared, the state reset, and the connection removed from
  \<open>websocket_users\<close>.
\<close>

definition connection_closed :: "session \<Rightarrow> session" where
  "connection_closed s =
     (let s2 = s\<lparr>audio_buf := clear (audio_buf s)\<rparr>
      in (ws_reset s2)\<lparr>registered := False\<rparr>)"

text \<open>Lines 471--483: any other exception: the buffer is cleared, nothing else.\<close>

definition handler_failed :: "session \<Rightarrow> session" where
  "handler_failed s = s\<lparr>audio_buf := clear (audio_buf s)\<rparr>"

text \<open>The loop over the frames, stopping at the first exception.\<close>

fun ws_run :: "collaborators \<Rightarrow> session \<Rightarrow> inbound list \<Rightarrow> step_result" where
  "ws_run co s [] = Inr s"
| "ws_run co s (m # ms) = sbind (ws_step co s m) (\<lambda>s'. ws_run co s' ms)"

text \<open>
  Lines 293--483: the set-up, the loop over the frames, and the handler that
  matches how the loop ended. After a normal close no handler runs.
\<close>

definition ws_serve ::
  "collaborators \<Rightarrow> gpu_device option \<Rightarrow> inbound list \<Rightarrow> close_kind \<Rightarrow> session" where
  "ws_serve co g ms k =
     (case ws_run co (session_init g) ms of
        Inl (_, s) \<Rightarrow> handler_failed s
      | Inr s \<Rightarrow> (case k of CloseNormal \<Rightarrow> s | CloseAbnormal \<Rightarrow> connection_closed s))"

section \<open>Frame lemmas\<close>

text \<open>
  The state a statement leaves, raised or not, and what each part of the
  handler leaves unchanged; the audio-buffer invariant and the registration
  are preserved by every iteration.
\<close>

definition res_state :: "step_result \<Rightarrow> session" where
  "res_state r = (case r of Inl (_, s) \<Rightarrow> s | Inr s \<Rightarrow> s)"

lemma res_state_simps [simp]: "res_state (Inl (e, s)) = s" "res_state (Inr s) = s"
  by (simp_all add: res_state_def)

lemma res_state_sbind:
  "P (res_state r) \<Longrightarrow> (\<And>s. r = Inr s \<Longrightarrow> P s \<Longrightarrow> P (res_state (f s))) \<Longrightarrow>
   P (res_state (sbind r f))"
  by (cases r) auto

lemma raise_at_simps [simp]: "raise_at s (Inl e) = Inl (e, s)" "raise_at s (Inr a) = Inr a"
  by (simp_all add: raise_at_def)

lemma run_async_asr_fields [simp]:
  "frames (run_async_asr co a s) = frames s"
  "frames_asr (run_async_asr co a s) = frames_asr s"
  "frames_asr_online (run_async_asr co a s) = frames_asr_online s"
  "speech_start (run_async_asr co a s) = speech_start s"
  "speech_end_i (run_async_asr co a s) = speech_end_i s"
  "hotword (run_async_asr co a s) = hotword s"
  "online_st (run_async_asr co a s) = online_st s"
  "vad_st (run_async_asr co a s) = vad_st s"
  "chunk_interval (run_async_asr co a s) = chunk_interval s"
  "vad_pre_idx (run_async_asr co a s) = vad_pre_idx s"
  "sent_text_length (run_async_asr co a s) = sent_text_length s"
  "audio_buf (run_async_asr co a s) = audio_buf s"
  "stream_results (run_async_asr co a s) = stream_results s"
  "wav_name (run_async_asr co a s) = wav_name s"
  "mode (run_async_asr co a s) = mode s"
  "is_file_upload (run_async_asr co a s) = is_file_upload s"
  "is_speaking (run_async_asr co a s) = is_speaking s"
  "registered (run_async_asr co a s) = registered s"
  by (simp_all add: run_async_asr_def send_def split: prod.splits)

lemma run_async_asr_online_fields [simp]:
  "frames (run_async_asr_online co s) = frames s"
  "frames_asr (run_async_asr_online co s) = frames_asr s"
  "frames_asr_online (run_async_asr_online co s) = frames_asr_online s"
  "speech_start (run_async_asr_online co s) = speech_start s"
  "speech_end_i (run_async_asr_online co s) = speech_end_i s"
  "hotword (run_async_asr_online co s) = hotword s"
  "vad_st (run_async_asr_online co s) = vad_st s"
  "punc_cache (run_async_asr_online co s) = punc_cache s"
  "chunk_interval (run_async_asr_online co s) = chunk_interval s"
  "vad_pre_idx (run_async_asr_online co s) = vad_pre_idx s"
  "audio_buf (run_async_asr_online co s) = audio_buf s"
  "wav_name (run_async_asr_online co s) = wav_name s"
  "mode (run_async_asr_online co s) = mode s"
  "is_file_upload (run_async_asr_online co s) = is_file_upload s"
  "is_speaking (run_async_asr_online co s) = is_speaking s"
  "registered (run_async_asr_online co s) = registered s"
  "gpu (run_async_asr_online co s) = gpu s"
  by (simp_all add: run_async_asr_online_def send_def split: sum.splits prod.splits)

lemma upload_complete_fields [simp]:
  "frames (upload_complete co s) = frames s"
  "frames_asr (upload_complete co s) = frames_asr s"
  "frames_asr_online (upload_complete co s) = frames_asr_online s"
  "speech_start (upload_complete co s) = speech_start s"
  "speech_end_i (upload_complete co s) = speech_end_i s"
  "hotword (upload_complete co s) = hotword s"
  "online_st (upload_complete co s) = online_st s"
  "vad_st (upload_complete co s) = vad_st s"
  "chunk_interval (upload_complete co s) = chunk_interval s"
  "vad_pre_idx (upload_complete co s) = vad_pre_idx s"
  "sent_text_length (upload_complete co s) = sent_text_length s"
  "wav_name (upload_complete co s) = wav_name s"
  "mode (upload_complete co s) = mode s"
  "is_file_upload (upload_complete co s) = is_file_upload s"
  "is_speaking (upload_complete co s) = is_speaking s"
  "registered (upload_complete co s) = registered s"
  by (simp_all add: upload_complete_def send_def Let_def)

lemma upload_complete_wf:
  "buffer_wf (audio_buf s) \<Longrightarrow> buffer_wf (audio_buf (upload_complete co s))"
  by (simp add: upload_complete_def send_def Let_def clear_wf)


lemma control_head_fields [simp]:
  "frames (control_head c s) = frames s"
  "frames_asr (control_head c s) = frames_asr s"
  "frames_asr_online (control_head c s) = frames_asr_online s"
  "speech_start (control_head c s) = speech_start s"
  "speech_end_i (control_head c s) = speech_end_i s"
  "hotword (control_head c s) = hotword s"
  "vad_st (control_head c s) = vad_st s"
  "punc_cache (control_head c s) = punc_cache s"
  "vad_pre_idx (control_head c s) = vad_pre_idx s"
  "audio_buf (control_head c s) = audio_buf s"
  "stream_results (control_head c s) = stream_results s"
  "mode (control_head c s) = mode s"
  "is_file_upload (control_head c s) = is_file_upload s"
  "registered (control_head c s) = registered s"
  "gpu (control_head c s) = gpu s"
  "outbox (control_head c s) = outbox s"
  by (simp_all add: control_head_def Let_def split: option.splits)

lemma control_tail_fields [simp]:
  "frames (control_tail c s) = frames s"
  "frames_asr (control_tail c s) = frames_asr s"
  "frames_asr_online (control_tail c s) = frames_asr_online s"
  "speech_start (control_tail c s) = speech_start s"
  "speech_end_i (control_tail c s) = speech_end_i s"
  "vad_st (control_tail c s) = vad_st s"
  "punc_cache (control_tail c s) = punc_cache s"
  "chunk_interval (control_tail c s) = chunk_interval s"
  "vad_pre_idx (control_tail c s) = vad_pre_idx s"
  "sent_text_length (control_tail c s) = sent_text_length s"
  "audio_buf (control_tail c s) = audio_buf s"
  "stream_results (control_tail c s) = stream_results s"
  "wav_name (control_tail c s) = wav_name s"
  "is_speaking (control_tail c s) = is_speaking s"
  "registered (control_tail c s) = registered s"
  "gpu (control_tail c s) = gpu s"
  "outbox (control_tail c s) = outbox s"
  by (simp_all add: control_tail_def Let_def split: option.splits)

lemma control_chunk_size_frame:
  "\<exists>cs. res_state (control_chunk_size c s) = s\<lparr>online_st := (online_st s)\<lparr>on_chunk_size := cs\<rparr>\<rparr>"
proof (cases "c_chunk_size c")
  case (Some v)
  then show ?thesis
    by (cases "parse_chunk_size v")
       (auto simp: control_chunk_size_def intro: exI [of _ "on_chunk_size (online_st s)"])
qed (auto simp: control_chunk_size_def intro: exI [of _ "on_chunk_size (online_st s)"])

lemma control_tail_online_st [simp]:
  "on_cache (online_st (control_tail c s)) = on_cache (online_st s)"
  "on_is_final (online_st (control_tail c s)) = on_is_final (online_st s)"
  "on_chunk_size (online_st (control_tail c s)) = on_chunk_size (online_st s)"
  by (simp_all add: control_tail_def Let_def split: option.splits)

lemma control_head_speaking:
  "is_speaking (control_head c s) = (case c_is_speaking c of None \<Rightarrow> is_speaking s | Some b \<Rightarrow> Some b)"
  "c_is_speaking c = Some b \<Longrightarrow> sent_text_length (control_head c s) = (if b then 0 else sent_text_length s)"
  "c_is_speaking c = Some b \<Longrightarrow> on_is_final (online_st (control_head c s)) = (\<not> b)"
  by (simp_all add: control_head_def Let_def split: option.splits)

text \<open>A control message either raises in the \<open>chunk_size\<close> conversion or completes.\<close>

lemma handle_control_cases:
  obtains (raised) e cs where
    "handle_control co c s =
       Inl (e, (control_head c s)\<lparr>online_st := (online_st (control_head c s))\<lparr>on_chunk_size := cs\<rparr>\<rparr>)"
  | (ok) cs where "handle_control co c s =
        Inr (let s9 = control_tail c ((control_head c s)\<lparr>online_st :=
                        (online_st (control_head c s))\<lparr>on_chunk_size := cs\<rparr>\<rparr>)
             in if c_upload_complete c then upload_complete co s9 else s9)"
proof -
  obtain cs where h: "res_state (control_chunk_size c (control_head c s)) =
      (control_head c s)\<lparr>online_st := (online_st (control_head c s))\<lparr>on_chunk_size := cs\<rparr>\<rparr>"
    using control_chunk_size_frame by blast
  show thesis
  proof (cases "control_chunk_size c (control_head c s)")
    case (Inl p)
    then show thesis using h raised by (cases p) (simp add: handle_control_def)
  next
    case (Inr t)
    with h show thesis by (intro ok [of cs]) (simp add: handle_control_def Let_def)
  qed
qed

lemma handle_control_frame:
  "registered (res_state (handle_control co c s)) = registered s"
  "buffer_wf (audio_buf s) \<Longrightarrow> buffer_wf (audio_buf (res_state (handle_control co c s)))"
  by (cases rule: handle_control_cases [of co c s]; simp add: Let_def upload_complete_wf)+

lemma audio_ingest_fields [simp]:
  "frames_asr (audio_ingest m s) = frames_asr s"
  "speech_start (audio_ingest m s) = speech_start s"
  "speech_end_i (audio_ingest m s) = speech_end_i s"
  "hotword (audio_ingest m s) = hotword s"
  "vad_st (audio_ingest m s) = vad_st s"
  "punc_cache (audio_ingest m s) = punc_cache s"
  "chunk_interval (audio_ingest m s) = chunk_interval s"
  "sent_text_length (audio_ingest m s) = sent_text_length s"
  "stream_results (audio_ingest m s) = stream_results s"
  "wav_name (audio_ingest m s) = wav_name s"
  "mode (audio_ingest m s) = mode s"
  "is_file_upload (audio_ingest m s) = is_file_upload s"
  "is_speaking (audio_ingest m s) = is_speaking s"
  "registered (audio_ingest m s) = registered s"
  "outbox (audio_ingest m s) = outbox s"
  by (simp_all add: audio_ingest_def Let_def)

lemma collect_segment_fields [simp]:
  "frames (collect_segment m s) = frames s"
  "frames_asr_online (collect_segment m s) = frames_asr_online s"
  "speech_start (collect_segment m s) = speech_start s"
  "speech_end_i (collect_segment m s) = speech_end_i s"
  "hotword (collect_segment m s) = hotword s"
  "online_st (collect_segment m s) = online_st s"
  "vad_st (collect_segment m s) = vad_st s"
  "punc_cache (collect_segment m s) = punc_cache s"
  "chunk_interval (collect_segment m s) = chunk_interval s"
  "vad_pre_idx (collect_segment m s) = vad_pre_idx s"
  "sent_text_length (collect_segment m s) = sent_text_length s"
  "stream_results (collect_segment m s) = stream_results s"
  "wav_name (collect_segment m s) = wav_name s"
  "mode (collect_segment m s) = mode s"
  "is_file_upload (collect_segment m s) = is_file_upload s"
  "is_speaking (collect_segment m s) = is_speaking s"
  "registered (collect_segment m s) = registered s"
  "gpu (collect_segment m s) = gpu s"
  "outbox (collect_segment m s) = outbox s"
  by (simp_all add: collect_segment_def Let_def)

lemma segment_flush_fields [simp]:
  "frames (segment_flush co s) = frames s"
  "speech_end_i (segment_flush co s) = speech_end_i s"
  "hotword (segment_flush co s) = hotword s"
  "online_st (segment_flush co s) = online_st s"
  "vad_st (segment_flush co s) = vad_st s"
  "chunk_interval (segment_flush co s) = chunk_interval s"
  "vad_pre_idx (segment_flush co s) = vad_pre_idx s"
  "sent_text_length (segment_flush co s) = sent_text_length s"
  "audio_buf (segment_flush co s) = audio_buf s"
  "stream_results (segment_flush co s) = stream_results s"
  "wav_name (segment_flush co s) = wav_name s"
  "mode (segment_flush co s) = mode s"
  "is_file_upload (segment_flush co s) = is_file_upload s"
  "is_speaking (segment_flush co s) = is_speaking s"
  "registered (segment_flush co s) = registered s"
  by (simp_all add: segment_flush_def Let_def)

lemma audio_ingest_wf:
  "buffer_wf (audio_buf s) \<Longrightarrow> buffer_wf (audio_buf (audio_ingest m s))"
  by (simp add: audio_ingest_def Let_def add_chunk_wf)

lemma online_step_cases:
  obtains (raised) "online_step co s = Inl (ZeroDivisionError, s)"
  | (ok) s' where "online_step co s = Inr s'" "audio_buf s' = audio_buf s" "registered s' = registered s"
      "is_file_upload s' = is_file_upload s" "speech_start s' = speech_start s"
      "speech_end_i s' = speech_end_i s" "is_speaking s' = is_speaking s" "frames s' = frames s"
      "vad_pre_idx s' = vad_pre_idx s" "vad_st s' = vad_st s" "frames_asr s' = frames_asr s"
      "mode s' = mode s"
proof (cases "chunk_interval s = 0")
  case True
  with raised show thesis by (simp add: online_step_def)
next
  case False
  define s' where "s' = projr (online_step co s)"
  have "online_step co s = Inr s'"
    using False by (simp add: s'_def online_step_def)
  then show thesis
    by (rule ok) (use False in \<open>simp_all add: s'_def online_step_def\<close>)
qed

lemma vad_step_cases:
  obtains (raised) e s' where "vad_step co m s = Inl (e, s')" "audio_buf s' = audio_buf s"
      "registered s' = registered s" "is_speaking s' = is_speaking s"
  | (ok) s' where "vad_step co m s = Inr s'" "audio_buf s' = audio_buf s"
      "registered s' = registered s" "is_speaking s' = is_speaking s" "is_file_upload s' = is_file_upload s"
      "speech_end_i s' = snd (fst (async_vad co (vad_st s) m))"
proof -
  obtain ss se vst where v: "async_vad co (vad_st s) m = ((ss, se), vst)"
    by (metis prod.exhaust)
  let ?s7 = "s\<lparr>vad_st := vst, speech_end_i := se\<rparr>"
  show thesis
  proof (cases "ss \<noteq> -1")
    case True
    show thesis
    proof (cases "lookback_frames (vad_pre_idx s) ss (int (length m) div 32) (frames s)")
      case (Inl e)
      with v True show thesis
        by (intro raised [of e ?s7]) (simp_all add: vad_step_def)
    next
      case (Inr fp)
      with v True show thesis
        by (intro ok [of "?s7\<lparr>speech_start := True, frames_asr := fp\<rparr>"]) (simp_all add: vad_step_def)
    qed
  next
    case False
    with v show thesis
      by (intro ok [of ?s7]) (simp_all add: vad_step_def)
  qed
qed

lemma set_vad_chunk_size_frame:
  "res_state (set_vad_chunk_size s) = s\<lparr>vad_st := vad_st (res_state (set_vad_chunk_size s))\<rparr>"
  by (auto simp: set_vad_chunk_size_def py_int_truediv_def split: option.splits sum.splits)

lemma audio_ingest_buf [simp]: "audio_buf (audio_ingest m s) = add_chunk (audio_buf s) m"
  by (simp add: audio_ingest_def Let_def)

lemma collect_segment_buf [simp]:
  "audio_buf (collect_segment m s) =
     (if is_file_upload s then mark_processed (audio_buf s) (length m) else audio_buf s)"
  by (simp add: collect_segment_def Let_def)

lemma add_chunk_mark_processed_wf:
  "buffer_wf b \<Longrightarrow> buffer_wf (mark_processed (add_chunk b m) (length m))"
  by (simp add: buffer_wf_def; linarith)

lemma segment_reset_fields [simp]:
  "registered (res_state (segment_reset s)) = registered s"
  "audio_buf (res_state (segment_reset s)) = audio_buf s"
  "speech_end_i (res_state (segment_reset s)) = speech_end_i s"
  "is_speaking (res_state (segment_reset s)) = is_speaking s"
  "frames_asr (res_state (segment_reset s)) = frames_asr s"
  "frames_asr_online (res_state (segment_reset s)) = frames_asr_online s"
  "speech_start (res_state (segment_reset s)) = speech_start s"
  "is_file_upload (res_state (segment_reset s)) = is_file_upload s"
  "sent_text_length (res_state (segment_reset s)) = sent_text_length s"
  by (simp_all add: segment_reset_def split: option.splits)

lemma segment_flush_resets [simp]:
  "frames_asr (segment_flush co s) = []" "frames_asr_online (segment_flush co s) = []"
  "\<not> speech_start (segment_flush co s)"
  by (simp_all add: segment_flush_def Let_def)

lemma segment_boundary_frame:
  "registered (res_state (segment_boundary co s)) = registered s"
  "audio_buf (res_state (segment_boundary co s)) = audio_buf s"
  "is_file_upload (res_state (segment_boundary co s)) = is_file_upload s"
  by (simp_all add: segment_boundary_def split: option.splits)

lemma handle_audio_frame:
  "registered (res_state (handle_audio co m s)) = registered s"
  "buffer_wf (audio_buf s) \<Longrightarrow> buffer_wf (audio_buf (res_state (handle_audio co m s)))"
proof -
  have "registered (res_state (handle_audio co m s)) = registered s \<and>
        (buffer_wf (audio_buf s) \<longrightarrow> buffer_wf (audio_buf (res_state (handle_audio co m s))))"
  proof (cases rule: online_step_cases [of co "audio_ingest m s"])
    case raised
    then show ?thesis by (simp add: handle_audio_def add_chunk_wf)
  next
    case (ok s')
    then show ?thesis
      by (cases rule: vad_step_cases [of co m "collect_segment m s'"])
         (simp_all add: handle_audio_def add_chunk_wf add_chunk_mark_processed_wf)
  qed
  then show "registered (res_state (handle_audio co m s)) = registered s"
    "buffer_wf (audio_buf s) \<Longrightarrow> buffer_wf (audio_buf (res_state (handle_audio co m s)))"
    by simp_all
qed

lemma set_vad_chunk_size_fields:
  "registered (res_state (set_vad_chunk_size s)) = registered s"
  "audio_buf (res_state (set_vad_chunk_size s)) = audio_buf s"
  "is_speaking (res_state (set_vad_chunk_size s)) = is_speaking s"
  "speech_end_i (res_state (set_vad_chunk_size s)) = speech_end_i s"
  "sent_text_length (res_state (set_vad_chunk_size s)) = sent_text_length s"
  "online_st (res_state (set_vad_chunk_size s)) = online_st s"
  "is_file_upload (res_state (set_vad_chunk_size s)) = is_file_upload s"
  "chunk_interval (res_state (set_vad_chunk_size s)) = chunk_interval s"
  "frames (res_state (set_vad_chunk_size s)) = frames s"
  "frames_asr (res_state (set_vad_chunk_size s)) = frames_asr s"
  "mode (res_state (set_vad_chunk_size s)) = mode s"
  by (subst set_vad_chunk_size_frame; simp)+

lemma ws_step_frame:
  "registered (res_state (ws_step co s m)) = registered s"
  "buffer_wf (audio_buf s) \<Longrightarrow> buffer_wf (audio_buf (res_state (ws_step co s m)))"
  by (cases m; auto intro!: res_state_sbind [where P = "\<lambda>t. registered t = registered s"]
        res_state_sbind [where P = "\<lambda>t. buffer_wf (audio_buf t)"]
        simp: handle_control_frame handle_audio_frame set_vad_chunk_size_fields segment_boundary_frame)+

lemma ws_run_frame:
  "registered (res_state (ws_run co s ms)) = registered s"
  "buffer_wf (audio_buf s) \<Longrightarrow> buffer_wf (audio_buf (res_state (ws_run co s ms)))"
proof (induction ms arbitrary: s)
  case (Cons m ms)
  {
    case 1
    show ?case
      by (auto intro!: res_state_sbind [where P = "\<lambda>t. registered t = registered s"]
               simp: ws_step_frame Cons.IH(1))
  next
    case 2
    then show ?case
      by (auto intro!: res_state_sbind [where P = "\<lambda>t. buffer_wf (audio_buf t)"]
               simp: ws_step_frame Cons.IH(2))
  }
qed simp_all

section \<open>Properties of the handler\<close>

lemma segment_boundary_Inr:
  assumes "segment_boundary co s = Inr s'"
  shows "(s' = s \<and> speech_end_i s = -1 \<and> is_speaking s = Some True) \<or>
         segment_reset (segment_flush co s) = Inr s'"
  using assms by (auto simp: segment_boundary_def split: if_splits option.splits)

lemma segment_reset_Inr:
  assumes "segment_reset s = Inr s'"
  shows "frames_asr s' = frames_asr s \<and> frames_asr_online s' = frames_asr_online s \<and>
         speech_start s' = speech_start s \<and> speech_end_i s' = speech_end_i s \<and>
         (is_speaking s = Some False \<longrightarrow> frames s' = [] \<and> vad_pre_idx s' = 0 \<and>
            vad_cache (vad_st s') = [] \<and> on_cache (online_st s') = []) \<and>
         (is_speaking s = Some True \<longrightarrow> frames s' = py_slice_from (-20) (frames s) \<and>
            online_st s' = online_st s)"
  using assms by (auto simp: segment_reset_def split: option.splits if_splits)

lemma ws_step_last:
  assumes "ws_step co s m = Inr s'"
  shows "\<exists>u. segment_boundary co u = Inr s'"
  using assms by (cases m) (auto simp: sbind_Inr_iff)

lemma handle_audio_upload_unprocessed:
  assumes "is_file_upload s" and "buffer_wf (audio_buf s)" and "handle_audio co m s = Inr s'"
  shows "length (get_unprocessed_data (audio_buf s')) = length (get_unprocessed_data (audio_buf s)) \<and>
         is_file_upload s'"
proof (cases rule: online_step_cases [of co "audio_ingest m s"])
  case raised
  with assms(3) show ?thesis by (simp add: handle_audio_def)
next
  case (ok s4)
  with assms show ?thesis
    by (cases rule: vad_step_cases [of co m "collect_segment m s4"])
       (simp_all add: handle_audio_def buffer_wf_def)
qed

lemma ws_step_upload_unprocessed:
  assumes "is_file_upload s" and "buffer_wf (audio_buf s)" and "ws_step co s (BinaryFrame m) = Inr s'"
  shows "length (get_unprocessed_data (audio_buf s')) = length (get_unprocessed_data (audio_buf s)) \<and>
         is_file_upload s' \<and> buffer_wf (audio_buf s')"
proof -
  obtain s1 s2 where h1: "set_vad_chunk_size s = Inr s1" and h2: "handle_audio co m s1 = Inr s2"
    and h3: "segment_boundary co s2 = Inr s'"
    using assms(3) by (auto simp: sbind_Inr_iff)
  have "audio_buf s1 = audio_buf s" "is_file_upload s1"
    using set_vad_chunk_size_fields(2,7) [of s] h1 assms(1) by simp_all
  then have "length (get_unprocessed_data (audio_buf s2)) = length (get_unprocessed_data (audio_buf s)) \<and>
             is_file_upload s2"
    using handle_audio_upload_unprocessed [OF _ _ h2] assms(2) by simp
  moreover have "audio_buf s' = audio_buf s2" "is_file_upload s' = is_file_upload s2"
    using segment_boundary_frame(2,3) [of co s2] h3 by simp_all
  moreover have "buffer_wf (audio_buf s')"
    using ws_step_frame(2) [OF assms(2), of co "BinaryFrame m"] assms(3) by simp
  ultimately show ?thesis by simp
qed

lemmas ws_eval = control0_def handle_control_def control_head_def control_chunk_size_def
  control_tail_def set_vad_chunk_size_def py_int_truediv_def segment_boundary_def segment_flush_def
  segment_reset_def run_async_asr_def session_init_def send_def Let_def

text \<open>
  C15: how a connection ends (lines 316--483). It is removed from
  \<open>websocket_users\<close> exactly when its loop ends without an exception and
  the client's close is abnormal. After a normal close (code 1000 or 1001)
  \<open>async for\<close> just ends and no handler runs, so the connection stays
  registered with its buffer and caches; every exception (a malformed frame,
  a missing key, a failed attribute read) leaves it registered too. No
  message is sent after the loop: the stream-final flush of the
  \<open>ConnectionClosed\<close> handler never reaches the closed connection. Spec
  section 5 asks for a flush and an unconditional teardown on every
  disconnect.
\<close>

theorem ws_serve_registered:
  "(registered (ws_serve co g ms k) \<longleftrightarrow>
      k = CloseNormal \<or> (\<exists>e s. ws_run co (session_init g) ms = Inl (e, s))) \<and>
   outbox (ws_serve co g ms k) = outbox (res_state (ws_run co (session_init g) ms))"
proof (cases "ws_run co (session_init g) ms")
  case (Inl p)
  then obtain e s where p: "ws_run co (session_init g) ms = Inl (e, s)"
    by (cases p) auto
  have "registered s = registered (session_init g)"
    using ws_run_frame(1) [of co "session_init g" ms] p by simp
  with p show ?thesis
    by (simp add: ws_serve_def handler_failed_def session_init_def)
next
  case (Inr s)
  have "registered s = registered (session_init g)"
    using ws_run_frame(1) [of co "session_init g" ms] Inr by simp
  with Inr show ?thesis
    by (cases k) (simp_all add: ws_serve_def connection_closed_def ws_reset_def session_init_def)
qed

theorem ws_serve_registered_witness:
  "registered (ws_serve \<lparr>asr_generate = \<lambda>_ _. None, online_generate = \<lambda>_ _. None, vad_generate = \<lambda>_ _. None, punc_model = None\<rparr> None [] CloseNormal) \<and>
   \<not> registered (ws_serve \<lparr>asr_generate = \<lambda>_ _. None, online_generate = \<lambda>_ _. None, vad_generate = \<lambda>_ _. None, punc_model = None\<rparr> None [] CloseAbnormal)"
  using ws_serve_registered [of "\<lparr>asr_generate = \<lambda>_ _. None, online_generate = \<lambda>_ _. None, vad_generate = \<lambda>_ _. None, punc_model = None\<rparr>" None "[]" CloseNormal]
    ws_serve_registered [of "\<lparr>asr_generate = \<lambda>_ _. None, online_generate = \<lambda>_ _. None, vad_generate = \<lambda>_ _. None, punc_model = None\<rparr>" None "[]" CloseAbnormal]
  by simp

text \<open>
  C16: a text frame that is not JSON ends the connection: \<open>json.loads\<close> raises, the generic handler only clears the buffer, and the connection stays registered, however the client later closes. The spec (section 7) says a malformed control message is never fatal.
\<close>

theorem malformed_control_closes:
  "ws_serve co g (BadJson # ms) k = handler_failed (session_init g) \<and> registered (ws_serve co g (BadJson # ms) k)"
  by (simp add: ws_serve_def handler_failed_def session_init_def)

text \<open>
  C17: audio sent before any control message ends the connection with \<open>KeyError\<close>: line 374 reads \<open>chunk_size\<close> from the online status before any message set it, and nothing else has happened.
\<close>

theorem ws_run_audio_before_config:
  "ws_run co (session_init g) (BinaryFrame b # ms) = Inl (KeyError, session_init g)"
  by (simp add: set_vad_chunk_size_def session_init_def)

text \<open>
  C18: before the client has sent \<open>is_speaking\<close>, and with no VAD end point pending, every control message without \<open>is_speaking\<close> ends the connection with an exception: the test \<open>not websocket.is_speaking\<close> (line 430) reads an attribute that was never set.
\<close>

theorem ws_step_no_is_speaking_fatal:
  assumes "is_speaking s = None" and "c_is_speaking c = None" and "speech_end_i s = -1"
  shows "\<exists>e s'. ws_step co s (TextFrame c) = Inl (e, s')"
proof (cases "ws_step co s (TextFrame c)")
  case (Inr s')
  then obtain s1 s2 where h1: "handle_control co c s = Inr s1" and h2: "set_vad_chunk_size s1 = Inr s2"
    and h3: "segment_boundary co s2 = Inr s'"
    by (auto simp: sbind_Inr_iff)
  have "is_speaking s1 = None \<and> speech_end_i s1 = -1"
    using h1 assms by (cases rule: handle_control_cases [of co c s]) (auto simp: control_head_speaking Let_def)
  then have "is_speaking s2 = None" "speech_end_i s2 = -1"
    using set_vad_chunk_size_fields(3,4) [of s1] h2 by simp_all
  with h3 show ?thesis by (simp add: segment_boundary_def)
qed simp

theorem ws_step_no_is_speaking_fatal_witness:
  "is_speaking (session_init None) = None \<and>
   c_is_speaking (control0\<lparr>c_chunk_size := Some (CSList [5, 10, 5])\<rparr>) = None \<and>
   speech_end_i (session_init None) = -1 \<and>
   (\<exists>e s'. ws_step \<lparr>asr_generate = \<lambda>_ _. None, online_generate = \<lambda>_ _. None, vad_generate = \<lambda>_ _. None, punc_model = None\<rparr> (session_init None)
              (TextFrame (control0\<lparr>c_chunk_size := Some (CSList [5, 10, 5])\<rparr>)) = Inl (e, s'))"
  using ws_step_no_is_speaking_fatal [of "session_init None" "control0\<lparr>c_chunk_size := Some (CSList [5, 10, 5])\<rparr>" "\<lparr>asr_generate = \<lambda>_ _. None, online_generate = \<lambda>_ _. None, vad_generate = \<lambda>_ _. None, punc_model = None\<rparr>"]
  by (simp add: session_init_def control0_def)

text \<open>
  C19: a control message \<open>is_speaking: false\<close> that completes resets the connection's segment state: the frame history, the look-back index, the VAD and online caches, the collected offline frames and the pending online frames are all emptied.
\<close>

theorem ws_step_stop_speaking_resets:
  assumes "c_is_speaking c = Some False" and "ws_step co s (TextFrame c) = Inr s'"
  shows "frames s' = [] \<and> vad_pre_idx s' = 0 \<and> vad_cache (vad_st s') = [] \<and>
         on_cache (online_st s') = [] \<and> frames_asr s' = [] \<and> frames_asr_online s' = [] \<and>
         \<not> speech_start s'"
proof -
  obtain s1 s2 where h1: "handle_control co c s = Inr s1" and h2: "set_vad_chunk_size s1 = Inr s2"
    and h3: "segment_boundary co s2 = Inr s'"
    using assms(2) by (auto simp: sbind_Inr_iff)
  have "is_speaking s1 = Some False"
    using h1 assms(1) by (cases rule: handle_control_cases [of co c s]) (auto simp: control_head_speaking Let_def)
  then have sp: "is_speaking s2 = Some False"
    using set_vad_chunk_size_fields(3) [of s1] h2 by simp
  then have r: "segment_reset (segment_flush co s2) = Inr s'"
    using segment_boundary_Inr [OF h3] by auto
  show ?thesis
    using segment_reset_Inr [OF r] sp by simp
qed

theorem ws_step_stop_speaking_resets_witness:
  "\<exists>s'. c_is_speaking (control0\<lparr>c_is_speaking := Some False\<rparr>) = Some False \<and>
        ws_step \<lparr>asr_generate = \<lambda>_ _. None, online_generate = \<lambda>_ _. None, vad_generate = \<lambda>_ _. None, punc_model = None\<rparr> ((session_init None)\<lparr>online_st := \<lparr>on_cache = [], on_is_final = False, on_chunk_size = Some [5, 10, 5], on_encoder_chunk_look_back = None, on_decoder_chunk_look_back = None\<rparr>, frames := [[1], [2]], vad_pre_idx := 2\<rparr>)
          (TextFrame (control0\<lparr>c_is_speaking := Some False\<rparr>)) = Inr s' \<and>
        frames s' = [] \<and> vad_pre_idx s' = 0 \<and> vad_cache (vad_st s') = [] \<and>
        on_cache (online_st s') = [] \<and> frames_asr s' = [] \<and> frames_asr_online s' = [] \<and>
        \<not> speech_start s'"
proof -
  let ?c = "control0\<lparr>c_is_speaking := Some False\<rparr>"
  let ?r = "ws_step \<lparr>asr_generate = \<lambda>_ _. None, online_generate = \<lambda>_ _. None, vad_generate = \<lambda>_ _. None, punc_model = None\<rparr> ((session_init None)\<lparr>online_st := \<lparr>on_cache = [], on_is_final = False, on_chunk_size = Some [5, 10, 5], on_encoder_chunk_look_back = None, on_decoder_chunk_look_back = None\<rparr>, frames := [[1], [2]], vad_pre_idx := 2\<rparr>)
              (TextFrame ?c)"
  have c: "c_is_speaking ?c = Some False" and e: "?r = Inr (projr ?r)"
    by (simp_all add: ws_eval)
  show ?thesis
    using ws_step_stop_speaking_resets [OF c e] c e by blast
qed

text \<open>
  A control message \<open>is_speaking: true\<close> that completes resets the emitter cursor \<open>sent_text_length\<close> to 0 and leaves the online status non-final.
\<close>

theorem ws_step_start_speaking:
  assumes "c_is_speaking c = Some True" and "ws_step co s (TextFrame c) = Inr s'"
  shows "sent_text_length s' = 0 \<and> \<not> on_is_final (online_st s')"
proof -
  obtain s1 s2 where h1: "handle_control co c s = Inr s1" and h2: "set_vad_chunk_size s1 = Inr s2"
    and h3: "segment_boundary co s2 = Inr s'"
    using assms(2) by (auto simp: sbind_Inr_iff)
  have "is_speaking s1 = Some True \<and> sent_text_length s1 = 0 \<and> \<not> on_is_final (online_st s1)"
    using h1 assms(1) by (cases rule: handle_control_cases [of co c s])
                         (auto simp: control_head_speaking Let_def split: if_splits)
  then have sp: "is_speaking s2 = Some True" "sent_text_length s2 = 0" "\<not> on_is_final (online_st s2)"
    using set_vad_chunk_size_fields(3,5,6) [of s1] h2 by simp_all
  show ?thesis
  proof (cases "s' = s2")
    case True
    with sp show ?thesis by simp
  next
    case False
    then have r: "segment_reset (segment_flush co s2) = Inr s'"
      using segment_boundary_Inr [OF h3] by auto
    have "sent_text_length s' = sent_text_length (segment_flush co s2)"
      using segment_reset_fields(9) [of "segment_flush co s2"] r by simp
    with segment_reset_Inr [OF r] sp show ?thesis by simp
  qed
qed

theorem ws_step_start_speaking_witness:
  "\<exists>s'. c_is_speaking (control0\<lparr>c_is_speaking := Some True\<rparr>) = Some True \<and>
        ws_step \<lparr>asr_generate = \<lambda>_ _. None, online_generate = \<lambda>_ _. None, vad_generate = \<lambda>_ _. None, punc_model = None\<rparr> ((session_init None)\<lparr>online_st := \<lparr>on_cache = [], on_is_final = False, on_chunk_size = Some [5, 10, 5], on_encoder_chunk_look_back = None, on_decoder_chunk_look_back = None\<rparr>, sent_text_length := 7\<rparr>)
          (TextFrame (control0\<lparr>c_is_speaking := Some True\<rparr>)) = Inr s' \<and>
        sent_text_length s' = 0 \<and> \<not> on_is_final (online_st s')"
proof -
  let ?c = "control0\<lparr>c_is_speaking := Some True\<rparr>"
  let ?r = "ws_step \<lparr>asr_generate = \<lambda>_ _. None, online_generate = \<lambda>_ _. None, vad_generate = \<lambda>_ _. None, punc_model = None\<rparr> ((session_init None)\<lparr>online_st := \<lparr>on_cache = [], on_is_final = False, on_chunk_size = Some [5, 10, 5], on_encoder_chunk_look_back = None, on_decoder_chunk_look_back = None\<rparr>, sent_text_length := 7\<rparr>) (TextFrame ?c)"
  have c: "c_is_speaking ?c = Some True" and e: "?r = Inr (projr ?r)"
    by (simp_all add: ws_eval)
  show ?thesis
    using ws_step_start_speaking [OF c e] c e by blast
qed

text \<open>
  C20: after any iteration that completes with a VAD end point recorded, the segment state has been flushed: at most 20 frames of history are kept, no offline or online frames are pending, and no segment is open.
\<close>

theorem ws_step_end_point_resets:
  assumes "ws_step co s m = Inr s'" and "speech_end_i s' \<noteq> -1"
  shows "length (frames s') \<le> 20 \<and> frames_asr s' = [] \<and> frames_asr_online s' = [] \<and> \<not> speech_start s'"
proof -
  obtain u where u: "segment_boundary co u = Inr s'"
    using ws_step_last [OF assms(1)] by blast
  with assms(2) have r: "segment_reset (segment_flush co u) = Inr s'"
    using segment_boundary_Inr by blast
  then obtain b where b: "is_speaking (segment_flush co u) = Some b"
    by (auto simp: segment_reset_def split: option.splits)
  show ?thesis
    using segment_reset_Inr [OF r] b
    by (cases b) (auto simp: py_slice_from_neg_length segment_flush_def Let_def)
qed

theorem ws_step_end_point_resets_witness:
  "\<exists>s'. ws_step \<lparr>asr_generate = \<lambda>_ _. None, online_generate = \<lambda>_ _. None, vad_generate = \<lambda>_ _. None, punc_model = None\<rparr>
          ((session_init None)\<lparr>online_st := \<lparr>on_cache = [], on_is_final = False, on_chunk_size = Some [5, 10, 5], on_encoder_chunk_look_back = None, on_decoder_chunk_look_back = None\<rparr>, speech_end_i := 5, is_speaking := Some True,
                                frames := replicate 25 [1]\<rparr>) (TextFrame control0) = Inr s' \<and>
        speech_end_i s' \<noteq> -1 \<and> length (frames s') \<le> 20 \<and> frames_asr s' = [] \<and>
        frames_asr_online s' = [] \<and> \<not> speech_start s'"
proof -
  let ?s = "(session_init None)\<lparr>online_st := \<lparr>on_cache = [], on_is_final = False, on_chunk_size = Some [5, 10, 5], on_encoder_chunk_look_back = None, on_decoder_chunk_look_back = None\<rparr>, speech_end_i := 5, is_speaking := Some True,
                                frames := replicate 25 [1]\<rparr>"
  let ?r = "ws_step \<lparr>asr_generate = \<lambda>_ _. None, online_generate = \<lambda>_ _. None, vad_generate = \<lambda>_ _. None, punc_model = None\<rparr> ?s (TextFrame control0)"
  have e: "?r = Inr (projr ?r)" and f: "speech_end_i (projr ?r) \<noteq> -1"
    by (simp_all add: ws_eval)
  show ?thesis
    using ws_step_end_point_resets [OF e f] e f by blast
qed

text \<open>
  C21: in file-upload mode every streamed frame is marked processed as it arrives (lines 410--413): a run of binary frames starting with nothing unprocessed ends with nothing unprocessed in the buffer.
\<close>

theorem ws_run_upload_nothing_unprocessed:
  assumes "is_file_upload s" and "buffer_wf (audio_buf s)" and "get_unprocessed_data (audio_buf s) = []"
    and "ws_run co s (map BinaryFrame ms) = Inr s'"
  shows "get_unprocessed_data (audio_buf s') = []"
  using assms
proof (induction ms arbitrary: s)
  case (Cons m ms)
  then obtain t where t: "ws_step co s (BinaryFrame m) = Inr t" and r: "ws_run co t (map BinaryFrame ms) = Inr s'"
    by (auto simp: sbind_Inr_iff)
  have "length (get_unprocessed_data (audio_buf t)) = 0 \<and> is_file_upload t \<and> buffer_wf (audio_buf t)"
    using ws_step_upload_unprocessed [OF Cons.prems(1,2) t] Cons.prems(3) by simp
  with r show ?case
    using Cons.IH [of t] by (simp del: get_unprocessed_data_drop)
qed simp

theorem ws_run_upload_nothing_unprocessed_witness:
  "\<exists>s'. is_file_upload ((session_init None)\<lparr>online_st := \<lparr>on_cache = [], on_is_final = False, on_chunk_size = Some [5, 10, 5], on_encoder_chunk_look_back = None, on_decoder_chunk_look_back = None\<rparr>, is_file_upload := True, is_speaking := Some True\<rparr>) \<and>
        buffer_wf (audio_buf (session_init None)) \<and>
        get_unprocessed_data (audio_buf (session_init None)) = [] \<and>
        ws_run \<lparr>asr_generate = \<lambda>_ _. None, online_generate = \<lambda>_ _. None, vad_generate = \<lambda>_ _. None, punc_model = None\<rparr> ((session_init None)\<lparr>online_st := \<lparr>on_cache = [], on_is_final = False, on_chunk_size = Some [5, 10, 5], on_encoder_chunk_look_back = None, on_decoder_chunk_look_back = None\<rparr>, is_file_upload := True, is_speaking := Some True\<rparr>)
          (map BinaryFrame [[1, 2], [3, 4]]) = Inr s' \<and>
        get_unprocessed_data (audio_buf s') = []"
proof -
  let ?s = "(session_init None)\<lparr>online_st := \<lparr>on_cache = [], on_is_final = False, on_chunk_size = Some [5, 10, 5], on_encoder_chunk_look_back = None, on_decoder_chunk_look_back = None\<rparr>, is_file_upload := True, is_speaking := Some True\<rparr>"
  let ?r = "ws_run \<lparr>asr_generate = \<lambda>_ _. None, online_generate = \<lambda>_ _. None, vad_generate = \<lambda>_ _. None, punc_model = None\<rparr> ?s (map BinaryFrame [[1, 2], [3, 4]])"
  have u: "is_file_upload ?s" and w: "buffer_wf (audio_buf ?s)" and p: "get_unprocessed_data (audio_buf ?s) = []"
    by (simp_all add: session_init_def AudioBuffer_def buffer_wf_def)
  have e: "?r = Inr (projr ?r)"
    by (simp add: ws_eval handle_audio_def audio_ingest_def online_step_def collect_segment_def vad_step_def
                  async_vad_def run_async_asr_online_def async_asr_online_def AudioBuffer_def get_buffer_size_def)
  show ?thesis
    using ws_run_upload_nothing_unprocessed [OF u w p e] u w p e
    by (auto simp: session_init_def)
qed

text \<open>
  C22: a binary frame shorter than 32 bytes on which the VAD reports a speech start ends the connection with \<open>ZeroDivisionError\<close>: its duration \<open>len(message) // 32\<close> is 0 and the look-back divides by it (line 424).
\<close>

theorem ws_step_short_frame_speech_start:
  assumes "length m < 32" and "\<forall>st. fst (fst (async_vad co st m)) \<noteq> -1"
    and "on_chunk_size (online_st s) = Some cs" and "2 \<le> length cs" and "chunk_interval s \<noteq> 0"
  shows "\<exists>s'. ws_step co s (BinaryFrame m) = Inl (ZeroDivisionError, s')"
proof -
  obtain s1 where h1: "set_vad_chunk_size s = Inr s1"
    using assms(3-5) by (simp add: set_vad_chunk_size_def py_int_truediv_def)
  have ci: "chunk_interval (audio_ingest m s1) \<noteq> 0"
    using set_vad_chunk_size_fields(8) [of s] h1 assms(5) by simp
  have "\<exists>s4. online_step co (audio_ingest m s1) = Inr s4"
    using ci by (simp add: online_step_def)
  then obtain s4 where h4: "online_step co (audio_ingest m s1) = Inr s4" ..
  obtain ss se vst where v: "async_vad co (vad_st (collect_segment m s4)) m = ((ss, se), vst)"
    by (metis prod.exhaust)
  have "ss \<noteq> -1"
    using assms(2) v by (metis fst_conv)
  moreover have "int (length m) div 32 = 0"
    using assms(1) by simp
  ultimately obtain s' where "vad_step co m (collect_segment m s4) = Inl (ZeroDivisionError, s')"
    using v by (auto simp: vad_step_def lookback_frames_zero_div)
  with h1 h4 show ?thesis
    by (simp add: handle_audio_def)
qed

theorem ws_step_short_frame_speech_start_witness:
  "length [0, 0 :: 8 word] < 32 \<and>
   (\<forall>st. fst (fst (async_vad \<lparr>asr_generate = \<lambda>_ _. None, online_generate = \<lambda>_ _. None, vad_generate = \<lambda>_ _. Some ([[0, -1]], []), punc_model = None\<rparr> st [0, 0])) \<noteq> -1) \<and>
   on_chunk_size (online_st ((session_init None)\<lparr>online_st := \<lparr>on_cache = [], on_is_final = False, on_chunk_size = Some [5, 10, 5], on_encoder_chunk_look_back = None, on_decoder_chunk_look_back = None\<rparr>\<rparr>)) = Some [5, 10, 5] \<and>
   2 \<le> length [5, 10, 5 :: int] \<and>
   chunk_interval ((session_init None)\<lparr>online_st := \<lparr>on_cache = [], on_is_final = False, on_chunk_size = Some [5, 10, 5], on_encoder_chunk_look_back = None, on_decoder_chunk_look_back = None\<rparr>\<rparr>) \<noteq> 0 \<and>
   (\<exists>s'. ws_step \<lparr>asr_generate = \<lambda>_ _. None, online_generate = \<lambda>_ _. None, vad_generate = \<lambda>_ _. Some ([[0, -1]], []), punc_model = None\<rparr> ((session_init None)\<lparr>online_st := \<lparr>on_cache = [], on_is_final = False, on_chunk_size = Some [5, 10, 5], on_encoder_chunk_look_back = None, on_decoder_chunk_look_back = None\<rparr>\<rparr>) (BinaryFrame [0, 0]) =
          Inl (ZeroDivisionError, s'))"
proof -
  have v: "\<forall>st. fst (fst (async_vad \<lparr>asr_generate = \<lambda>_ _. None, online_generate = \<lambda>_ _. None, vad_generate = \<lambda>_ _. Some ([[0, -1]], []), punc_model = None\<rparr> st [0, 0])) \<noteq> -1"
    by (simp add: async_vad_def)
  show ?thesis
    using ws_step_short_frame_speech_start [OF _ v, of "(session_init None)\<lparr>online_st := \<lparr>on_cache = [], on_is_final = False, on_chunk_size = Some [5, 10, 5], on_encoder_chunk_look_back = None, on_decoder_chunk_look_back = None\<rparr>\<rparr>" "[5, 10, 5]"]
    by (simp add: session_init_def v)
qed

text \<open>
  The \<open>chunk_size\<close> key is accepted as a list or as a comma-separated string
  of integers with surrounding white space and signs; an empty field raises
  \<open>ValueError\<close>.
\<close>

lemma parse_chunk_size_examples:
  "parse_chunk_size (CSStr ''5,10,5'') = Inr [5, 10, 5] \<and>
   parse_chunk_size (CSStr '' 0, 8 ,-4'') = Inr [0, 8, -4] \<and>
   parse_chunk_size (CSStr ''5,,5'') = Inl ValueError \<and>
   parse_chunk_size (CSList [5, 10, 5]) = Inr [5, 10, 5]"
  by (simp add: parse_chunk_size_def py_int_of_str_def py_strip_def py_isspace_def digit_val_def)


text \<open>
  C23: the audio buffer of a connection stays well formed
  (\<open>processed_size \<le> len(buffer)\<close>) through any sequence of frames, also
  when the loop ends with an exception.
\<close>

theorem ws_run_buffer_wf:
  "buffer_wf (audio_buf (res_state (ws_run co (session_init g) ms)))"
  using ws_run_frame(2) [of "session_init g" co ms] by (simp add: session_init_def AudioBuffer_wf)

end
