(* ===== verification/UnifiedServer.thy ===== *)
theory UnifiedServer
  imports Session
begin

text \<open>
  The WebSocket handler of the unified server
  (\<open>src/websocket/funasr_unified_server.py\<close>, lines 279--528): its
  \<open>merge_stream_results\<close>, \<open>send_final_result\<close>, \<open>ws_reset\<close>,
  \<open>split_audio_chunks\<close>, \<open>async_asr\<close>, \<open>async_asr_online\<close> and
  \<open>ws_serve\<close>. It shares the control-message format of the streaming server
  (the record \<open>control\<close> and \<open>parse_chunk_size\<close> of \<open>Session\<close>), its
  audio buffer is \<open>u_audio_buffer\<close> and its memory guard
  \<open>u_check_memory_before_processing\<close>. It uses no VAD: in mode \<open>2pass\<close>
  every binary frame goes to the offline recogniser, otherwise to the online
  one; in upload mode frames are buffered and recognised in batches once the
  buffer passes 5 MiB. Its \<open>finally\<close> block deregisters and resets the
  connection on every exit. \<open>async_vad\<close> (lines 326--334) is never called
  and is not modelled.

  The recognisers are collaborators: the offline one
  (\<open>model_asr.generate(input, cache={}, is_final, hotword)\<close>, whose
  \<open>status_dict_asr\<close> never holds a cache) returns the text of its first
  result, the empty text for an empty or \<open>None\<close> result, and \<open>None\<close> when
  it raises; the online one threads the connection's cache.
\<close>

section \<open>Collaborators, messages, state\<close>

record u_collaborators =
  u_asr_generate :: "string \<Rightarrow> bool \<Rightarrow> bytes \<Rightarrow> ustr option"
  u_online_generate :: "cache \<Rightarrow> bool \<Rightarrow> bytes \<Rightarrow> (ustr \<times> cache) option"

text \<open>\<open>{mode, text, is_final}\<close>, with \<open>chunk_index\<close> and \<open>total_chunks\<close> for a chunk.\<close>

record u_msg =
  um_mode :: string
  um_payload :: payload
  um_is_final :: bool
  um_chunk :: "(nat \<times> nat) option"

record u_session =
  u_hotword :: "string option"
  u_online_cache :: cache
  u_online_is_final :: bool
  u_chunk_size :: "int list option"
  u_chunk_interval :: int
  u_sent_text_length :: nat
  u_audio :: u_audio_buffer
  u_stream_results :: "ustr list"
  u_wav_name :: string
  u_mode :: string
  u_is_file_upload :: bool
  u_is_speaking :: "bool option"
  u_registered :: bool
  u_gpu :: "gpu_device option"
  u_outbox :: "u_msg list"

text \<open>Lines 438--453: a new connection.\<close>

definition u_session_init :: "gpu_device option \<Rightarrow> u_session" where
  "u_session_init g =
     \<lparr>u_hotword = None, u_online_cache = [], u_online_is_final = False, u_chunk_size = None,
      u_chunk_interval = 10, u_sent_text_length = 0, u_audio = UAudioBuffer 100,
      u_stream_results = [], u_wav_name = ''microphone'', u_mode = ''2pass'',
      u_is_file_upload = False, u_is_speaking = None, u_registered = True, u_gpu = g,
      u_outbox = []\<rparr>"

definition u_send :: "u_msg list \<Rightarrow> u_session \<Rightarrow> u_session" where
  "u_send ms s = s\<lparr>u_outbox := u_outbox s @ ms\<rparr>"

section \<open>Helpers\<close>

text \<open>Lines 279--291: the texts of the stored results concatenated, then stripped.\<close>

definition u_merge_stream_results :: "ustr list \<Rightarrow> ustr" where
  "u_merge_stream_results rs = py_strip (concat rs)"

text \<open>Lines 293--304: \<open>send_final_result\<close> (the timestamp is not modelled).\<close>

definition u_final_msg :: "string \<Rightarrow> ustr \<Rightarrow> u_msg" where
  "u_final_msg m t = \<lparr>um_mode = m, um_payload = Text t, um_is_final = True, um_chunk = None\<rparr>"

text \<open>
  Lines 306--319: \<open>ws_reset\<close>. It replaces \<open>status_dict_asr\<close> and
  \<open>status_dict_asr_online\<close> by fresh dictionaries, so the hotword, the
  online cache and the \<open>chunk_size\<close> stored there are dropped.
\<close>

definition u_ws_reset :: "u_session \<Rightarrow> u_session" where
  "u_ws_reset s =
     s\<lparr>u_hotword := None, u_online_cache := [], u_online_is_final := False, u_chunk_size := None,
       u_sent_text_length := 0, u_audio := u_clear (u_audio s), u_stream_results := []\<rparr>"

text \<open>
  Lines 336--345: \<open>for i in range(0, len(audio_data), chunk_size_bytes)\<close>.
  The loop runs while \<open>i\<close> is below the length; \<open>range\<close> raises on a zero
  step before the loop starts, so the loop itself always has a positive step.
\<close>

function u_split_loop :: "nat \<Rightarrow> bytes \<Rightarrow> nat \<Rightarrow> bytes list" where
  "u_split_loop step audio_data i =
     (if 0 < step \<and> i < length audio_data
      then take step (drop i audio_data) # u_split_loop step audio_data (i + step)
      else [])"
  by pat_completeness auto
termination
  by (relation "measure (\<lambda>(step, audio_data, i). length audio_data - i)") auto

declare u_split_loop.simps [simp del]

definition u_split_audio_chunks :: "nat \<Rightarrow> bytes \<Rightarrow> py_error + bytes list" where
  "u_split_audio_chunks chunk_size_mb audio_data =
     (let chunk_size_bytes = chunk_size_mb * 1024 * 1024
      in if chunk_size_bytes = 0 then Inl ValueError else Inr (u_split_loop chunk_size_bytes audio_data 0))"

section \<open>The recognition passes\<close>

definition u_error_msg :: u_msg where
  "u_error_msg = \<lparr>um_mode = ''error'', um_payload = AsrError RecognitionFailed, um_is_final = True,
                  um_chunk = None\<rparr>"

text \<open>
  Lines 357--384: the chunk loop of a large segment; chunk \<open>i\<close> of \<open>n\<close> is final
  when it is the last, and a chunk whose call raises is skipped.
\<close>

fun u_asr_chunks :: "u_collaborators \<Rightarrow> string \<Rightarrow> nat \<Rightarrow> nat \<Rightarrow> bytes list \<Rightarrow> u_session \<Rightarrow> u_session" where
  "u_asr_chunks co hotword_str n i [] s = s"
| "u_asr_chunks co hotword_str n i (chunk # chunks) s =
     u_asr_chunks co hotword_str n (Suc i) chunks
       (case u_asr_generate co hotword_str (i = n - 1) chunk of
          None \<Rightarrow> s
        | Some result_text \<Rightarrow>
            (if result_text \<noteq> []
             then u_send [\<lparr>um_mode = ''2pass'', um_payload = Text result_text, um_is_final = (i = n - 1),
                          um_chunk = Some (i, n)\<rparr>]
                    (s\<lparr>u_stream_results := u_stream_results s @ [result_text]\<rparr>)
             else s))"

text \<open>
  Lines 347--414: \<open>async_asr\<close>. The guard may refuse (the chunk is dropped
  with a log line only); a segment over 50 MiB is split into 10 MiB chunks;
  otherwise one final call, whose exception becomes an \<open>error\<close> message.
\<close>

definition u_async_asr :: "u_collaborators \<Rightarrow> bytes \<Rightarrow> u_session \<Rightarrow> u_session" where
  "u_async_asr co audio_in s =
     (let audio_size = length audio_in;
          (admitted, g) = u_check_memory_before_processing audio_size (u_gpu s);
          s1 = s\<lparr>u_gpu := g\<rparr>;
          hotword_str = py_get [] (u_hotword s)
      in if \<not> admitted then s1
         else if 50 * 1024 * 1024 < audio_size
         then (case u_split_audio_chunks 10 audio_in of
                 Inl _ \<Rightarrow> u_send [u_error_msg] s1
               | Inr chunks \<Rightarrow> u_asr_chunks co hotword_str (length chunks) 0 chunks s1)
         else (case u_asr_generate co hotword_str True audio_in of
                 None \<Rightarrow> u_send [u_error_msg] s1
               | Some result_text \<Rightarrow>
                   (if result_text \<noteq> []
                    then u_send [\<lparr>um_mode = ''2pass'', um_payload = Text result_text, um_is_final = True,
                                 um_chunk = None\<rparr>]
                           (s1\<lparr>u_stream_results := u_stream_results s1 @ [result_text]\<rparr>)
                    else s1)))"

text \<open>
  Lines 416--436: \<open>async_asr_online\<close> sends the whole recognised text of each
  call; an exception is logged.
\<close>

definition u_async_asr_online :: "u_collaborators \<Rightarrow> bytes \<Rightarrow> u_session \<Rightarrow> u_session" where
  "u_async_asr_online co audio_in s =
     (case u_online_generate co (u_online_cache s) (u_online_is_final s) audio_in of
        None \<Rightarrow> s
      | Some (result_text, c) \<Rightarrow>
          (let s1 = s\<lparr>u_online_cache := c\<rparr>
           in if result_text \<noteq> []
              then u_send [\<lparr>um_mode = ''online'', um_payload = Text result_text,
                           um_is_final = u_online_is_final s, um_chunk = None\<rparr>] s1
              else s1))"

text \<open>
  Lines 326--334: \<open>async_vad\<close>, never called by the handler. The VAD model
  (\<open>model_vad.generate(input, cache)\<close>) is a collaborator returning its
  segment list and the cache it leaves, \<open>None\<close> when it raises; a
  \<open>None\<close> or empty result, and an exception, give the empty list.
\<close>

definition u_async_vad ::
  "(cache \<Rightarrow> bytes \<Rightarrow> (int list list \<times> cache) option) \<Rightarrow> cache \<Rightarrow> bytes \<Rightarrow> int list list \<times> cache" where
  "u_async_vad model_vad status_cache audio_in =
     (case model_vad status_cache audio_in of
        None \<Rightarrow> ([], status_cache)
      | Some (vad_res, c) \<Rightarrow> (if vad_res \<noteq> [] then vad_res else [], c))"

section \<open>One iteration of the loop\<close>

text \<open>Lines 490--501: the end of a file upload; nothing is cleared.\<close>

definition u_upload_complete :: "u_collaborators \<Rightarrow> u_session \<Rightarrow> u_session" where
  "u_upload_complete co s =
     (if u_is_file_upload s then
        (let remaining_data = u_get_unprocessed_data (u_audio s);
             s1 = (if remaining_data \<noteq> [] then u_async_asr co remaining_data s else s);
             final_text = u_merge_stream_results (u_stream_results s1)
         in if u_stream_results s1 \<noteq> [] \<and> final_text \<noteq> []
            then u_send [u_final_msg ''final'' final_text] s1 else s1)
      else s)"

text \<open>Lines 463--473: \<open>is_speaking\<close>, \<open>chunk_interval\<close> and \<open>wav_name\<close>.\<close>

definition u_control_head :: "control \<Rightarrow> u_session \<Rightarrow> u_session" where
  "u_control_head c s0 =
     (let s1 = (case c_is_speaking c of
                  None \<Rightarrow> s0
                | Some b \<Rightarrow> s0\<lparr>u_is_speaking := Some b, u_online_is_final := \<not> b,
                               u_sent_text_length := (if b then 0 else u_sent_text_length s0)\<rparr>);
          s2 = (case c_chunk_interval c of None \<Rightarrow> s1 | Some ci \<Rightarrow> s1\<lparr>u_chunk_interval := ci\<rparr>)
      in case c_wav_name c of None \<Rightarrow> s2 | Some w \<Rightarrow> s2\<lparr>u_wav_name := w\<rparr>)"

text \<open>Lines 481--488: \<open>hotwords\<close>, \<open>mode\<close>, \<open>is_file_upload\<close>.\<close>

definition u_control_tail :: "control \<Rightarrow> u_session \<Rightarrow> u_session" where
  "u_control_tail c s4 =
     (let s5 = (case c_hotwords c of None \<Rightarrow> s4 | Some h \<Rightarrow> s4\<lparr>u_hotword := Some h\<rparr>);
          s6 = (case c_mode c of None \<Rightarrow> s5 | Some m \<Rightarrow> s5\<lparr>u_mode := m\<rparr>)
      in case c_is_file_upload c of None \<Rightarrow> s6 | Some u \<Rightarrow> s6\<lparr>u_is_file_upload := u\<rparr>)"

text \<open>Lines 459--501: a text frame; only the \<open>chunk_size\<close> conversion may raise.\<close>

definition u_handle_control :: "u_collaborators \<Rightarrow> control \<Rightarrow> u_session \<Rightarrow> (py_error \<times> u_session) + u_session" where
  "u_handle_control co c s =
     (let s3 = u_control_head c s
      in case c_chunk_size c of
           Some v \<Rightarrow>
             (case parse_chunk_size v of
                Inl e \<Rightarrow> Inl (e, s3)
              | Inr l \<Rightarrow>
                  (let s9 = u_control_tail c (s3\<lparr>u_chunk_size := Some l\<rparr>)
                   in Inr (if c_upload_complete c then u_upload_complete co s9 else s9)))
         | None \<Rightarrow>
             (let s9 = u_control_tail c s3
              in Inr (if c_upload_complete c then u_upload_complete co s9 else s9)))"

text \<open>
  Lines 503--519: a binary frame. In upload mode it is buffered, and once the
  buffer holds more than 5 MiB its unprocessed part is recognised and marked
  processed; otherwise mode \<open>2pass\<close> runs the offline pass on the frame and
  any other mode the online pass.
\<close>

definition u_handle_audio :: "u_collaborators \<Rightarrow> bytes \<Rightarrow> u_session \<Rightarrow> u_session" where
  "u_handle_audio co message s =
     (if u_is_file_upload s then
        (let s1 = s\<lparr>u_audio := u_add_chunk (u_audio s) message\<rparr>
         in if 5 * 1024 * 1024 < u_get_buffer_size (u_audio s1)
            then (let unprocessed_data = u_get_unprocessed_data (u_audio s1)
                  in if unprocessed_data \<noteq> []
                     then (let s2 = u_async_asr co unprocessed_data s1
                           in s2\<lparr>u_audio := u_mark_processed (u_audio s2) (length unprocessed_data)\<rparr>)
                     else s1)
            else s1)
      else if u_mode s = ''2pass'' then u_async_asr co message s
      else u_async_asr_online co message s)"

fun u_ws_step :: "u_collaborators \<Rightarrow> u_session \<Rightarrow> inbound \<Rightarrow> (py_error \<times> u_session) + u_session" where
  "u_ws_step co s (TextFrame c) = u_handle_control co c s"
| "u_ws_step co s (BinaryFrame b) = Inr (u_handle_audio co b s)"
| "u_ws_step co s BadJson = Inl (ValueError, s)"

section \<open>A whole connection\<close>

fun u_ws_run :: "u_collaborators \<Rightarrow> u_session \<Rightarrow> inbound list \<Rightarrow> (py_error \<times> u_session) + u_session" where
  "u_ws_run co s [] = Inr s"
| "u_ws_run co s (m # ms) = sbind (u_ws_step co s m) (\<lambda>s'. u_ws_run co s' ms)"

definition u_res_state :: "(py_error \<times> u_session) + u_session \<Rightarrow> u_session" where
  "u_res_state r = (case r of Inl (_, s) \<Rightarrow> s | Inr s \<Rightarrow> s)"

text \<open>
  Lines 457--528: the loop, then, on a close, on any exception and on a normal
  end alike, the \<open>finally\<close> block: \<open>websocket_users.discard\<close>, then
  \<open>ws_reset\<close>.
\<close>

definition u_ws_serve :: "u_collaborators \<Rightarrow> gpu_device option \<Rightarrow> inbound list \<Rightarrow> u_session" where
  "u_ws_serve co g ms =
     u_ws_reset ((u_res_state (u_ws_run co (u_session_init g) ms))\<lparr>u_registered := False\<rparr>)"

section \<open>Properties of the unified handler\<close>

lemma u_split_loop_chunks_of:
  "0 < step \<Longrightarrow> u_split_loop step d i = chunks_of step (drop i d)"
proof (induction step d i rule: u_split_loop.induct)
  case (1 step d i)
  show ?case
  proof (cases "i < length d")
    case True
    with "1.IH" "1.prems" show ?thesis
      by (subst u_split_loop.simps, subst chunks_of.simps) (simp add: add.commute)
  next
    case False
    then show ?thesis
      by (subst u_split_loop.simps, subst chunks_of.simps) simp
  qed
qed

lemma chunks_of_single: "xs \<noteq> [] \<Longrightarrow> length xs \<le> step \<Longrightarrow> chunks_of step xs = [xs]"
  by (subst chunks_of.simps) (cases xs; simp add: chunks_of.simps [of step "[]"])

text \<open>
  C30: equivalence of the two servers' splitting. For a positive chunk size and non-empty audio, the unified server's \<open>range\<close> loop yields exactly the chunks of the streaming server's \<open>split_audio_chunks\<close> (whose sample alignment does not change a whole number of MiB).
\<close>

theorem u_split_audio_chunks_as_streaming:
  assumes "0 < mb" and "a \<noteq> []"
  shows "u_split_audio_chunks mb a = split_audio_chunks mb a"
  using assms
  by (simp add: u_split_audio_chunks_def split_audio_chunks_Inr u_split_loop_chunks_of chunks_of_single
                mult.commute)

theorem u_split_audio_chunks_as_streaming_witness:
  "0 < (1 :: nat) \<and> [1, 2, 3 :: byte] \<noteq> [] \<and> u_split_audio_chunks 1 [1, 2, 3] = split_audio_chunks 1 [1, 2, 3]"
  using u_split_audio_chunks_as_streaming [of 1 "[1, 2, 3]"] by simp

lemma u_send_outbox [simp]: "u_outbox (u_send ms s) = u_outbox s @ ms"
  by (simp add: u_send_def)

definition u_modes_in :: "string set \<Rightarrow> u_session \<Rightarrow> bool" where
  "u_modes_in A s \<longleftrightarrow> set (map um_mode (u_outbox s)) \<subseteq> A"

lemma u_modes_in_send [simp]:
  "u_modes_in A (u_send ms s) \<longleftrightarrow> u_modes_in A s \<and> set (map um_mode ms) \<subseteq> A"
  by (auto simp: u_modes_in_def u_send_def)

lemma u_control_outbox [simp]:
  "u_outbox (u_control_head c s) = u_outbox s" "u_outbox (u_control_tail c s) = u_outbox s"
  by (simp_all add: u_control_head_def u_control_tail_def Let_def split: option.splits)

lemma u_modes_in_upd [simp]:
  "u_modes_in A (s\<lparr>u_gpu := g\<rparr>) = u_modes_in A s"
  "u_modes_in A (s\<lparr>u_stream_results := r\<rparr>) = u_modes_in A s"
  "u_modes_in A (s\<lparr>u_audio := b\<rparr>) = u_modes_in A s"
  "u_modes_in A (s\<lparr>u_online_cache := k\<rparr>) = u_modes_in A s"
  "u_modes_in A (s\<lparr>u_registered := x\<rparr>) = u_modes_in A s"
  "u_modes_in A (u_control_head c s) = u_modes_in A s"
  "u_modes_in A (u_control_tail c s) = u_modes_in A s"
  "u_modes_in A (s\<lparr>u_chunk_size := l\<rparr>) = u_modes_in A s"
  by (simp_all add: u_modes_in_def)

lemma u_asr_chunks_modes:
  "u_modes_in A s \<Longrightarrow> ''2pass'' \<in> A \<Longrightarrow> u_modes_in A (u_asr_chunks co h n i cs s)"
  by (induction co h n i cs s rule: u_asr_chunks.induct) (simp_all split: option.splits)

lemma u_async_asr_cases:
  obtains (no_msg) g where "u_async_asr co a s = s\<lparr>u_gpu := g\<rparr>"
  | (error) g where "u_async_asr co a s = u_send [u_error_msg] (s\<lparr>u_gpu := g\<rparr>)"
  | (chunks) g cs where "u_async_asr co a s = u_asr_chunks co (py_get [] (u_hotword s)) (length cs) 0 cs (s\<lparr>u_gpu := g\<rparr>)"
  | (one) g t where "u_async_asr co a s =
      u_send [\<lparr>um_mode = ''2pass'', um_payload = Text t, um_is_final = True, um_chunk = None\<rparr>]
        (s\<lparr>u_gpu := g, u_stream_results := u_stream_results s @ [t]\<rparr>)"
proof -
  obtain adm g where c: "u_check_memory_before_processing (length a) (u_gpu s) = (adm, g)"
    by fastforce
  show thesis
  proof (cases "adm \<and> 50 * 1024 * 1024 < length a")
    case True
    then show thesis
      using c chunks [where g = g] error [where g = g]
      by (cases "u_split_audio_chunks 10 a") (simp_all add: u_async_asr_def Let_def)
  next
    case False
    show thesis
    proof (cases "adm")
      case False
      with c no_msg [where g = g] show thesis by (simp add: u_async_asr_def Let_def)
    next
      case True
      with \<open>\<not> (adm \<and> 50 * 1024 * 1024 < length a)\<close> have small: "\<not> 50 * 1024 * 1024 < length a"
        by simp
      show thesis
      proof (cases "u_asr_generate co (py_get [] (u_hotword s)) True a")
        case None
        with c True small error [where g = g] show thesis by (simp add: u_async_asr_def Let_def)
      next
        case (Some t)
        with c True small no_msg [where g = g] one [where g = g and t = t] show thesis
          by (cases "t = []") (simp_all add: u_async_asr_def Let_def)
      qed
    qed
  qed
qed

lemma u_async_asr_modes:
  "u_modes_in A s \<Longrightarrow> {''2pass'', ''error''} \<subseteq> A \<Longrightarrow> u_modes_in A (u_async_asr co a s)"
  by (cases rule: u_async_asr_cases [of co a s]) (simp_all add: u_asr_chunks_modes u_error_msg_def)

lemma u_async_asr_online_modes:
  "u_modes_in A s \<Longrightarrow> ''online'' \<in> A \<Longrightarrow> u_modes_in A (u_async_asr_online co a s)"
  by (simp add: u_async_asr_online_def Let_def split: option.splits)

lemma u_upload_complete_modes:
  "u_modes_in A s \<Longrightarrow> {''2pass'', ''error'', ''final''} \<subseteq> A \<Longrightarrow> u_modes_in A (u_upload_complete co s)"
  by (simp add: u_upload_complete_def Let_def u_async_asr_modes u_final_msg_def)

lemma u_ws_step_modes:
  assumes "u_modes_in A s" and "{''2pass'', ''online'', ''error'', ''final''} \<subseteq> A"
  shows "u_modes_in A (u_res_state (u_ws_step co s m))"
proof (cases m)
  case (TextFrame c)
  then show ?thesis
    using assms u_upload_complete_modes [of A _ co]
    by (simp add: u_handle_control_def u_res_state_def Let_def split: option.splits sum.splits)
next
  case (BinaryFrame b)
  then show ?thesis
    using assms u_async_asr_modes [of A _ co] u_async_asr_online_modes [of A _ co]
    by (simp add: u_handle_audio_def u_res_state_def Let_def)
qed (use assms in \<open>simp add: u_res_state_def\<close>)

lemma u_ws_run_modes_in:
  assumes "u_modes_in A s" and "{''2pass'', ''online'', ''error'', ''final''} \<subseteq> A"
  shows "u_modes_in A (u_res_state (u_ws_run co s ms))"
  using assms(1)
proof (induction ms arbitrary: s)
  case (Cons m ms)
  show ?case
  proof (cases "u_ws_step co s m")
    case (Inl p)
    then show ?thesis
      using u_ws_step_modes [OF Cons.prems assms(2), of co m] by (cases p) (simp add: u_res_state_def)
  next
    case (Inr t)
    then have "u_modes_in A t"
      using u_ws_step_modes [OF Cons.prems assms(2), of co m] by (simp add: u_res_state_def)
    with Inr Cons.IH show ?thesis by simp
  qed
qed (simp add: u_res_state_def)

text \<open>
  C26: message type of the unified server: every message a connection sends, whatever the frames, has a mode among \<open>2pass\<close>, \<open>online\<close>, \<open>error\<close> and \<open>final\<close>.
  The offline results carry \<open>2pass\<close>, which is not among the outbound modes of
  spec section 6 (there they are \<open>2pass-offline\<close>, as the streaming server sends).
\<close>

theorem u_ws_run_modes:
  "set (map um_mode (u_outbox (u_res_state (u_ws_run co (u_session_init g) ms)))) \<subseteq>
     {''2pass'', ''online'', ''error'', ''final''}"
  using u_ws_run_modes_in [of "{''2pass'', ''online'', ''error'', ''final''}" "u_session_init g" co ms]
  by (simp add: u_modes_in_def u_session_init_def)

text \<open>
  C28: when the offline recogniser raises on an admitted segment of at most 50 MiB, the unified server reports it with one \<open>error\<close> message, as the spec asks, and stores no result and leaves the buffer as it was.
\<close>

theorem u_async_asr_failure_reported:
  assumes "length a \<le> 50 * 1024 * 1024"
    and "fst (u_check_memory_before_processing (length a) (u_gpu s))"
    and "u_asr_generate co (py_get [] (u_hotword s)) True a = None"
  shows "u_outbox (u_async_asr co a s) = u_outbox s @ [u_error_msg] \<and>
         u_stream_results (u_async_asr co a s) = u_stream_results s \<and>
         u_audio (u_async_asr co a s) = u_audio s"
  using assms by (auto simp: u_async_asr_def Let_def u_send_def split: prod.splits)

theorem u_async_asr_failure_reported_witness:
  "length [1 :: byte] \<le> 50 * 1024 * 1024 \<and>
   fst (u_check_memory_before_processing (length [1 :: byte]) (u_gpu (u_session_init None))) \<and>
   u_asr_generate \<lparr>u_asr_generate = (\<lambda>_ _ _. None), u_online_generate = (\<lambda>_ _ a. if a = [1] then Some ([20320], [1]) else Some ([20320, 22909], [2]))\<rparr> (py_get [] (u_hotword (u_session_init None))) True [1] = None \<and>
   u_outbox (u_async_asr \<lparr>u_asr_generate = (\<lambda>_ _ _. None), u_online_generate = (\<lambda>_ _ a. if a = [1] then Some ([20320], [1]) else Some ([20320, 22909], [2]))\<rparr> [1] (u_session_init None)) = [u_error_msg] \<and>
   u_stream_results (u_async_asr \<lparr>u_asr_generate = (\<lambda>_ _ _. None), u_online_generate = (\<lambda>_ _ a. if a = [1] then Some ([20320], [1]) else Some ([20320, 22909], [2]))\<rparr> [1] (u_session_init None)) = []"
  using u_async_asr_failure_reported [of "[1]" "u_session_init None" "\<lparr>u_asr_generate = (\<lambda>_ _ _. None), u_online_generate = (\<lambda>_ _ a. if a = [1] then Some ([20320], [1]) else Some ([20320, 22909], [2]))\<rparr>"]
  by (simp add: u_session_init_def)

text \<open>
  C27: the unified server's online pass sends the whole recognised text of every call, not the new part: two calls returning a text and its extension send both texts in full. Spec section 4.4 (and scenario B) expects the deltas.
\<close>

theorem u_online_sends_whole_text:
  assumes "\<not> u_is_file_upload s" and "u_mode s \<noteq> ''2pass''"
    and "u_online_generate co (u_online_cache s) (u_online_is_final s) a1 = Some (t1, c1)"
    and "u_online_generate co c1 (u_online_is_final s) a2 = Some (t2, c2)"
    and "t1 \<noteq> []" and "t2 \<noteq> []"
  shows "map um_payload (u_outbox (u_res_state (u_ws_run co s [BinaryFrame a1, BinaryFrame a2]))) =
           map um_payload (u_outbox s) @ [Text t1, Text t2]"
  using assms
  by (simp add: u_handle_audio_def u_async_asr_online_def Let_def u_res_state_def u_send_def)

theorem u_online_sends_whole_text_witness:
  "\<not> u_is_file_upload ((u_session_init None)\<lparr>u_mode := ''online''\<rparr>) \<and>
   u_mode ((u_session_init None)\<lparr>u_mode := ''online''\<rparr>) \<noteq> ''2pass'' \<and>
   u_online_generate \<lparr>u_asr_generate = (\<lambda>_ _ _. None), u_online_generate = (\<lambda>_ _ a. if a = [1] then Some ([20320], [1]) else Some ([20320, 22909], [2]))\<rparr> (u_online_cache ((u_session_init None)\<lparr>u_mode := ''online''\<rparr>))
     (u_online_is_final ((u_session_init None)\<lparr>u_mode := ''online''\<rparr>)) [1] = Some ([20320], [1]) \<and>
   u_online_generate \<lparr>u_asr_generate = (\<lambda>_ _ _. None), u_online_generate = (\<lambda>_ _ a. if a = [1] then Some ([20320], [1]) else Some ([20320, 22909], [2]))\<rparr> [1] (u_online_is_final ((u_session_init None)\<lparr>u_mode := ''online''\<rparr>)) [2] =
     Some ([20320, 22909], [2]) \<and>
   [20320 :: nat] \<noteq> [] \<and> [20320, 22909 :: nat] \<noteq> [] \<and>
   map um_payload (u_outbox (u_res_state (u_ws_run \<lparr>u_asr_generate = (\<lambda>_ _ _. None), u_online_generate = (\<lambda>_ _ a. if a = [1] then Some ([20320], [1]) else Some ([20320, 22909], [2]))\<rparr> ((u_session_init None)\<lparr>u_mode := ''online''\<rparr>)
      [BinaryFrame [1], BinaryFrame [2]]))) = [Text [20320], Text [20320, 22909]]"
  using u_online_sends_whole_text [of "(u_session_init None)\<lparr>u_mode := ''online''\<rparr>" "\<lparr>u_asr_generate = (\<lambda>_ _ _. None), u_online_generate = (\<lambda>_ _ a. if a = [1] then Some ([20320], [1]) else Some ([20320, 22909], [2]))\<rparr>" "[1]" "[20320]" "[1]" "[2]" "[20320, 22909]" "[2]"]
  by (simp add: u_session_init_def)

text \<open>
  C29: \<open>upload_complete\<close> of the unified server clears neither the buffer nor the stored results: a second \<open>upload_complete\<close> sends the same final text again.
\<close>

theorem u_upload_complete_repeats_final:
  assumes "u_is_file_upload s" and "u_get_unprocessed_data (u_audio s) = []"
    and "u_stream_results s \<noteq> []" and "u_merge_stream_results (u_stream_results s) \<noteq> []"
  shows "u_upload_complete co (u_upload_complete co s) =
           u_send [u_final_msg ''final'' (u_merge_stream_results (u_stream_results s)),
                   u_final_msg ''final'' (u_merge_stream_results (u_stream_results s))] s"
  using assms by (simp add: u_upload_complete_def Let_def u_send_def)

theorem u_upload_complete_repeats_final_witness:
  "u_is_file_upload ((u_session_init None)\<lparr>u_is_file_upload := True, u_stream_results := [[104, 105]]\<rparr>) \<and>
   u_get_unprocessed_data (u_audio ((u_session_init None)\<lparr>u_is_file_upload := True, u_stream_results := [[104, 105]]\<rparr>)) = [] \<and>
   [[104, 105 :: nat]] \<noteq> [] \<and> u_merge_stream_results [[104, 105]] \<noteq> [] \<and>
   u_outbox (u_upload_complete \<lparr>u_asr_generate = (\<lambda>_ _ _. None), u_online_generate = (\<lambda>_ _ a. if a = [1] then Some ([20320], [1]) else Some ([20320, 22909], [2]))\<rparr> (u_upload_complete \<lparr>u_asr_generate = (\<lambda>_ _ _. None), u_online_generate = (\<lambda>_ _ a. if a = [1] then Some ([20320], [1]) else Some ([20320, 22909], [2]))\<rparr>
     ((u_session_init None)\<lparr>u_is_file_upload := True, u_stream_results := [[104, 105]]\<rparr>))) =
   [u_final_msg ''final'' [104, 105], u_final_msg ''final'' [104, 105]]"
proof -
  have m: "u_merge_stream_results [[104, 105]] = [104, 105]"
    by (simp add: u_merge_stream_results_def py_strip_def py_isspace_def)
  have p: "u_get_unprocessed_data (u_audio ((u_session_init None)\<lparr>u_is_file_upload := True, u_stream_results := [[104, 105]]\<rparr>)) = []"
    by (simp add: u_session_init_def UAudioBuffer_def u_get_unprocessed_data_def)
  show ?thesis
    using u_upload_complete_repeats_final [of "(u_session_init None)\<lparr>u_is_file_upload := True, u_stream_results := [[104, 105]]\<rparr>" "\<lparr>u_asr_generate = (\<lambda>_ _ _. None), u_online_generate = (\<lambda>_ _ a. if a = [1] then Some ([20320], [1]) else Some ([20320, 22909], [2]))\<rparr>"] m p
    by (simp add: u_session_init_def u_send_def)
qed

text \<open>
  C25: liveness of the unified server's teardown: whatever the frames and however the loop ends, the connection ends removed from \<open>websocket_users\<close>, with an empty buffer and no stored results, and every message the loop sent stays sent.
\<close>

theorem u_ws_serve_releases:
  "\<not> u_registered (u_ws_serve co g ms) \<and> u_get_buffer_size (u_audio (u_ws_serve co g ms)) = 0 \<and>
   u_stream_results (u_ws_serve co g ms) = [] \<and>
   u_outbox (u_ws_serve co g ms) = u_outbox (u_res_state (u_ws_run co (u_session_init g) ms))"
  by (simp add: u_ws_serve_def u_ws_reset_def u_clear_def u_get_buffer_size_def)

end
