(* ===== verification/HttpEndpoint.thy ===== *)
theory HttpEndpoint
  imports TurnFormat ResourceGuard
begin

text \<open>
  The HTTP upload endpoint \<open>recognize_audio\<close> (\<open>POST /api/recognize\<close>) of
  \<open>src/websocket/funasr_api_server.py\<close> (lines 109--161) and its copy in
  \<open>src/websocket/funasr_unified_server.py\<close> (lines 587--640), with the
  health checks. The uploaded file is written to a named temporary file
  (\<open>delete=False\<close>), the file model recognises it, the merger of
  \<open>ResultMerger\<close> and \<open>TurnFormat\<close> turns the sentences into turn
  dictionaries, and a \<open>finally\<close> block removes the file. The temporary files
  on disk are the state: a set of file names and the next fresh name
  (\<open>NamedTemporaryFile\<close> picks a name not in use). An \<open>HTTPException\<close> is a
  status code and the kind of its detail message; a success is the turn list
  and \<open>total_segments\<close>.
\<close>

section \<open>Requests, responses, the temporary files\<close>

text \<open>
  The upload: its file name (\<open>None\<close> when absent) and its content, \<open>None\<close>
  when \<open>await audio.read()\<close> raises (the client went away mid-upload).
\<close>

record upload =
  up_filename :: "string option"
  up_content :: "bytes option"

datatype http_error = ModelNotInitialised | NoFileSelected | RecognitionError

type_synonym http_response = "(nat \<times> http_error) + (turn_dict list \<times> nat)"

record tmp_state =
  tmp_files :: "nat set"
  next_tmp :: nat

text \<open>
  The file model: \<open>model.generate(input=path, batch_size_s=..., hotword=...)\<close>
  on the file's content; the outer \<open>None\<close> is an exception, the inner option
  the Python \<open>None\<close> result. A server without a loaded model has \<open>None\<close>.
\<close>

type_synonym file_model = "int \<Rightarrow> string option \<Rightarrow> bytes \<Rightarrow> rec_result list option option"

section \<open>The endpoint\<close>

text \<open>Lines 109--161 of the HTTP server.\<close>

definition recognize_audio ::
  "file_model option \<Rightarrow> upload \<Rightarrow> int \<Rightarrow> string \<Rightarrow> tmp_state \<Rightarrow> http_response \<times> tmp_state" where
  "recognize_audio model audio batch_size_s hotword st =
     (case model of
        None \<Rightarrow> (Inl (500, ModelNotInitialised), st)
      | Some m \<Rightarrow>
          (if up_filename audio = None \<or> up_filename audio = Some [] then (Inl (400, NoFileSelected), st)
           else
             (let temp_file_path = next_tmp st;
                  st1 = st\<lparr>tmp_files := insert temp_file_path (tmp_files st), next_tmp := Suc temp_file_path\<rparr>
              in case up_content audio of
                   None \<Rightarrow> (Inl (500, RecognitionError), st1)
                 | Some content \<Rightarrow>
                     (let res = m batch_size_s (if hotword = [] then None else Some hotword) content;
                          st2 = st1\<lparr>tmp_files := tmp_files st1 - {temp_file_path}\<rparr>
                      in case res of
                           None \<Rightarrow> (Inl (500, RecognitionError), st2)
                         | Some r \<Rightarrow>
                             (let processed_results = map format_turn (process_recognition_result r)
                              in (Inr (processed_results, length processed_results), st2))))))"

text \<open>Lines 587--640 of the unified server: the same code on \<open>model_file\<close>.\<close>

definition u_recognize_audio ::
  "file_model option \<Rightarrow> upload \<Rightarrow> int \<Rightarrow> string \<Rightarrow> tmp_state \<Rightarrow> http_response \<times> tmp_state" where
  "u_recognize_audio model_file audio batch_size_s hotword st =
     recognize_audio model_file audio batch_size_s hotword st"

text \<open>Every temporary file name in use is below the next fresh name.\<close>

definition tmp_wf :: "tmp_state \<Rightarrow> bool" where
  "tmp_wf st \<longleftrightarrow> (\<forall>p\<in>tmp_files st. p < next_tmp st)"

section \<open>Health and status\<close>

text \<open>\<open>GET /api/health\<close> of the HTTP server (lines 163--170): the status and whether the model is loaded.\<close>

definition health_check :: "file_model option \<Rightarrow> string \<times> bool" where
  "health_check model = (''ok'', model \<noteq> None)"

text \<open>Which of the unified server's global models are loaded (not \<open>None\<close>).\<close>

record loaded_models =
  lm_asr :: bool
  lm_asr_streaming :: bool
  lm_vad :: bool
  lm_punc :: bool
  lm_file :: bool

record u_health =
  uh_status :: string
  uh_websocket_model_loaded :: bool
  uh_file_model_loaded :: bool
  uh_websocket_users :: nat

text \<open>\<open>GET /api/health\<close> of the unified server (lines 641--649); the registry is a finite set of connections.\<close>

definition u_health_check :: "loaded_models \<Rightarrow> 'c set \<Rightarrow> u_health" where
  "u_health_check models websocket_users =
     \<lparr>uh_status = ''ok'', uh_websocket_model_loaded = (lm_asr models \<and> lm_asr_streaming models),
      uh_file_model_loaded = lm_file models, uh_websocket_users = card websocket_users\<rparr>"

record u_status =
  us_websocket_port :: int
  us_api_port :: int
  us_connected_users :: nat
  us_gpu_memory :: "memory_info option"
  us_models :: loaded_models

text \<open>\<open>GET /api/status\<close> of the unified server (lines 651--667).\<close>

definition u_get_status :: "int \<Rightarrow> int \<Rightarrow> loaded_models \<Rightarrow> 'c set \<Rightarrow> gpu_device option \<Rightarrow> u_status" where
  "u_get_status ws_port api_port models websocket_users g =
     \<lparr>us_websocket_port = ws_port, us_api_port = api_port, us_connected_users = card websocket_users,
      us_gpu_memory = u_get_gpu_memory_info g, us_models = models\<rparr>"

section \<open>Properties of the endpoint\<close>

lemma recognize_audio_cases:
  obtains (no_model) "model = None" "recognize_audio model audio b h st = (Inl (500, ModelNotInitialised), st)"
  | (no_file) m where "model = Some m" "up_filename audio = None \<or> up_filename audio = Some []"
      "recognize_audio model audio b h st = (Inl (400, NoFileSelected), st)"
  | (read_failed) m where "model = Some m" "up_filename audio \<noteq> None" "up_filename audio \<noteq> Some []"
      "up_content audio = None"
      "recognize_audio model audio b h st =
         (Inl (500, RecognitionError),
          st\<lparr>tmp_files := insert (next_tmp st) (tmp_files st), next_tmp := Suc (next_tmp st)\<rparr>)"
  | (ran) m content where "model = Some m" "up_filename audio \<noteq> None" "up_filename audio \<noteq> Some []"
      "up_content audio = Some content"
      "snd (recognize_audio model audio b h st) =
         st\<lparr>tmp_files := insert (next_tmp st) (tmp_files st) - {next_tmp st}, next_tmp := Suc (next_tmp st)\<rparr>"
      "fst (recognize_audio model audio b h st) =
         (case m b (if h = [] then None else Some h) content of
            None \<Rightarrow> Inl (500, RecognitionError)
          | Some r \<Rightarrow> Inr (map format_turn (process_recognition_result r),
                           length (process_recognition_result r)))"
proof (cases model)
  case None
  then show thesis using no_model by (simp add: recognize_audio_def)
next
  case (Some m)
  note mm = this
  show thesis
  proof (cases "up_filename audio = None \<or> up_filename audio = Some []")
    case True
    with mm show thesis by (intro no_file [of m]) (auto simp: recognize_audio_def)
  next
    case False
    show thesis
    proof (cases "up_content audio")
      case None
      with mm False show thesis
        by (intro read_failed [of m]) (auto simp: recognize_audio_def Let_def)
    next
      case (Some content)
      with mm False show thesis
        by (intro ran [of m content]) (auto simp: recognize_audio_def Let_def split: option.splits)
    qed
  qed
qed

text \<open>
  C31: when the upload can be read, the endpoint leaves the temporary files as it found them on every path (model error included), and keeps the naming invariant.
\<close>

theorem recognize_audio_cleanup:
  assumes "tmp_wf st" and "up_content audio \<noteq> None"
  shows "tmp_files (snd (recognize_audio model audio b h st)) = tmp_files st \<and>
         tmp_wf (snd (recognize_audio model audio b h st))"
proof (cases rule: recognize_audio_cases [of model audio b h st])
  case ran
  have "next_tmp st \<notin> tmp_files st"
    using assms(1) by (auto simp: tmp_wf_def)
  with ran assms(1) show ?thesis
    by (auto simp: tmp_wf_def)
qed (use assms in simp_all)

theorem recognize_audio_cleanup_witness:
  "tmp_wf \<lparr>tmp_files = {0}, next_tmp = 1\<rparr> \<and> up_content \<lparr>up_filename = Some ''a.wav'', up_content = Some [1, 2]\<rparr> \<noteq> None \<and>
   tmp_files (snd (recognize_audio (Some (\<lambda>_ _ _. Some (Some [\<lparr>sentence_info = Some [\<lparr>s_start = Some 0, s_end = Some 1000, s_spk = Some 0, s_text = Some [104]\<rparr>]\<rparr>]))) \<lparr>up_filename = Some ''a.wav'', up_content = Some [1, 2]\<rparr> 300 []
                     \<lparr>tmp_files = {0}, next_tmp = 1\<rparr>)) = {0}"
  using recognize_audio_cleanup [of "\<lparr>tmp_files = {0}, next_tmp = 1\<rparr>" "\<lparr>up_filename = Some ''a.wav'', up_content = Some [1, 2]\<rparr>" "Some (\<lambda>_ _ _. Some (Some [\<lparr>sentence_info = Some [\<lparr>s_start = Some 0, s_end = Some 1000, s_spk = Some 0, s_text = Some [104]\<rparr>]\<rparr>]))" 300 "[]"]
  by (simp add: tmp_wf_def)

text \<open>
  C32: when reading the upload raises, the endpoint answers 500 and the temporary file it created stays on disk: the file was opened with \<open>delete=False\<close> and the read happens inside the \<open>with\<close> block, before the \<open>try\<close> whose \<open>finally\<close> removes it. The spec promises cleanup on every path.
\<close>

theorem recognize_audio_read_failure_leaks:
  assumes "model = Some m" and "up_filename audio = Some f" and "f \<noteq> []" and "up_content audio = None"
  shows "fst (recognize_audio model audio b h st) = Inl (500, RecognitionError) \<and>
         next_tmp st \<in> tmp_files (snd (recognize_audio model audio b h st))"
  using assms by (simp add: recognize_audio_def Let_def)

theorem recognize_audio_read_failure_leaks_witness:
  "up_filename \<lparr>up_filename = Some ''a.wav'', up_content = None\<rparr> = Some ''a.wav'' \<and>
   ''a.wav'' \<noteq> [] \<and> up_content \<lparr>up_filename = Some ''a.wav'', up_content = None\<rparr> = None \<and>
   0 \<in> tmp_files (snd (recognize_audio (Some (\<lambda>_ _ _. Some (Some [\<lparr>sentence_info = Some [\<lparr>s_start = Some 0, s_end = Some 1000, s_spk = Some 0, s_text = Some [104]\<rparr>]\<rparr>]))) \<lparr>up_filename = Some ''a.wav'', up_content = None\<rparr> 300 []
                        \<lparr>tmp_files = {}, next_tmp = 0\<rparr>))"
  using recognize_audio_read_failure_leaks [of "Some (\<lambda>_ _ _. Some (Some [\<lparr>sentence_info = Some [\<lparr>s_start = Some 0, s_end = Some 1000, s_spk = Some 0, s_text = Some [104]\<rparr>]\<rparr>]))" "(\<lambda>_ _ _. Some (Some [\<lparr>sentence_info = Some [\<lparr>s_start = Some 0, s_end = Some 1000, s_spk = Some 0, s_text = Some [104]\<rparr>]\<rparr>]))" "\<lparr>up_filename = Some ''a.wav'', up_content = None\<rparr>" "''a.wav''" 300 "[]" "\<lparr>tmp_files = {}, next_tmp = 0\<rparr>"]
  by simp

text \<open>
  The endpoint answers 400 exactly for a request without a file name on a server whose model is loaded; every other failure is a 500.
\<close>

theorem recognize_audio_client_error:
  "(\<exists>e. fst (recognize_audio model audio b h st) = Inl (400, e)) \<longleftrightarrow>
     model \<noteq> None \<and> (up_filename audio = None \<or> up_filename audio = Some [])"
  by (cases rule: recognize_audio_cases [of model audio b h st]) (auto split: option.splits)

theorem recognize_audio_client_error_witness:
  "\<exists>e. fst (recognize_audio (Some (\<lambda>_ _ _. Some (Some [\<lparr>sentence_info = Some [\<lparr>s_start = Some 0, s_end = Some 1000, s_spk = Some 0, s_text = Some [104]\<rparr>]\<rparr>]))) \<lparr>up_filename = None, up_content = Some [1]\<rparr> 300 []
          \<lparr>tmp_files = {}, next_tmp = 0\<rparr>) = Inl (400, e)"
  using recognize_audio_client_error [of "Some (\<lambda>_ _ _. Some (Some [\<lparr>sentence_info = Some [\<lparr>s_start = Some 0, s_end = Some 1000, s_spk = Some 0, s_text = Some [104]\<rparr>]\<rparr>]))" "\<lparr>up_filename = None, up_content = Some [1]\<rparr>" 300 "[]"
      "\<lparr>tmp_files = {}, next_tmp = 0\<rparr>"] by simp

text \<open>
  A successful response carries the merged turns of the model's result, formatted as dictionaries, and \<open>total_segments\<close> is their number.
\<close>

theorem recognize_audio_success:
  assumes "fst (recognize_audio model audio b h st) = Inr (ts, n)"
  shows "n = length ts \<and>
         (\<exists>m c r. model = Some m \<and> up_content audio = Some c \<and>
                  m b (if h = [] then None else Some h) c = Some r \<and>
                  ts = map format_turn (process_recognition_result r))"
  using assms
  by (cases rule: recognize_audio_cases [of model audio b h st]) (auto split: option.splits)

theorem recognize_audio_success_witness:
  "fst (recognize_audio (Some (\<lambda>_ _ _. Some (Some [\<lparr>sentence_info = Some [\<lparr>s_start = Some 0, s_end = Some 1000, s_spk = Some 0, s_text = Some [104]\<rparr>]\<rparr>]))) \<lparr>up_filename = Some ''a.wav'', up_content = Some [1, 2]\<rparr> 300 []
         \<lparr>tmp_files = {}, next_tmp = 0\<rparr>) =
     Inr ([format_turn \<lparr>turn_speaker = 0, turn_start = 0, turn_end = 1, turn_text = [104]\<rparr>], 1) \<and>
   1 = length [format_turn \<lparr>turn_speaker = 0, turn_start = 0, turn_end = 1, turn_text = [104]\<rparr>]"
proof -
  have e: "fst (recognize_audio (Some (\<lambda>_ _ _. Some (Some [\<lparr>sentence_info = Some [\<lparr>s_start = Some 0, s_end = Some 1000, s_spk = Some 0, s_text = Some [104]\<rparr>]\<rparr>]))) \<lparr>up_filename = Some ''a.wav'', up_content = Some [1, 2]\<rparr> 300 []
         \<lparr>tmp_files = {}, next_tmp = 0\<rparr>) =
     Inr ([format_turn \<lparr>turn_speaker = 0, turn_start = 0, turn_end = 1, turn_text = [104]\<rparr>], 1)"
    by (simp add: recognize_audio_def Let_def process_recognition_result_def process_sentences_def
                  merge_sentence_def merge_init_def flush_turn_def)
  show ?thesis
    by (intro conjI e conjunct1 [OF recognize_audio_success [OF e]])
qed

end
