(* ===== verification/Bootstrap.thy ===== *)
theory Bootstrap
  imports HttpEndpoint
begin

text \<open>
  Process start-up of the three servers: the command-line arguments with
  their defaults, the model loading, and which listeners come up.
  \<open>src/websocket/funasr_unified_server.py\<close>: the parser (lines 29--87),
  \<open>init_models\<close> (109--198), \<open>start_websocket_server\<close> (669--695),
  \<open>start_fastapi_server\<close> (697--714) and the main block (716--741).
  \<open>src/websocket/funasr_wss_server.py\<close>: the parser (14--65), the model
  loading at module level (74--127) and the listener (690--706).
  \<open>src/websocket/funasr_api_server.py\<close>: \<open>init_model\<close> (31--51) and the
  main block (171--183).

  \<open>AutoModel(model=..., model_revision=...)\<close> is a collaborator that loads
  a model or raises; \<open>ssl_context.load_cert_chain\<close> (and uvicorn's own TLS
  set-up) is one that accepts a certificate and key file or raises. The
  device arguments (\<open>ngpu\<close>, \<open>ncpu\<close>, \<open>device\<close>) are only passed on to
  \<open>AutoModel\<close> and are not modelled; nor are the event loops and threads,
  beyond the order in which the listeners start. A listener is its kind,
  address, port and TLS files.
\<close>

section \<open>Arguments\<close>

record u_args =
  a_host :: string
  a_ws_port :: int
  a_api_port :: int
  a_asr_model :: string
  a_asr_model_revision :: string
  a_asr_model_online :: string
  a_asr_model_online_revision :: string
  a_vad_model :: string
  a_vad_model_revision :: string
  a_punc_model :: string
  a_punc_model_revision :: string
  a_file_model :: string
  a_file_model_revision :: string
  a_certfile :: string
  a_keyfile :: string

text \<open>The defaults of the unified server's parser.\<close>

definition u_default_args :: u_args where
  "u_default_args =
     \<lparr>a_host = ''0.0.0.0'', a_ws_port = 10095, a_api_port = 10096,
      a_asr_model = ''/home/dell/mnt/ai-work/Meeting/models/speech_paraformer-large-vad-punc_asr_nat-zh-cn-16k-common-vocab8404-pytorch'',
      a_asr_model_revision = ''v2.0.4'',
      a_asr_model_online = ''/home/dell/mnt/ai-work/Meeting/models/speech_paraformer-large_asr_nat-zh-cn-16k-common-vocab8404-online'',
      a_asr_model_online_revision = ''v2.0.4'',
      a_vad_model = ''/home/dell/mnt/ai-work/Meeting/models/speech_fsmn_vad_zh-cn-16k-common-pytorch'',
      a_vad_model_revision = ''v2.0.4'',
      a_punc_model = ''/home/dell/mnt/ai-work/Meeting/models/punc_ct-transformer_zh-cn-common-vad_realtime-vocab272727'',
      a_punc_model_revision = ''v2.0.4'',
      a_file_model = ''/home/dell/mnt/ai-work/Meeting/models/speech_paraformer-large-vad-punc-spk_asr_nat-zh-cn'',
      a_file_model_revision = ''v2.0.4'',
      a_certfile = ''/home/dell/mnt/ai-work/Meeting/ssl_key/server.crt'',
      a_keyfile = ''/home/dell/mnt/ai-work/Meeting/ssl_key/server.key''\<rparr>"

section \<open>Loading the models\<close>

text \<open>\<open>AutoModel(model, model_revision)\<close>: \<open>True\<close> when it returns, \<open>False\<close> when it raises.\<close>

type_synonym model_loader = "string \<Rightarrow> string \<Rightarrow> bool"

definition no_models :: loaded_models where
  "no_models = \<lparr>lm_asr = False, lm_asr_streaming = False, lm_vad = False, lm_punc = False, lm_file = False\<rparr>"

text \<open>
  One assignment \<open>model_x = AutoModel(...)\<close>: the global is set when the
  constructor returns; when it raises, the globals set so far stay set.
\<close>

definition load_global ::
  "model_loader \<Rightarrow> string \<Rightarrow> string \<Rightarrow> (loaded_models \<Rightarrow> loaded_models) \<Rightarrow> loaded_models \<Rightarrow>
   (py_error \<times> loaded_models) + loaded_models" where
  "load_global ld model revision set_global lm =
     (if ld model revision then Inr (set_global lm) else Inl (ModelError, lm))"

text \<open>Lines 109--198: \<open>init_models\<close>; its \<open>except\<close> logs and re-raises.\<close>

definition u_init_models :: "model_loader \<Rightarrow> u_args \<Rightarrow> (py_error \<times> loaded_models) + loaded_models" where
  "u_init_models ld a =
     sbind (load_global ld (a_asr_model a) (a_asr_model_revision a) (\<lambda>m. m\<lparr>lm_asr := True\<rparr>) no_models)
      (\<lambda>m1. sbind (load_global ld (a_asr_model_online a) (a_asr_model_online_revision a)
                     (\<lambda>m. m\<lparr>lm_asr_streaming := True\<rparr>) m1)
      (\<lambda>m2. sbind (load_global ld (a_vad_model a) (a_vad_model_revision a) (\<lambda>m. m\<lparr>lm_vad := True\<rparr>) m2)
      (\<lambda>m3. sbind (if a_punc_model a \<noteq> ''''
                   then load_global ld (a_punc_model a) (a_punc_model_revision a) (\<lambda>m. m\<lparr>lm_punc := True\<rparr>) m3
                   else Inr (m3\<lparr>lm_punc := False\<rparr>))
      (\<lambda>m4. load_global ld (a_file_model a) (a_file_model_revision a) (\<lambda>m. m\<lparr>lm_file := True\<rparr>) m4))))"

section \<open>Listeners\<close>

datatype listener_kind = WebSocketListener | HttpListener

record listener =
  l_kind :: listener_kind
  l_host :: string
  l_port :: int
  l_tls :: "(string \<times> string) option"

text \<open>\<open>load_cert_chain(certfile, keyfile)\<close>: \<open>True\<close> when it accepts the files.\<close>

type_synonym cert_loader = "string \<Rightarrow> string \<Rightarrow> bool"

text \<open>
  Lines 669--695: TLS when \<open>certfile\<close> is non-empty; a certificate that does
  not load raises, which the function logs, and no listener starts.
\<close>

definition u_start_websocket_server :: "cert_loader \<Rightarrow> u_args \<Rightarrow> listener option" where
  "u_start_websocket_server ck a =
     (if 0 < length (a_certfile a)
      then (if ck (a_certfile a) (a_keyfile a)
            then Some \<lparr>l_kind = WebSocketListener, l_host = a_host a, l_port = a_ws_port a,
                       l_tls = Some (a_certfile a, a_keyfile a)\<rparr>
            else None)
      else Some \<lparr>l_kind = WebSocketListener, l_host = a_host a, l_port = a_ws_port a, l_tls = None\<rparr>)"

text \<open>Lines 697--714: the same choice for uvicorn.\<close>

definition u_start_fastapi_server :: "cert_loader \<Rightarrow> u_args \<Rightarrow> listener option" where
  "u_start_fastapi_server ck a =
     (if 0 < length (a_certfile a)
      then (if ck (a_certfile a) (a_keyfile a)
            then Some \<lparr>l_kind = HttpListener, l_host = a_host a, l_port = a_api_port a,
                       l_tls = Some (a_certfile a, a_keyfile a)\<rparr>
            else None)
      else Some \<lparr>l_kind = HttpListener, l_host = a_host a, l_port = a_api_port a, l_tls = None\<rparr>)"

text \<open>
  Lines 716--741: load the models, then start the WebSocket thread and the
  HTTP server, in that order. An exception of \<open>init_models\<close> is logged by the
  outer \<open>except\<close> and nothing starts. The WebSocket thread is a daemon: when
  \<open>start_fastapi_server\<close> returns (its server failed to start), the main
  thread ends and the process exits with it. The result is the globals and
  the listeners that stay up.
\<close>

definition u_main :: "model_loader \<Rightarrow> cert_loader \<Rightarrow> u_args \<Rightarrow> loaded_models \<times> listener list" where
  "u_main ld ck a =
     (case u_init_models ld a of
        Inl (_, lm) \<Rightarrow> (lm, [])
      | Inr lm \<Rightarrow>
          (case u_start_fastapi_server ck a of
             None \<Rightarrow> (lm, [])
           | Some api \<Rightarrow>
               (lm, (case u_start_websocket_server ck a of None \<Rightarrow> [] | Some ws \<Rightarrow> [ws]) @ [api])))"

section \<open>The streaming server and the HTTP server\<close>

record wss_args =
  w_host :: string
  w_port :: int
  w_asr_model :: string
  w_asr_model_revision :: string
  w_asr_model_online :: string
  w_asr_model_online_revision :: string
  w_vad_model :: string
  w_vad_model_revision :: string
  w_punc_model :: string
  w_punc_model_revision :: string
  w_certfile :: string
  w_keyfile :: string

text \<open>
  The streaming server loads its models at module level (lines 74--127),
  outside any \<open>try\<close>: a model that does not load ends the process.
\<close>

definition wss_load_models :: "model_loader \<Rightarrow> wss_args \<Rightarrow> (py_error \<times> loaded_models) + loaded_models" where
  "wss_load_models ld a =
     sbind (load_global ld (w_asr_model a) (w_asr_model_revision a) (\<lambda>m. m\<lparr>lm_asr := True\<rparr>) no_models)
      (\<lambda>m1. sbind (load_global ld (w_asr_model_online a) (w_asr_model_online_revision a)
                     (\<lambda>m. m\<lparr>lm_asr_streaming := True\<rparr>) m1)
      (\<lambda>m2. sbind (load_global ld (w_vad_model a) (w_vad_model_revision a) (\<lambda>m. m\<lparr>lm_vad := True\<rparr>) m2)
      (\<lambda>m3. if w_punc_model a \<noteq> ''''
            then load_global ld (w_punc_model a) (w_punc_model_revision a) (\<lambda>m. m\<lparr>lm_punc := True\<rparr>) m3
            else Inr (m3\<lparr>lm_punc := False\<rparr>))))"

text \<open>
  Lines 690--706: the one listener; a certificate that does not load raises
  at module level and also ends the process.
\<close>

definition wss_listener :: "cert_loader \<Rightarrow> wss_args \<Rightarrow> py_error + listener" where
  "wss_listener ck a =
     (if 0 < length (w_certfile a)
      then (if ck (w_certfile a) (w_keyfile a)
            then Inr \<lparr>l_kind = WebSocketListener, l_host = w_host a, l_port = w_port a,
                      l_tls = Some (w_certfile a, w_keyfile a)\<rparr>
            else Inl ModelError)
      else Inr \<lparr>l_kind = WebSocketListener, l_host = w_host a, l_port = w_port a, l_tls = None\<rparr>)"

definition wss_start :: "model_loader \<Rightarrow> cert_loader \<Rightarrow> wss_args \<Rightarrow> py_error + (loaded_models \<times> listener)" where
  "wss_start ld ck a =
     (case wss_load_models ld a of
        Inl (e, _) \<Rightarrow> Inl e
      | Inr lm \<Rightarrow> sbind (wss_listener ck a) (\<lambda>l. Inr (lm, l)))"

text \<open>
  The HTTP server's \<open>init_model\<close> (lines 31--51) loads the file model from a
  fixed path and re-raises.
\<close>

definition api_model_path :: string where
  "api_model_path = ''/home/dell/mnt/ai-work/Meeting/models/speech_paraformer-large-vad-punc-spk_asr_nat-zh-cn''"

definition api_init_model :: "model_loader \<Rightarrow> py_error + unit" where
  "api_init_model ld = (if ld api_model_path ''v2.0.4'' then Inr () else Inl ModelError)"

text \<open>
  Its main block (lines 171--183) catches an exception of \<open>init_model\<close> and
  of uvicorn and starts nothing, or runs uvicorn on \<open>0.0.0.0:10096\<close> with
  fixed TLS files. The result is whether the model loaded and the listener.
\<close>

definition api_main :: "model_loader \<Rightarrow> cert_loader \<Rightarrow> bool \<times> listener option" where
  "api_main ld ck =
     (case api_init_model ld of
        Inl _ \<Rightarrow> (False, None)
      | Inr () \<Rightarrow>
          (True, if ck ''/home/dell/mnt/ai-work/Meeting/ssl_key/server.crt'' ''/home/dell/mnt/ai-work/Meeting/ssl_key/server.key''
                 then Some \<lparr>l_kind = HttpListener, l_host = ''0.0.0.0'', l_port = 10096,
                            l_tls = Some (''/home/dell/mnt/ai-work/Meeting/ssl_key/server.crt'',
                                          ''/home/dell/mnt/ai-work/Meeting/ssl_key/server.key'')\<rparr>
                 else None))"

section \<open>Properties of the start-up\<close>

lemma load_global_Inr:
  "load_global ld m r f lm = Inr lm' \<longleftrightarrow> ld m r \<and> lm' = f lm"
  by (auto simp: load_global_def)

lemma u_init_models_Inr:
  "u_init_models ld a = Inr lm \<longleftrightarrow>
     ld (a_asr_model a) (a_asr_model_revision a) \<and>
     ld (a_asr_model_online a) (a_asr_model_online_revision a) \<and>
     ld (a_vad_model a) (a_vad_model_revision a) \<and>
     (a_punc_model a \<noteq> [] \<longrightarrow> ld (a_punc_model a) (a_punc_model_revision a)) \<and>
     ld (a_file_model a) (a_file_model_revision a) \<and>
     lm = \<lparr>lm_asr = True, lm_asr_streaming = True, lm_vad = True, lm_punc = (a_punc_model a \<noteq> []),
           lm_file = True\<rparr>"
  by (auto simp: u_init_models_def sbind_Inr_iff load_global_Inr no_models_def)

lemma u_start_fastapi_server_kind:
  "u_start_fastapi_server ck a = Some l \<Longrightarrow> l_kind l = HttpListener"
  by (auto simp: u_start_fastapi_server_def split: if_splits)

lemma u_main_Inl:
  "u_init_models ld a = Inl (e, lm) \<Longrightarrow> u_main ld ck a = (lm, [])"
  by (simp add: u_main_def)

text \<open>
  C35: the unified server serves only with every model loaded. Whenever a
  listener is up after the main block, \<open>init_models\<close> returned, so the
  globals hold the four WebSocket models (the punctuation model exactly when
  one is configured) and the file model, and \<open>GET /api/health\<close> reports both
  model groups loaded; and the WebSocket listener never runs without the
  HTTP one.
\<close>

theorem u_main_serves_loaded:
  assumes "snd (u_main ld ck a) \<noteq> []"
  shows "fst (u_main ld ck a) =
           \<lparr>lm_asr = True, lm_asr_streaming = True, lm_vad = True, lm_punc = (a_punc_model a \<noteq> []),
            lm_file = True\<rparr> \<and>
         u_health_check (fst (u_main ld ck a)) users =
           \<lparr>uh_status = ''ok'', uh_websocket_model_loaded = True, uh_file_model_loaded = True,
            uh_websocket_users = card users\<rparr> \<and>
         HttpListener \<in> l_kind ` set (snd (u_main ld ck a))"
proof (cases "u_init_models ld a")
  case (Inl r)
  then show ?thesis
    using assms by (cases r) (simp add: u_main_Inl)
next
  case (Inr lm)
  then have lm: "lm = \<lparr>lm_asr = True, lm_asr_streaming = True, lm_vad = True,
                         lm_punc = (a_punc_model a \<noteq> []), lm_file = True\<rparr>"
    by (simp add: u_init_models_Inr)
  obtain api where api: "u_start_fastapi_server ck a = Some api"
    using Inr assms by (auto simp: u_main_def split: option.splits)
  then have "l_kind api = HttpListener"
    by (simp add: u_start_fastapi_server_kind)
  with Inr api lm show ?thesis
    by (auto simp: u_main_def u_health_check_def split: option.splits)
qed

theorem u_main_serves_loaded_witness:
  "snd (u_main (\<lambda>_ _. True) (\<lambda>_ _. True) u_default_args) \<noteq> [] \<and>
   u_health_check (fst (u_main (\<lambda>_ _. True) (\<lambda>_ _. True) u_default_args)) ({} :: nat set) =
     \<lparr>uh_status = ''ok'', uh_websocket_model_loaded = True, uh_file_model_loaded = True,
      uh_websocket_users = 0\<rparr>"
proof -
  have "snd (u_main (\<lambda>_ _. True) (\<lambda>_ _. True) u_default_args) \<noteq> []"
    by (simp add: u_main_def u_init_models_def load_global_def u_start_fastapi_server_def u_default_args_def)
  then show ?thesis
    using u_main_serves_loaded [of "\<lambda>_ _. True" "\<lambda>_ _. True" u_default_args "{} :: nat set"]
    by (simp add: u_health_check_def)
qed

text \<open>
  When the file model does not load, \<open>init_models\<close> raises after the
  four WebSocket models have been loaded: the globals keep them, the main
  block logs the error, and no listener starts, so the WebSocket service is
  down although its models are in memory.
\<close>

theorem u_main_file_model_fails:
  assumes "ld (a_asr_model a) (a_asr_model_revision a)"
    and "ld (a_asr_model_online a) (a_asr_model_online_revision a)"
    and "ld (a_vad_model a) (a_vad_model_revision a)"
    and "ld (a_punc_model a) (a_punc_model_revision a)"
    and "\<not> ld (a_file_model a) (a_file_model_revision a)"
  shows "u_main ld ck a =
           (\<lparr>lm_asr = True, lm_asr_streaming = True, lm_vad = True, lm_punc = (a_punc_model a \<noteq> []),
             lm_file = False\<rparr>, [])"
  using assms
  by (simp add: u_main_def u_init_models_def load_global_def no_models_def)

theorem u_main_file_model_fails_witness:
  "(\<lambda>m r. m \<noteq> a_file_model u_default_args) (a_asr_model u_default_args) (a_asr_model_revision u_default_args) \<and>
   (\<lambda>m r. m \<noteq> a_file_model u_default_args) (a_asr_model_online u_default_args) (a_asr_model_online_revision u_default_args) \<and>
   (\<lambda>m r. m \<noteq> a_file_model u_default_args) (a_vad_model u_default_args) (a_vad_model_revision u_default_args) \<and>
   (\<lambda>m r. m \<noteq> a_file_model u_default_args) (a_punc_model u_default_args) (a_punc_model_revision u_default_args) \<and>
   \<not> (\<lambda>m r. m \<noteq> a_file_model u_default_args) (a_file_model u_default_args) (a_file_model_revision u_default_args) \<and>
   u_main (\<lambda>m r. m \<noteq> a_file_model u_default_args) (\<lambda>_ _. True) u_default_args =
     (\<lparr>lm_asr = True, lm_asr_streaming = True, lm_vad = True, lm_punc = True, lm_file = False\<rparr>, [])"
  using u_main_file_model_fails [of "\<lambda>m r. m \<noteq> a_file_model u_default_args" u_default_args "\<lambda>_ _. True"]
  by (simp add: u_default_args_def)

end
