(* ===== verification/Connections.thy ===== *)
theory Connections
  imports UnifiedServer HttpEndpoint
begin

text \<open>
  Several connections of the unified server at once. Each accepted
  connection runs its own \<open>ws_serve\<close> task
  (\<open>src/websocket/funasr_unified_server.py\<close>, lines 438--528); the tasks share
  the registry \<open>websocket_users\<close> (line 90), which \<open>GET /api/health\<close> and
  \<open>GET /api/status\<close> count. The event loop interleaves the tasks at their
  \<open>await\<close>s; since a task handles a frame to completion before it takes the
  next one, an interleaving is a sequence of events: a connection opens (the
  set-up of lines 440--453), one of its frames is handled (one iteration,
  \<open>u_ws_step\<close>), or its client goes away (the loop ends). When the loop
  ends, by an exception or by the close, the \<open>finally\<close> block deregisters
  the connection and the task ends. Connections are named by numbers, and
  an \<open>Open\<close> of a name whose task is running is not an event of the server.
  The GPU device is shared by all tasks: a frame is handled on the current
  device state, and the state the memory guard leaves (after
  \<open>torch.cuda.empty_cache\<close>) is the one the next frame of any connection
  sees.
\<close>

datatype event = Open nat | Deliver nat inbound | Drop nat

primrec ev_conn :: "event \<Rightarrow> nat" where
  "ev_conn (Open i) = i"
| "ev_conn (Deliver i m) = i"
| "ev_conn (Drop i) = i"

record u_server =
  us_users :: "nat set"
  us_conns :: "nat \<Rightarrow> u_session option"
  us_gpu :: "gpu_device option"

definition u_server_init :: "gpu_device option \<Rightarrow> u_server" where
  "u_server_init g = \<lparr>us_users = {}, us_conns = Map.empty, us_gpu = g\<rparr>"

text \<open>Lines 526--528 at the end of task \<open>i\<close>: \<open>websocket_users.discard\<close>; the task's state goes with it.\<close>

definition u_task_end :: "nat \<Rightarrow> u_server \<Rightarrow> u_server" where
  "u_task_end i srv = srv\<lparr>us_users := us_users srv - {i}, us_conns := (us_conns srv)(i := None)\<rparr>"

fun u_server_step :: "u_collaborators \<Rightarrow> u_server \<Rightarrow> event \<Rightarrow> u_server" where
  "u_server_step co srv (Open i) =
     (if us_conns srv i \<noteq> None then srv
      else srv\<lparr>us_users := insert i (us_users srv), us_conns := (us_conns srv)(i \<mapsto> u_session_init (us_gpu srv))\<rparr>)"
| "u_server_step co srv (Deliver i m) =
     (case us_conns srv i of
        None \<Rightarrow> srv
      | Some s \<Rightarrow>
          (case u_ws_step co (s\<lparr>u_gpu := us_gpu srv\<rparr>) m of
             Inl (_, s') \<Rightarrow> (u_task_end i srv)\<lparr>us_gpu := u_gpu s'\<rparr>
           | Inr s' \<Rightarrow> srv\<lparr>us_conns := (us_conns srv)(i \<mapsto> s'), us_gpu := u_gpu s'\<rparr>))"
| "u_server_step co srv (Drop i) =
     (case us_conns srv i of None \<Rightarrow> srv | Some _ \<Rightarrow> u_task_end i srv)"

definition u_server_run :: "u_collaborators \<Rightarrow> u_server \<Rightarrow> event list \<Rightarrow> u_server" where
  "u_server_run co srv es = foldl (u_server_step co) srv es"

text \<open>
  Lines 321--324: \<open>clear_websocket\<close> empties the registry; it is never
  called, and it would leave running tasks unregistered.
\<close>

definition u_clear_websocket :: "u_server \<Rightarrow> u_server" where
  "u_clear_websocket srv = srv\<lparr>us_users := {}\<rparr>"

section \<open>Properties\<close>

lemma u_server_run_simps [simp]:
  "u_server_run co srv [] = srv"
  "u_server_run co srv (e # es) = u_server_run co (u_server_step co srv e) es"
  by (simp_all add: u_server_run_def)

text \<open>Without a CUDA device the memory guard admits everything and the device stays absent.\<close>

lemma u_check_no_device: "u_check_memory_before_processing n None = (True, None)"
  by (simp add: u_check_memory_before_processing_def u_get_gpu_memory_info_def get_gpu_memory_info_def)

lemma u_asr_chunks_gpu: "u_gpu (u_asr_chunks co h n i cs s) = u_gpu s"
  by (induction co h n i cs s rule: u_asr_chunks.induct) (simp_all add: u_send_def split: option.splits)

lemma u_async_asr_no_device: "u_gpu s = None \<Longrightarrow> u_gpu (u_async_asr co a s) = None"
  by (simp add: u_async_asr_def Let_def u_check_no_device u_asr_chunks_gpu u_send_def
           split: sum.splits option.splits)

lemma u_ws_step_no_device:
  assumes "u_gpu s = None"
  shows "u_gpu (u_res_state (u_ws_step co s m)) = None"
proof (cases m)
  case (TextFrame c)
  have "u_gpu (u_control_head c s) = None" "\<And>t. u_gpu (u_control_tail c t) = u_gpu t"
    using assms by (simp_all add: u_control_head_def u_control_tail_def Let_def split: option.splits)
  with TextFrame show ?thesis
    by (simp add: u_handle_control_def u_res_state_def u_upload_complete_def u_async_asr_no_device
                  u_send_def Let_def split: option.splits sum.splits)
next
  case (BinaryFrame b)
  with assms show ?thesis
    by (simp add: u_handle_audio_def u_res_state_def u_async_asr_no_device u_async_asr_online_def
                  u_send_def Let_def split: option.splits)
qed (simp add: u_res_state_def assms)

lemma u_server_step_no_device:
  "us_gpu srv = None \<Longrightarrow> us_gpu (u_server_step co srv e) = None"
proof (cases e)
  case (Deliver i m)
  assume g: "us_gpu srv = None"
  show ?thesis
  proof (cases "us_conns srv i")
    case (Some s)
    have "u_gpu (u_res_state (u_ws_step co (s\<lparr>u_gpu := us_gpu srv\<rparr>) m)) = None"
      using g by (intro u_ws_step_no_device) simp
    with Deliver Some show ?thesis
      by (auto simp: u_res_state_def u_task_end_def split: sum.splits)
  qed (simp add: Deliver g)
qed (auto simp: u_task_end_def split: option.splits)

text \<open>An event of another connection leaves connection \<open>i\<close> alone.\<close>

lemma u_server_step_other:
  "ev_conn e \<noteq> i \<Longrightarrow> us_conns (u_server_step co srv e) i = us_conns srv i"
  by (cases e) (auto simp: u_task_end_def split: option.splits sum.splits)

text \<open>On the same device state, an event of connection \<open>i\<close> reads and writes only its own entry.\<close>

lemma u_server_step_own:
  "us_conns srv i = us_conns srv' i \<Longrightarrow> us_gpu srv = us_gpu srv' \<Longrightarrow> ev_conn e = i \<Longrightarrow>
   us_conns (u_server_step co srv e) i = us_conns (u_server_step co srv' e) i"
  by (cases e) (auto simp: u_task_end_def split: option.splits sum.splits)

definition registry_wf :: "u_server \<Rightarrow> bool" where
  "registry_wf srv \<longleftrightarrow> us_users srv = dom (us_conns srv)"

lemma u_server_step_wf:
  "registry_wf srv \<Longrightarrow> registry_wf (u_server_step co srv e)"
  by (cases e) (auto simp: registry_wf_def u_task_end_def split: option.splits sum.splits)

lemma u_clear_websocket_not_wf:
  "dom (us_conns srv) \<noteq> {} \<Longrightarrow> \<not> registry_wf (u_clear_websocket srv)"
  by (auto simp: registry_wf_def u_clear_websocket_def)

lemma u_server_run_wf:
  "registry_wf srv \<Longrightarrow> registry_wf (u_server_run co srv es)"
  by (induction es arbitrary: srv) (simp_all add: u_server_step_wf)

text \<open>
  C36: isolation of the connections (spec section 5: no session's buffers or
  caches are touched by another session's task). On a server without a CUDA
  device, under any interleaving, the state of connection \<open>i\<close> (\<open>None\<close>
  when its task is not running) is the state it reaches on its own events
  alone. With a device, the tasks share the memory guard's device state.
\<close>

theorem u_server_run_isolation:
  assumes "us_gpu srv = None"
  shows "us_conns (u_server_run co srv es) i =
         us_conns (u_server_run co srv (filter (\<lambda>e. ev_conn e = i) es)) i"
proof -
  have "us_conns srv i = us_conns srv' i \<Longrightarrow> us_gpu srv = None \<Longrightarrow> us_gpu srv' = None \<Longrightarrow>
        us_conns (u_server_run co srv es) i =
        us_conns (u_server_run co srv' (filter (\<lambda>e. ev_conn e = i) es)) i" for srv'
  proof (induction es arbitrary: srv srv')
    case Nil
    then show ?case by simp
  next
    case (Cons e es)
    have g: "us_gpu (u_server_step co srv e) = None"
      using Cons.prems(2) by (rule u_server_step_no_device)
    show ?case
    proof (cases "ev_conn e = i")
      case True
      have "us_gpu (u_server_step co srv' e) = None"
        using Cons.prems(3) by (rule u_server_step_no_device)
      moreover have "us_conns (u_server_step co srv e) i = us_conns (u_server_step co srv' e) i"
        using Cons.prems True by (intro u_server_step_own) simp_all
      ultimately show ?thesis
        using Cons.IH [of "u_server_step co srv e" "u_server_step co srv' e"] g True by simp
    next
      case False
      then show ?thesis
        using Cons.IH [of "u_server_step co srv e" srv'] Cons.prems g
        by (simp add: u_server_step_other)
    qed
  qed
  with assms show ?thesis by simp
qed

theorem u_server_run_isolation_witness:
  "us_gpu (u_server_init None) = None \<and>
   us_conns (u_server_run \<lparr>u_asr_generate = (\<lambda>_ _ _. None), u_online_generate = (\<lambda>_ _ _. None)\<rparr> (u_server_init None)
     [Open 1, Open 2, Deliver 2 BadJson, Deliver 1 (BinaryFrame [1]), Drop 2]) 1 =
   us_conns (u_server_run \<lparr>u_asr_generate = (\<lambda>_ _ _. None), u_online_generate = (\<lambda>_ _ _. None)\<rparr> (u_server_init None) [Open 1, Deliver 1 (BinaryFrame [1])]) 1"
  using u_server_run_isolation [of "u_server_init None" "\<lparr>u_asr_generate = (\<lambda>_ _ _. None), u_online_generate = (\<lambda>_ _ _. None)\<rparr>"
      "[Open 1, Open 2, Deliver 2 BadJson, Deliver 1 (BinaryFrame [1]), Drop 2]" 1]
  by (simp add: u_server_init_def)

text \<open>
  C37: the registry counts exactly the running tasks: from the empty server,
  after any interleaving, \<open>websocket_users\<close> is the set of connections whose
  task runs, so the \<open>websocket_users\<close> field of \<open>GET /api/health\<close> is their
  number.
\<close>

theorem u_server_run_registry:
  "us_users (u_server_run co (u_server_init g) es) = dom (us_conns (u_server_run co (u_server_init g) es)) \<and>
   uh_websocket_users (u_health_check models (us_users (u_server_run co (u_server_init g) es))) =
     card (dom (us_conns (u_server_run co (u_server_init g) es)))"
proof -
  have "registry_wf (u_server_run co (u_server_init g) es)"
    by (rule u_server_run_wf) (simp add: registry_wf_def u_server_init_def)
  then show ?thesis
    by (simp add: registry_wf_def u_health_check_def)
qed

end
