(* ===== verification/Spec2Isabelle.thy ===== *)
theory Spec2Isabelle
  imports AudioBuffer ActivityCheck TextEmitter ResultMerger TurnFormat ResourceGuard Coordinator
    SegmentDetector Session UnifiedServer HttpEndpoint Bootstrap Connections
begin

text \<open>
  \<^bold>\<open>A verification development for the FunASR meeting-transcription servers.\<close>

  \<^bold>\<open>The program.\<close> The repository holds three Python servers under
  \<open>src/websocket/\<close>. \<open>funasr_wss_server.py\<close> is the streaming WebSocket
  server: one handler \<open>ws_serve\<close> per connection drives a voice-activity
  detector, an online and an offline recogniser and a punctuation model.
  \<open>funasr_unified_server.py\<close> serves a simpler WebSocket handler and an HTTP
  upload endpoint from one process. \<open>funasr_api_server.py\<close> is the HTTP
  upload endpoint alone. The recognition models are external collaborators.
  What the code itself decides is the per-connection protocol: how audio is
  buffered, when each recognition pass runs, which text is sent, how the
  speaker-labelled sentences of an uploaded file are merged into turns and
  displayed, when GPU memory is judged sufficient, and which temporary files
  an upload leaves behind.

  \<^bold>\<open>Layout.\<close> One theory per component; each opens with a text naming the
  source lines it translates.
  \<^item> \<open>Prelude\<close>: Python \<open>bytes\<close> as \<open>8 word list\<close>, \<open>str\<close> as a list of code
    points, the Python exceptions (\<open>py_error\<close>) and the sequencing \<open>sbind\<close> of
    statements that may raise, and the built-ins whose semantics differ from
    HOL's: negative slicing, floor and true division, \<open>str.strip\<close>, \<open>in\<close>,
    \<open>str.split\<close>, \<open>int(str)\<close> (\<open>py_int_of_str\<close>) and \<open>str(int)\<close>
    (\<open>show_int\<close>).
  \<^item> \<open>AudioBuffer\<close>: the two \<open>AudioBuffer\<close> classes as records
    (\<open>audio_buffer\<close>, streaming server lines 180--215; \<open>u_audio_buffer\<close>,
    unified server lines 247--277), one definition per method, the invariant
    \<open>processed_size \<le> len(buffer)\<close>, and the spec's eviction policy
    \<open>spec_evict_append\<close> beside the unified class.
  \<^item> \<open>ActivityCheck\<close>: \<open>is_likely_active\<close> (lines 217--229), with the
    samples as \<open>16 word\<close> values so that \<open>np.abs\<close> wraps as \<open>int16\<close> does.
  \<^item> \<open>TextEmitter\<close>: the delta emission of the streaming \<open>async_asr_online\<close>
    (\<open>emit_new_text\<close>, \<open>emit_all\<close>).
  \<^item> \<open>ResultMerger\<close>: the fold of \<open>process_recognition_result\<close> over the
    sentences (\<open>merge_sentence\<close>, \<open>process_sentences\<close>) and the spec's merge
    (\<open>merge_spec\<close>) it refines. \<open>TurnFormat\<close>: the result dictionaries, with
    the speaker label and the \<open>time_range\<close> display string.
  \<^item> \<open>ResourceGuard\<close>: both \<open>check_memory_before_processing\<close> with their
    helpers, over an explicit device state.
  \<^item> \<open>Coordinator\<close>: the streaming server's offline pass \<open>async_asr\<close>,
    \<open>split_audio_chunks\<close> (\<open>chunks_of\<close>, a terminating \<open>function\<close>) and the
    online pass. \<open>SegmentDetector\<close>: \<open>async_vad\<close> and the look-back splice of
    \<open>ws_serve\<close>.
  \<^item> \<open>Session\<close>: the streaming \<open>ws_serve\<close>. The connection's attributes, the
    loop locals, the GPU device, the messages sent and the registration in
    \<open>websocket_users\<close> form the record \<open>session\<close>. One iteration of
    \<open>async for\<close> is \<open>ws_step\<close>, composed as the code is of
    \<open>handle_control\<close>, \<open>set_vad_chunk_size\<close>, \<open>handle_audio\<close> and
    \<open>segment_boundary\<close>; an exception is a value \<open>Inl (e, s)\<close> carrying the
    state at the raise; \<open>ws_run\<close> folds the frames and \<open>ws_serve\<close> adds the
    handlers, chosen by how the loop ended: a normal close (code 1000 or
    1001, \<open>close_kind\<close> \<open>CloseNormal\<close>) ends \<open>async for\<close> with no
    handler, an abnormal close runs the \<open>ConnectionClosed\<close> teardown, and an
    exception the generic handler.
  \<^item> \<open>UnifiedServer\<close>: the unified \<open>ws_serve\<close> in the same style
    (\<open>u_session\<close>, \<open>u_ws_step\<close>, \<open>u_ws_run\<close>, \<open>u_ws_serve\<close> with its
    \<open>finally\<close>), with its \<open>async_asr\<close>, \<open>async_asr_online\<close>,
    \<open>merge_stream_results\<close> and the \<open>range\<close> loop of its
    \<open>split_audio_chunks\<close> (\<open>u_split_loop\<close>, a \<open>function\<close> with a measure).
  \<^item> \<open>HttpEndpoint\<close>: \<open>recognize_audio\<close> of both HTTP servers, with the
    temporary files as explicit state (\<open>tmp_state\<close>), and the health and
    status routes.
  \<^item> \<open>Bootstrap\<close>: the start-up of the three processes: the parsed
    arguments and their defaults, the model loading (\<open>init_models\<close>, the
    module-level loading of the streaming server, \<open>init_model\<close>) as a
    sequence of assignments that may raise, and the listeners that come up.
  \<^item> \<open>Connections\<close>: several connections of the unified server interleaved
    as a sequence of events (a connection opens, one of its frames is
    handled, its client goes away) over the shared registry
    \<open>websocket_users\<close> and the shared GPU device; each frame is one
    \<open>u_ws_step\<close>, and the end of a task is the \<open>finally\<close> block.

  Components interact through the records of collaborators (one function per
  model, \<open>None\<close> when the model raises) and through shared definitions: both
  WebSocket handlers use the control record and \<open>parse_chunk_size\<close> of
  \<open>Session\<close>, the buffers of \<open>AudioBuffer\<close> and the guards of
  \<open>ResourceGuard\<close>; both HTTP routes use the merger and \<open>TurnFormat\<close>.

  \<^bold>\<open>What the lemmas show.\<close>
  \<^item> Buffers: the streaming buffer never loses unprocessed audio but is not
    bounded by its capacity; the unified buffer is bounded, but its eviction
    raises the watermark where the spec lowers it, so a chunk appended to a
    full, fully processed buffer is never recognised. The energy test reads a
    full-scale negative signal as energy \<open>-32768\<close> per sample, tests 320
    bytes where its comment asks for 320 samples, and raises on an odd byte
    count.
  \<^item> Emission and merging: the emitted deltas concatenate to the last text
    when the texts grow, and a shorter text makes the next deltas lose a
    prefix; the code's merge equals the spec's, loses no text, is idempotent,
    and can give adjacent turns of one speaker; the display string can read
    \<open>1:60.0\<close>.
  \<^item> Guards and passes: the unified guard admits the spec's scenario C; the
    streaming guard admits exactly when four times the size is free after
    clearing. Splitting is a round trip with bounded chunks, and the unified
    \<open>range\<close> loop computes the same chunks. The streaming offline pass sends
    at most one message and reports no failure of a chunked segment to the
    client; the unified one reports a failed small segment.
  \<^item> Sessions: the invariants and exception paths of the streaming handler
    (a connection is deregistered only by an abnormal close, and the
    stream-final flush never reaches the client; malformed JSON,
    early audio or a missing \<open>is_speaking\<close> end it, end points reset the
    segment state, upload mode never leaves audio for \<open>upload_complete\<close>,
    a short frame divides by zero, the buffer stays well formed); for the
    unified handler, the modes it can send, its whole-text online messages,
    its repeated final message, and that its \<open>finally\<close> always deregisters
    and clears.
  \<^item> HTTP: the temporary file is removed on every path once the upload has
    been read, and left behind when reading raises; 400 is answered exactly
    for a missing file name.
  \<^item> Start-up: the unified server serves only with every model loaded, so its
    health route then reports both model groups loaded, and its WebSocket
    listener never outlives the HTTP one; a file model that does not load
    leaves the WebSocket models in memory with no listener up.
  \<^item> Interleaving: on a server without a CUDA device, the state of each
    connection is what its own events alone produce, whatever the other
    connections do; with a device, the tasks share the memory guard's
    device state, which the claim leaves out. The registry always holds
    exactly the running tasks, so the health route counts them.

  \<^bold>\<open>Bounds and numbers.\<close> The loops are structural or carry a measure, so
  no fuel is needed: every definition is total. Sizes are natural numbers
  (Python's unbounded ints); audio bytes are \<open>8 word\<close> values and the PCM
  samples of \<open>is_likely_active\<close> \<open>16 word\<close> values, because
  \<open>int16\<close> arithmetic wraps there. Times and GPU sizes are
  reals: the model computes exactly where Python rounds doubles; the claims
  avoid inputs where the double rounding could matter (ties of the one-decimal
  format) and the guard compares with the exact products.

  \<^bold>\<open>Not modelled.\<close> In the start-up, the device arguments (\<open>ngpu\<close>,
  \<open>ncpu\<close>, \<open>device\<close>), which are only passed on to \<open>AutoModel\<close>, the
  event loops and the CORS set-up. \<open>clear_websocket\<close> of the streaming server is never called (its call is
  commented out); the unified server's \<open>clear_websocket\<close> and \<open>async_vad\<close>,
  also never called, are modelled (\<open>u_clear_websocket\<close>, \<open>u_async_vad\<close>)
  without claims. Logging, printing, timestamps and the JSON encoding are
  not modelled; a message is its mode, text, finality and chunk index.
  \<open>int(str)\<close> is modelled on optionally signed decimal digits with
  surrounding white space (no underscores, no non-ASCII digits). The scripts
  under \<open>src/test/\<close> are manual clients and diagnostics that call external
  models and print.
\<close>

end
